(* ===== verification/Prelude.thy ===== *)
theory Prelude
  imports Complex_Main "HOL-Library.AList" "HOL-Library.Multiset"
begin

text \<open>
  Shared vocabulary of the development. The two scripts of the repository
  (\<open>src/artist_clustering.py\<close> and \<open>src/modified_artist_clustering.py\<close>) keep every
  record as a Python \<open>dict\<close> produced by \<open>csv.DictReader\<close> and mutate it in place. Here
  a dict is an association list, whose order is the dict's insertion order, read with
  \<open>map_of\<close> and written with \<open>AList.update\<close> (an existing key keeps its position, a new
  key goes to the end, as in CPython). A value stored in a record is a Python float,
  int or str (\<open>pyval\<close>); Python floats are modelled by exact reals (rounding is not
  modelled). Every exception the scripts can raise on the paths modelled is a
  constructor of \<open>py_error\<close>, and a fallible operation returns \<open>py_error + 'a\<close>.
\<close>

named_theorems pyeval "equations that evaluate the model on concrete inputs"

datatype pyval = PFloat real | PInt int | PStr string

datatype py_error =
    ZeroDivisionError
  | KeyError string
  | TypeError
  | IndexError
  | SolutionUnavailable \<comment> \<open>reading \<open>Var.X\<close> of a model that holds no solution\<close>
  | AttributeError \<comment> \<open>a method called on \<open>None\<close>\<close>
  | ValueError

type_synonym 'a pydict = "(string \<times> 'a) list"
type_synonym row = "pyval pydict"
type_synonym dataset = "row list"

subsection \<open>Dict access\<close>

text \<open>\<open>d.get(k, default)\<close>\<close>

definition dict_get :: "'a pydict \<Rightarrow> string \<Rightarrow> 'a \<Rightarrow> 'a" where
  "dict_get d k dflt = (case map_of d k of Some v \<Rightarrow> v | None \<Rightarrow> dflt)"

text \<open>\<open>d[k]\<close>, raising \<open>KeyError\<close> on a missing key\<close>

definition dict_index :: "'a pydict \<Rightarrow> string \<Rightarrow> py_error + 'a" where
  "dict_index d k = (case map_of d k of Some v \<Rightarrow> Inr v | None \<Rightarrow> Inl (KeyError k))"

text \<open>\<open>d.keys()\<close>\<close>

definition dict_keys :: "'a pydict \<Rightarrow> string list" where
  "dict_keys d = map fst d"

subsection \<open>Exceptions as values\<close>

text \<open>Sequencing of two fallible steps: an exception of the first aborts the second.\<close>

definition err_bind :: "'e + 'a \<Rightarrow> ('a \<Rightarrow> 'e + 'b) \<Rightarrow> 'e + 'b" where
  "err_bind m f = (case m of Inl e \<Rightarrow> Inl e | Inr a \<Rightarrow> f a)"

text \<open>A Python \<open>for\<close> loop over a list whose body may raise.\<close>

fun err_fold :: "('a \<Rightarrow> 's \<Rightarrow> 'e + 's) \<Rightarrow> 'a list \<Rightarrow> 's \<Rightarrow> 'e + 's" where
  "err_fold f [] s = Inr s"
| "err_fold f (x # xs) s = err_bind (f x s) (err_fold f xs)"

text \<open>A Python list comprehension whose element expression may raise.\<close>

fun err_map :: "('a \<Rightarrow> 'e + 'b) \<Rightarrow> 'a list \<Rightarrow> 'e + 'b list" where
  "err_map f [] = Inr []"
| "err_map f (x # xs) = err_bind (f x) (\<lambda>y. err_bind (err_map f xs) (\<lambda>ys. Inr (y # ys)))"

subsection \<open>Generic lemmas\<close>

lemma err_bind_Inl [simp, pyeval]: "err_bind (Inl e) f = Inl e"
  and err_bind_Inr [simp, pyeval]: "err_bind (Inr a) f = f a"
  by (simp_all add: err_bind_def)

lemma err_bind_eq_Inr [simp]:
  "err_bind m f = Inr b \<longleftrightarrow> (\<exists>a. m = Inr a \<and> f a = Inr b)"
  by (cases m) (simp_all add: err_bind_def)

lemma err_bind_eq_Inl:
  "err_bind m f = Inl e \<longleftrightarrow> m = Inl e \<or> (\<exists>a. m = Inr a \<and> f a = Inl e)"
  by (cases m) (simp_all add: err_bind_def)

lemma err_bind_assoc: "err_bind (err_bind m f) g = err_bind m (\<lambda>x. err_bind (f x) g)"
  by (cases m) (simp_all add: err_bind_def)

lemma err_map_Inr_iff:
  "err_map f xs = Inr ys \<longleftrightarrow> list_all2 (\<lambda>x y. f x = Inr y) xs ys"
proof (induction xs arbitrary: ys)
  case Nil
  then show ?case by auto
next
  case (Cons x xs)
  then show ?case by (cases ys) auto
qed

lemma err_map_map [simp]: "err_map (\<lambda>x. Inr (g x)) xs = Inr (map g xs)"
  by (induction xs) simp_all

lemma dict_get_simps [simp, pyeval]:
  "dict_get [] k dflt = dflt"
  "dict_get ((k', v) # d) k dflt = (if k = k' then v else dict_get d k dflt)"
  by (simp_all add: dict_get_def)

lemma dict_index_simps [simp, pyeval]:
  "dict_index [] k = Inl (KeyError k)"
  "dict_index ((k', v) # d) k = (if k = k' then Inr v else dict_index d k)"
  by (simp_all add: dict_index_def)

lemma dict_keys_simps [simp, pyeval]:
  "dict_keys [] = []" "dict_keys ((k, v) # d) = k # dict_keys d"
  by (simp_all add: dict_keys_def)

lemma dict_get_update:
  "dict_get (AList.update k v d) k' dflt = (if k' = k then v else dict_get d k' dflt)"
  by (simp add: dict_get_def update_conv')

lemma dict_index_update:
  "dict_index (AList.update k v d) k' = (if k' = k then Inr v else dict_index d k')"
  by (simp add: dict_index_def update_conv')

lemma dict_keys_update:
  "dict_keys (AList.update k v d) =
     (if k \<in> set (dict_keys d) then dict_keys d else dict_keys d @ [k])"
  by (simp add: dict_keys_def update_keys)

lemma dict_index_Inr_iff: "dict_index d k = Inr v \<longleftrightarrow> map_of d k = Some v"
  by (simp add: dict_index_def split: option.splits)

lemma dict_get_present: "map_of d k = Some v \<Longrightarrow> dict_get d k dflt = v"
  by (simp add: dict_get_def)

lemma dict_get_absent: "k \<notin> set (dict_keys d) \<Longrightarrow> dict_get d k dflt = dflt"
proof -
  assume "k \<notin> set (dict_keys d)"
  then have "map_of d k = None" by (simp add: dict_keys_def map_of_eq_None_iff)
  then show ?thesis by (simp add: dict_get_def)
qed

lemma sum_list_map_nonneg:
  "(\<And>x. x \<in> set xs \<Longrightarrow> (0::real) \<le> f x) \<Longrightarrow> 0 \<le> sum_list (map f xs)"
  by (induction xs) (auto intro: add_nonneg_nonneg)

lemma sum_list_map_eq_0_iff_nonneg:
  "(\<And>x. x \<in> set xs \<Longrightarrow> (0::real) \<le> f x) \<Longrightarrow>
     sum_list (map f xs) = 0 \<longleftrightarrow> (\<forall>x \<in> set xs. f x = 0)"
proof (induction xs)
  case Nil
  then show ?case by simp
next
  case (Cons x xs)
  have "0 \<le> f x" and "0 \<le> sum_list (map f xs)"
    using Cons.prems by (auto intro: sum_list_map_nonneg)
  then show ?case using Cons by (auto simp: add_nonneg_eq_0_iff)
qed

lemma count_list_update:
  "i < length xs \<Longrightarrow> count_list (xs[i := y]) z =
     count_list xs z - (if xs ! i = z then 1 else 0) + (if y = z then 1 else 0)"
proof (induction xs arbitrary: i)
  case Nil
  then show ?case by simp
next
  case (Cons x xs)
  show ?case
  proof (cases i)
    case 0
    then show ?thesis by simp
  next
    case (Suc i')
    then have "i' < length xs" using Cons.prems by simp
    moreover have "xs ! i' = z \<Longrightarrow> 0 < count_list xs z"
      using \<open>i' < length xs\<close> by (metis count_list_0_iff gr0I nth_mem)
    ultimately show ?thesis using Cons.IH Suc by auto
  qed
qed

lemma sum_list_map_upt0: "sum_list (map f [0..<n]) = (\<Sum>i<n. f i)"
  by (induction n) simp_all

lemma sum_nth_sum_list: "(\<Sum>i<length a. f (a ! i)) = sum_list (map f a)"
  by (simp add: sum_list_sum_nth atLeast0LessThan)

lemma sum_list_count: "sum_list (map (\<lambda>c. if c = j then (1::real) else 0) a) = real (count_list a j)"
  by (induction a) simp_all

lemma count_list_sum:
  "(\<Sum>i<length a. if a ! i = j then (1::real) else 0) = real (count_list a j)"
  using sum_nth_sum_list [where a = a and f = "\<lambda>c. if c = j then (1::real) else 0"] sum_list_count by simp

lemma sum_update_nth:
  assumes "i < length a"
  shows "(\<Sum>i' < length a. F i' (a[i := s] ! i')) =
           (\<Sum>i' < length a. F i' (a ! i')) - F i (a ! i) + (F i s :: 'b :: ab_group_add)"
proof -
  let ?A = "{..<length a}"
  have split: "(\<Sum>i' < length a. F i' (b ! i')) = F i (b ! i) + (\<Sum>i' \<in> ?A - {i}. F i' (b ! i'))"
    for b :: "'a list"
    using assms by (simp add: sum.remove [of ?A i])
  have "(\<Sum>i' \<in> ?A - {i}. F i' (a[i := s] ! i')) = (\<Sum>i' \<in> ?A - {i}. F i' (a ! i'))"
    by (intro sum.cong) auto
  then show ?thesis using split [of "a[i := s]"] split [of a] assms by (simp add: algebra_simps)
qed

lemma err_map_comp: "err_map f (map h xs) = err_map (\<lambda>x. f (h x)) xs"
  by (induction xs) simp_all

lemma err_map_zip_pairs:
  "length is = length xs \<Longrightarrow>
     err_map (\<lambda>(i, x). err_bind (g x) (\<lambda>c. Inr (i, c))) (zip is xs) =
       err_bind (err_map g xs) (\<lambda>cs. Inr (zip is cs))"
  by (induction "is" xs rule: list_induct2) (auto simp: err_bind_def split: sum.split)

lemma err_map_upt_nth:
  "err_map (\<lambda>i. err_bind (g (xs ! i)) (\<lambda>c. Inr (i, c))) [0..<length xs] =
     err_bind (err_map g xs) (\<lambda>cs. Inr (zip [0..<length xs] cs))"
proof -
  have "map (\<lambda>i. (i, xs ! i)) [0..<length xs] = zip [0..<length xs] xs"
    by (rule nth_equalityI) simp_all
  moreover have "err_map (\<lambda>i. err_bind (g (xs ! i)) (\<lambda>c. Inr (i, c))) [0..<length xs] =
      err_map (\<lambda>(i, x). err_bind (g x) (\<lambda>c. Inr (i, c))) (map (\<lambda>i. (i, xs ! i)) [0..<length xs])"
    by (simp add: err_map_comp)
  ultimately have "err_map (\<lambda>i. err_bind (g (xs ! i)) (\<lambda>c. Inr (i, c))) [0..<length xs] =
      err_map (\<lambda>(i, x). err_bind (g x) (\<lambda>c. Inr (i, c))) (zip [0..<length xs] xs)"
    by simp
  then show ?thesis by (simp add: err_map_zip_pairs)
qed

lemma count_list_replicate_eq [simp]: "count_list (replicate n x) y = (if x = y then n else 0)"
  by (induction n) auto


lemma err_map_Inl: "err_map f xs = Inl e \<Longrightarrow> \<exists>x \<in> set xs. f x = Inl e"
proof (induction xs)
  case Nil
  then show ?case by simp
next
  case (Cons x xs)
  then show ?case by (cases "f x"; cases "err_map f xs") (auto simp: err_bind_def)
qed


lemma list_all2_map_eq:
  assumes "list_all2 P xs ys" and "\<And>x y. P x y \<Longrightarrow> g y = h x"
  shows "map g ys = map h xs"
  using assms(1) by (induction rule: list_all2_induct) (simp_all add: assms(2))


lemma err_map_total: "(\<And>x. x \<in> set xs \<Longrightarrow> \<exists>y. f x = Inr y) \<Longrightarrow> \<exists>ys. err_map f xs = Inr ys"
proof (induction xs)
  case Nil
  then show ?case by simp
next
  case (Cons x xs)
  obtain y where "f x = Inr y" using Cons.prems by auto
  moreover obtain ys where "err_map f xs = Inr ys" using Cons by auto
  ultimately show ?case by simp
qed


lemma err_map_Inr_map: "(\<And>x. x \<in> set xs \<Longrightarrow> f x = Inr (g x)) \<Longrightarrow> err_map f xs = Inr (map g xs)"
  by (induction xs) simp_all


lemma map_eq_uniform:
  assumes "map f xs = map g ys" and "\<forall>y \<in> set ys. g y = c"
  shows "\<forall>x \<in> set xs. f x = c"
proof
  fix x assume "x \<in> set xs"
  then have "f x \<in> set (map g ys)" using assms(1) by (metis image_eqI list.set_map)
  then show "f x = c" using assms(2) by auto
qed

end
