(* ===== verification/PyFloat.thy ===== *)
theory PyFloat
  imports Prelude
begin

text \<open>
  Python's built-in \<open>float(x)\<close> as both scripts call it: in \<open>load_data\<close> on the CSV
  strings that pass the digit test, and in \<open>calculate_distance\<close> on whatever value a
  record holds. A string is read, after stripping ASCII whitespace, by the grammar of
  the \<open>float\<close> documentation: \<open>[sign] number [exponent]\<close> with
  \<open>number ::= [digitpart] "." digitpart | digitpart ["."]\<close>,
  \<open>exponent ::= ("e" | "E") [sign] digitpart\<close> and
  \<open>digitpart ::= digit (["_"] digit)*\<close> (digit groups with single underscores, PEP 515);
  \<open>None\<close> is the \<open>ValueError\<close> Python raises. The spellings \<open>inf\<close>, \<open>infinity\<close> and
  \<open>nan\<close>, which CPython accepts too, denote IEEE values that are not reals and are not
  modelled (they read as \<open>None\<close> here). Characters are ASCII: \<open>str.isdigit\<close> on
  non-ASCII digits is outside the model.
\<close>

definition is_digit :: "char \<Rightarrow> bool" where
  "is_digit c \<longleftrightarrow> of_char CHR ''0'' \<le> (of_char c :: nat) \<and> (of_char c :: nat) \<le> of_char CHR ''9''"

definition digit_val :: "char \<Rightarrow> nat" where
  "digit_val c = of_char c - of_char CHR ''0''"

definition digits_nat :: "string \<Rightarrow> nat" where
  "digits_nat ds = foldl (\<lambda>n c. 10 * n + digit_val c) 0 ds"

text \<open>\<open>str.isdigit()\<close>: non-empty and every character a digit.\<close>

definition py_isdigit :: "string \<Rightarrow> bool" where
  "py_isdigit s \<longleftrightarrow> s \<noteq> [] \<and> list_all is_digit s"

text \<open>\<open>str.replace(old, new, 1)\<close> for a one-character \<open>old\<close> and empty \<open>new\<close>.\<close>

fun py_replace_first :: "char \<Rightarrow> string \<Rightarrow> string" where
  "py_replace_first c [] = []"
| "py_replace_first c (d # s) = (if d = c then s else d # py_replace_first c s)"

definition is_space :: "char \<Rightarrow> bool" where
  "is_space c \<longleftrightarrow> c \<in> set [CHR '' '', CHR 0x09, CHR 0x0A, CHR 0x0B, CHR 0x0C, CHR 0x0D,
                           CHR 0x1C, CHR 0x1D, CHR 0x1E, CHR 0x1F]"

definition py_strip :: "string \<Rightarrow> string" where
  "py_strip s = rev (dropWhile is_space (rev (dropWhile is_space s)))"

definition parse_sign :: "string \<Rightarrow> int \<times> string" where
  "parse_sign s = (case s of
      [] \<Rightarrow> (1, [])
    | c # r \<Rightarrow> if c = CHR ''-'' then (-1, r) else if c = CHR ''+'' then (1, r) else (1, s))"

text \<open>\<open>(["_"] digit)*\<close>: the digits read, without the underscores; \<open>None\<close> when the
  string does not have that shape.\<close>

fun digitpart_tail :: "string \<Rightarrow> string option" where
  "digitpart_tail [] = Some []"
| "digitpart_tail (c # s) =
     (if is_digit c then map_option (Cons c) (digitpart_tail s)
      else if c = CHR ''_'' then
        (case s of
           [] \<Rightarrow> None
         | d # s' \<Rightarrow> if is_digit d then map_option (Cons d) (digitpart_tail s') else None)
      else None)"

text \<open>\<open>digitpart ::= digit (["_"] digit)*\<close>\<close>

definition digitpart :: "string \<Rightarrow> string option" where
  "digitpart s = (case s of
      [] \<Rightarrow> None
    | c # r \<Rightarrow> if is_digit c then map_option (Cons c) (digitpart_tail r) else None)"

text \<open>\<open>number ::= [digitpart] "." digitpart | digitpart ["."]\<close>\<close>

definition parse_decimal :: "string \<Rightarrow> real option" where
  "parse_decimal s =
     (let ip = takeWhile (\<lambda>c. c \<noteq> CHR ''.'') s; rest = dropWhile (\<lambda>c. c \<noteq> CHR ''.'') s in
      case rest of
        [] \<Rightarrow> map_option (\<lambda>ds. of_nat (digits_nat ds)) (digitpart ip)
      | _ # fp \<Rightarrow>
          (case (if ip = [] then Some [] else digitpart ip, if fp = [] then Some [] else digitpart fp) of
             (Some a, Some b) \<Rightarrow>
               if a @ b = [] then None
               else Some (of_nat (digits_nat a) + of_nat (digits_nat b) / 10 ^ length b)
           | _ \<Rightarrow> None))"

text \<open>\<open>exponent ::= ("e" | "E") [sign] digitpart\<close>, after the mark.\<close>

definition parse_exponent :: "string \<Rightarrow> int option" where
  "parse_exponent s =
     (let (sg, ds) = parse_sign s in map_option (\<lambda>d. sg * int (digits_nat d)) (digitpart ds))"

definition is_exp_mark :: "char \<Rightarrow> bool" where
  "is_exp_mark c \<longleftrightarrow> c = CHR ''e'' \<or> c = CHR ''E''"

definition py_float_str :: "string \<Rightarrow> real option" where
  "py_float_str s =
     (let (sg, u) = parse_sign (py_strip s);
          m = takeWhile (\<lambda>c. \<not> is_exp_mark c) u;
          ex = dropWhile (\<lambda>c. \<not> is_exp_mark c) u in
      case parse_decimal m of
        None \<Rightarrow> None
      | Some v \<Rightarrow>
          (case ex of
             [] \<Rightarrow> Some (of_int sg * v)
           | _ # es \<Rightarrow>
               (case parse_exponent es of
                  None \<Rightarrow> None
                | Some e \<Rightarrow> Some (of_int sg * v * 10 powi e))))"

text \<open>\<open>str(n)\<close> for a non-negative int, as the f-strings of the constraint names use it.\<close>

definition digit_char :: "nat \<Rightarrow> char" where
  "digit_char d = char_of (48 + d)"

fun py_str_nat :: "nat \<Rightarrow> string" where
  "py_str_nat n = (if n < 10 then [digit_char n] else py_str_nat (n div 10) @ [digit_char (n mod 10)])"

declare py_str_nat.simps [simp del]

text \<open>\<open>float(x)\<close> on a value held by a record: \<open>None\<close> is \<open>ValueError\<close>.\<close>

fun py_float :: "pyval \<Rightarrow> real option" where
  "py_float (PFloat r) = Some r"
| "py_float (PInt i) = Some (of_int i)"
| "py_float (PStr s) = py_float_str s"

end
