(* ===== verification/Distance.thy ===== *)
theory Distance
  imports PyFloat
begin

text \<open>
  The profile registry and the distance calculator of both scripts. The configuration
  tables are the module-level dicts \<open>ideal_artist\<close> and \<open>weights\<close> of
  \<open>artist_clustering.py\<close> and \<open>profiles\<close> of \<open>modified_artist_clustering.py\<close>. The
  weighted distance \<open>calculate_distance_w\<close> is \<open>calculate_distance(row, ideal, weights)\<close>
  of the first script, the unweighted \<open>calculate_distance\<close> the one of the second; both
  are the source's \<open>for\<close> loop with its running \<open>distance\<close> accumulator, the
  \<open>try\<close>/\<open>except ValueError\<close> of each iteration being the \<open>None\<close> branch of
  \<open>py_float\<close>. \<open>annotate_row\<close> is the inner loop of \<open>calculate_all_distances\<close>,
  which writes one \<open>Distance_to_<name>\<close> field per profile into the record it reads.
\<close>

type_synonym profile = "real pydict"

subsection \<open>Configuration\<close>

definition ideal_artist :: profile where
  "ideal_artist =
    [(''Number of Songs (Spotify)'', 3),
     (''Monthly listeners (Spotify)'', 5000),
     (''Total Streams (Spotify)'', 10000),
     (''Fan Retention Rate (Spotify)'', 10),
     (''Playlist Reach (Spotify)'', 10000),
     (''Platform Playlists appearence (Spotify)'', 1),
     (''Non-platform playlists (Spotify)'', 50),
     (''Spotify Following'', 1000),
     (''Instagram Following'', 1000),
     (''TikTok Following'', 10000)]"

definition weights :: "real pydict" where
  "weights =
    [(''Number of Songs (Spotify)'', 1),
     (''Monthly listeners (Spotify)'', 2),
     (''Total Streams (Spotify)'', 2),
     (''Fan Retention Rate (Spotify)'', 1.5),
     (''Playlist Reach (Spotify)'', 1.5),
     (''Platform Playlists appearence (Spotify)'', 1),
     (''Non-platform playlists (Spotify)'', 1),
     (''Spotify Following'', 1),
     (''Instagram Following'', 1),
     (''TikTok Following'', 1)]"

text \<open>One entry of the \<open>profiles\<close> dict: \<open>{'profile': ..., 'weight': ...}\<close>.\<close>

record cluster_cfg =
  profile :: profile
  weight :: real

definition profiles :: "cluster_cfg pydict" where
  "profiles =
    [(''Ready'', \<lparr>profile =
       [(''Number of Songs (Spotify)'', 3),
        (''Monthly listeners (Spotify)'', 5000),
        (''Total Streams (Spotify)'', 10000),
        (''Fan Retention Rate (Spotify)'', 10),
        (''Playlist Reach (Spotify)'', 10000),
        (''Platform Playlists appearence (Spotify)'', 1),
        (''Non-platform playlists (Spotify)'', 50),
        (''Spotify Following'', 1000),
        (''Instagram Following'', 1000),
        (''TikTok Following'', 10000)], weight = 1\<rparr>),
     (''Potential'', \<lparr>profile =
       [(''Number of Songs (Spotify)'', 2),
        (''Monthly listeners (Spotify)'', 2000),
        (''Total Streams (Spotify)'', 5000),
        (''Fan Retention Rate (Spotify)'', 5),
        (''Playlist Reach (Spotify)'', 5000),
        (''Platform Playlists appearence (Spotify)'', 0),
        (''Non-platform playlists (Spotify)'', 20),
        (''Spotify Following'', 500),
        (''Instagram Following'', 500),
        (''TikTok Following'', 5000)], weight = 0.5\<rparr>),
     (''Not Ready'', \<lparr>profile =
       [(''Number of Songs (Spotify)'', 0),
        (''Monthly listeners (Spotify)'', 0),
        (''Total Streams (Spotify)'', 0),
        (''Fan Retention Rate (Spotify)'', 0),
        (''Playlist Reach (Spotify)'', 0),
        (''Platform Playlists appearence (Spotify)'', 0),
        (''Non-platform playlists (Spotify)'', 0),
        (''Spotify Following'', 0),
        (''Instagram Following'', 0),
        (''TikTok Following'', 0)], weight = 0\<rparr>)]"

subsection \<open>Weighted distance (\<open>artist_clustering.py\<close>)\<close>

text \<open>The body of one iteration: \<open>row.get(feature, 0)\<close>, \<open>weights.get(feature, 1)\<close>, and the
  penalty \<open>weight * ideal_value\<close> when \<open>float(row_value)\<close> raises \<open>ValueError\<close>.\<close>

definition feature_term_w :: "row \<Rightarrow> real pydict \<Rightarrow> string \<times> real \<Rightarrow> real" where
  "feature_term_w row ws fi =
     (case fi of (feature, ideal_value) \<Rightarrow>
        let weight = dict_get ws feature 1 in
        case py_float (dict_get row feature (PInt 0)) of
          Some v \<Rightarrow> weight * \<bar>v - ideal_value\<bar>
        | None \<Rightarrow> weight * ideal_value)"

fun distance_loop_w :: "row \<Rightarrow> real pydict \<Rightarrow> profile \<Rightarrow> real \<Rightarrow> real" where
  "distance_loop_w row ws [] distance = distance"
| "distance_loop_w row ws (fi # fis) distance =
     distance_loop_w row ws fis (distance + feature_term_w row ws fi)"

definition calculate_distance_w :: "row \<Rightarrow> profile \<Rightarrow> real pydict \<Rightarrow> real" where
  "calculate_distance_w row ideal ws = distance_loop_w row ws ideal 0"

text \<open>\<open>calculate_all_distances(data, ideal, weights)\<close>: the field \<open>Distance_to_Ideal\<close>
  written into every record.\<close>

definition calculate_all_distances_w :: "dataset \<Rightarrow> profile \<Rightarrow> real pydict \<Rightarrow> dataset" where
  "calculate_all_distances_w data ideal ws =
     map (\<lambda>row. AList.update ''Distance_to_Ideal''
                  (PFloat (calculate_distance_w row ideal ws)) row) data"

subsection \<open>Unweighted distance (\<open>modified_artist_clustering.py\<close>)\<close>

definition feature_term :: "row \<Rightarrow> string \<times> real \<Rightarrow> real" where
  "feature_term row fi =
     (case fi of (feature, ideal_value) \<Rightarrow>
        case py_float (dict_get row feature (PInt 0)) of
          Some v \<Rightarrow> \<bar>v - ideal_value\<bar>
        | None \<Rightarrow> ideal_value)"

fun distance_loop :: "row \<Rightarrow> profile \<Rightarrow> real \<Rightarrow> real" where
  "distance_loop row [] distance = distance"
| "distance_loop row (fi # fis) distance = distance_loop row fis (distance + feature_term row fi)"

definition calculate_distance :: "row \<Rightarrow> profile \<Rightarrow> real" where
  "calculate_distance row prof = distance_loop row prof 0"

definition distance_key :: "string \<Rightarrow> string" where
  "distance_key cluster_name = ''Distance_to_'' @ cluster_name"

text \<open>The inner loop of \<open>calculate_all_distances(data, profiles)\<close> for one record: each
  profile's distance is computed on the record as updated by the previous iterations.\<close>

fun annotate_row :: "cluster_cfg pydict \<Rightarrow> row \<Rightarrow> row" where
  "annotate_row [] row = row"
| "annotate_row ((cluster_name, cluster_data) # ps) row =
     annotate_row ps
       (AList.update (distance_key cluster_name)
          (PFloat (calculate_distance row (profile cluster_data))) row)"

text \<open>Specification of \<open>annotate_row\<close>: every distance computed on the record as it
  was before the loop (\<open>src\<close>), whatever the loop wrote meanwhile.\<close>

fun annotate_from :: "row \<Rightarrow> cluster_cfg pydict \<Rightarrow> row \<Rightarrow> row" where
  "annotate_from src [] row = row"
| "annotate_from src ((cluster_name, cluster_data) # ps) row =
     annotate_from src ps
       (AList.update (distance_key cluster_name)
          (PFloat (calculate_distance src (profile cluster_data))) row)"

subsection \<open>The loops compute sums\<close>

lemmas py_float_defs [pyeval] = py_float_str_def py_strip_def parse_sign_def is_space_def
  parse_decimal_def is_digit_def digits_nat_def digit_val_def is_exp_mark_def
  parse_exponent_def py_isdigit_def digitpart_def

lemma distance_loop_w_sum:
  "distance_loop_w row ws fis acc = acc + (\<Sum>fi\<leftarrow>fis. feature_term_w row ws fi)"
  by (induction fis arbitrary: acc) (simp_all add: algebra_simps)

lemma distance_loop_sum:
  "distance_loop row fis acc = acc + (\<Sum>fi\<leftarrow>fis. feature_term row fi)"
  by (induction fis arbitrary: acc) (simp_all add: algebra_simps)

lemma calculate_distance_w_sum:
  "calculate_distance_w row ideal ws = (\<Sum>fi\<leftarrow>ideal. feature_term_w row ws fi)"
  by (simp add: calculate_distance_w_def distance_loop_w_sum)

lemma calculate_distance_sum:
  "calculate_distance row prof = (\<Sum>fi\<leftarrow>prof. feature_term row fi)"
  by (simp add: calculate_distance_def distance_loop_sum)

lemma feature_term_w_nonneg:
  "0 \<le> snd fi \<Longrightarrow> 0 \<le> dict_get ws (fst fi) 1 \<Longrightarrow> 0 \<le> feature_term_w row ws fi"
  by (auto simp: feature_term_w_def Let_def split: prod.splits option.splits)

lemma feature_term_w_unweighted: "feature_term_w row [] fi = feature_term row fi"
  by (simp add: feature_term_w_def feature_term_def split: prod.splits option.splits)

lemma feature_term_nonneg: "0 \<le> snd fi \<Longrightarrow> 0 \<le> feature_term row fi"
  using feature_term_w_nonneg [of fi "[]" row] by (simp add: feature_term_w_unweighted)

lemma feature_term_w_numeric:
  "py_float (dict_get row f (PInt 0)) = Some x \<Longrightarrow>
     feature_term_w row ws (f, v) = dict_get ws f 1 * \<bar>x - v\<bar>"
  by (simp add: feature_term_w_def)

lemma feature_term_w_zero_iff:
  assumes "py_float (dict_get row f (PInt 0)) = Some x" and "0 < dict_get ws f 1"
  shows "feature_term_w row ws (f, v) = 0 \<longleftrightarrow> py_float (dict_get row f (PInt 0)) = Some v"
  using assms by (simp add: feature_term_w_numeric)

lemma calculate_distance_update_other:
  assumes "k \<notin> set (dict_keys prof)"
  shows "calculate_distance (AList.update k v row) prof = calculate_distance row prof"
proof -
  have "feature_term (AList.update k v row) fi = feature_term row fi" if "fi \<in> set prof" for fi
  proof (cases fi)
    case (Pair f v)
    with assms that have "f \<noteq> k" by (force simp: dict_keys_def)
    with Pair show ?thesis by (simp add: feature_term_def dict_get_update)
  qed
  then show ?thesis by (simp add: calculate_distance_sum cong: map_cong)
qed

subsection \<open>Properties of the distance\<close>

text \<open>Claim C26: with non-negative ideal values and weights, the
  weighted distance of any record, numeric or not, is non-negative; the penalty branch
  included.\<close>

theorem calculate_distance_w_nonneg:
  assumes "\<forall>(f, v) \<in> set ideal. 0 \<le> v \<and> 0 \<le> dict_get ws f 1"
  shows "0 \<le> calculate_distance_w row ideal ws"
  unfolding calculate_distance_w_sum
  by (rule sum_list_map_nonneg) (use assms feature_term_w_nonneg in fastforce)

theorem calculate_distance_w_nonneg_witness:
  "0 \<le> calculate_distance_w [(''Artist Name'', PStr ''A'')] ideal_artist weights"
proof -
  have h: "\<forall>(f, v) \<in> set ideal_artist. 0 \<le> v \<and> 0 \<le> dict_get weights f 1"
    by (simp add: ideal_artist_def weights_def)
  show ?thesis by (rule calculate_distance_w_nonneg [OF h])
qed

text \<open>Claim C7: on a record whose fields for the profile's
  features are numeric (or absent), with positive weights, the distance is 0 exactly when
  the record has the ideal value on every feature of the profile.\<close>

theorem calculate_distance_w_zero_iff:
  assumes numeric: "\<forall>(f, v) \<in> set ideal. py_float (dict_get row f (PInt 0)) \<noteq> None"
    and pos: "\<forall>(f, v) \<in> set ideal. 0 < dict_get ws f 1"
  shows "calculate_distance_w row ideal ws = 0 \<longleftrightarrow>
           (\<forall>(f, v) \<in> set ideal. py_float (dict_get row f (PInt 0)) = Some v)"
proof -
  have nonneg: "0 \<le> feature_term_w row ws fi" if mem: "fi \<in> set ideal" for fi
  proof (cases fi)
    case (Pair f v)
    then obtain x where "py_float (dict_get row f (PInt 0)) = Some x"
      using bspec [OF numeric mem] Pair by auto
    moreover have "0 < dict_get ws f 1" using bspec [OF pos mem] Pair by auto
    ultimately show ?thesis using Pair by (simp add: feature_term_w_numeric)
  qed
  have term0: "feature_term_w row ws fi = 0 \<longleftrightarrow>
      (case fi of (f, v) \<Rightarrow> py_float (dict_get row f (PInt 0)) = Some v)"
    if mem: "fi \<in> set ideal" for fi
  proof (cases fi)
    case (Pair f v)
    then obtain x where "py_float (dict_get row f (PInt 0)) = Some x"
      using bspec [OF numeric mem] Pair by auto
    moreover have "0 < dict_get ws f 1" using bspec [OF pos mem] Pair by auto
    ultimately show ?thesis using Pair by (simp add: feature_term_w_zero_iff)
  qed
  have "calculate_distance_w row ideal ws = 0 \<longleftrightarrow> (\<forall>fi \<in> set ideal. feature_term_w row ws fi = 0)"
    unfolding calculate_distance_w_sum by (rule sum_list_map_eq_0_iff_nonneg) (rule nonneg)
  also have "\<dots> \<longleftrightarrow>
      (\<forall>fi \<in> set ideal. case fi of (f, v) \<Rightarrow> py_float (dict_get row f (PInt 0)) = Some v)"
    using term0 by blast
  finally show ?thesis by (simp add: case_prod_unfold)
qed

theorem calculate_distance_w_zero_iff_witness:
  "calculate_distance_w (map (\<lambda>(f, v). (f, PFloat v)) ideal_artist) ideal_artist weights = 0"
proof -
  let ?row = "map (\<lambda>(f, v). (f, PFloat v)) ideal_artist"
  have h1: "\<forall>(f, v) \<in> set ideal_artist. py_float (dict_get ?row f (PInt 0)) \<noteq> None"
    by (simp add: ideal_artist_def)
  have h2: "\<forall>(f, v) \<in> set ideal_artist. 0 < dict_get weights f 1"
    by (simp add: ideal_artist_def weights_def)
  have h3: "\<forall>(f, v) \<in> set ideal_artist. py_float (dict_get ?row f (PInt 0)) = Some v"
    by (simp add: ideal_artist_def)
  show ?thesis using h3 calculate_distance_w_zero_iff [OF h1 h2] by blast
qed

text \<open>A feature absent from a record counts as the value
  0: adding the feature with value \<open>0.0\<close> does not change the distance.\<close>

lemma missing_feature_is_zero:
  assumes "f \<notin> set (dict_keys row)"
  shows "calculate_distance_w (AList.update f (PFloat 0) row) ideal ws = calculate_distance_w row ideal ws"
proof -
  have "feature_term_w (AList.update f (PFloat 0) row) ws fi = feature_term_w row ws fi" for fi
    using assms by (cases fi) (simp add: feature_term_w_def dict_get_update dict_get_absent)
  then show ?thesis by (simp add: calculate_distance_w_sum)
qed

lemma missing_feature_is_zero_witness:
  "''TikTok Following'' \<notin> set (dict_keys [(''Artist Name'', PStr ''A'')]) \<and>
   calculate_distance_w (AList.update ''TikTok Following'' (PFloat 0) [(''Artist Name'', PStr ''A'')])
     ideal_artist weights =
   calculate_distance_w [(''Artist Name'', PStr ''A'')] ideal_artist weights"
proof -
  have h: "''TikTok Following'' \<notin> set (dict_keys [(''Artist Name'', PStr ''A'')])" by simp
  show ?thesis using h missing_feature_is_zero [OF h] by simp
qed

text \<open>Claim C35: the distance of
  \<open>modified_artist_clustering.py\<close> is the weighted distance of \<open>artist_clustering.py\<close>
  with an empty weight table, every weight defaulting to 1.\<close>

theorem calculate_distance_unweighted:
  "calculate_distance row prof = calculate_distance_w row prof []"
  by (simp add: calculate_distance_sum calculate_distance_w_sum feature_term_w_unweighted)

text \<open>The distance does not depend on the order in which
  the profile lists its features.\<close>

lemma calculate_distance_w_perm:
  "mset ideal = mset ideal' \<Longrightarrow>
     calculate_distance_w row ideal ws = calculate_distance_w row ideal' ws"
  by (simp add: calculate_distance_w_sum flip: sum_mset_sum_list)

lemma calculate_distance_w_perm_witness:
  "mset ideal_artist = mset (rev ideal_artist) \<and>
   calculate_distance_w [] ideal_artist weights = calculate_distance_w [] (rev ideal_artist) weights"
proof -
  have h: "mset ideal_artist = mset (rev ideal_artist)" by simp
  show ?thesis using h calculate_distance_w_perm [OF h] by simp
qed

lemma calculate_distance_zero_ideal:
  assumes "\<forall>fi \<in> set prof. snd fi = 0"
  shows "calculate_distance row prof = 0 \<longleftrightarrow>
           (\<forall>f \<in> set (dict_keys prof). py_float (dict_get row f (PInt 0)) \<in> {None, Some 0})"
proof -
  have t: "feature_term row fi = (case py_float (dict_get row (fst fi) (PInt 0)) of Some v \<Rightarrow> \<bar>v\<bar> | None \<Rightarrow> 0)"
    if "fi \<in> set prof" for fi
    using assms that by (cases fi) (auto simp: feature_term_def split: option.split)
  have nn: "0 \<le> feature_term row fi" if "fi \<in> set prof" for fi
    using t [OF that] by (simp split: option.split)
  have "(feature_term row fi = 0) = (py_float (dict_get row (fst fi) (PInt 0)) \<in> {None, Some 0})"
    if "fi \<in> set prof" for fi
    using t [OF that] by (auto split: option.split)
  moreover have "calculate_distance row prof = 0 \<longleftrightarrow> (\<forall>fi \<in> set prof. feature_term row fi = 0)"
    unfolding calculate_distance_sum by (rule sum_list_map_eq_0_iff_nonneg [OF nn])
  ultimately show ?thesis by (auto simp: dict_keys_def)
qed



subsection \<open>Annotating a record\<close>

lemma annotate_row_from:
  assumes "\<forall>(n, c) \<in> set ps. \<forall>(n', c') \<in> set ps. distance_key n \<notin> set (dict_keys (profile c'))"
    and "\<forall>(n, c) \<in> set ps. calculate_distance r (profile c) = calculate_distance src (profile c)"
  shows "annotate_row ps r = annotate_from src ps r"
  using assms
proof (induction ps arbitrary: r)
  case Nil
  then show ?case by simp
next
  case (Cons p ps)
  obtain n c where p: "p = (n, c)" by fastforce
  let ?r' = "AList.update (distance_key n) (PFloat (calculate_distance r (profile c))) r"
  have "calculate_distance ?r' (profile c') = calculate_distance src (profile c')"
    if "(n', c') \<in> set ps" for n' c'
  proof -
    have "distance_key n \<notin> set (dict_keys (profile c'))"
      using Cons.prems(1) p that by fastforce
    then have "calculate_distance ?r' (profile c') = calculate_distance r (profile c')"
      by (rule calculate_distance_update_other)
    then show ?thesis using Cons.prems(2) that by fastforce
  qed
  then have "annotate_row ps ?r' = annotate_from src ps ?r'"
    using Cons.prems(1) by (intro Cons.IH) fastforce+
  moreover have "calculate_distance r (profile c) = calculate_distance src (profile c)"
    using Cons.prems(2) p by fastforce
  ultimately show ?case using p by simp
qed

lemma annotate_from_other:
  "k \<notin> distance_key ` set (dict_keys ps) \<Longrightarrow> map_of (annotate_from src ps r) k = map_of r k"
proof (induction ps arbitrary: r)
  case Nil
  then show ?case by simp
next
  case (Cons p ps)
  obtain n c where p: "p = (n, c)" by fastforce
  with Cons show ?case by (simp add: update_conv')
qed

lemma annotate_from_lookup:
  assumes "distinct (dict_keys ps)" and "(n, c) \<in> set ps"
  shows "map_of (annotate_from src ps r) (distance_key n) =
           Some (PFloat (calculate_distance src (profile c)))"
  using assms
proof (induction ps arbitrary: r)
  case Nil
  then show ?case by simp
next
  case (Cons p ps)
  obtain n' c' where p: "p = (n', c')" by fastforce
  show ?case
  proof (cases "n = n'")
    case True
    have notin: "n \<notin> set (dict_keys ps)" using Cons.prems(1) p True by simp
    then have "(n, c) \<notin> set ps" by (force simp: dict_keys_def)
    then have "c = c'" using Cons.prems(2) p True by simp
    have "distance_key n \<notin> distance_key ` set (dict_keys ps)"
      using notin by (auto simp: distance_key_def)
    then show ?thesis using p True \<open>c = c'\<close> by (simp add: annotate_from_other update_conv')
  next
    case False
    then have "(n, c) \<in> set ps" using Cons.prems(2) p by simp
    then show ?thesis using Cons.IH Cons.prems(1) p by simp
  qed
qed

lemma calculate_distance_nonneg:
  "\<forall>(f, v) \<in> set prof. 0 \<le> v \<Longrightarrow> 0 \<le> calculate_distance row prof"
proof -
  assume h: "\<forall>(f, v) \<in> set prof. 0 \<le> v"
  have "0 \<le> feature_term row fi" if "fi \<in> set prof" for fi
    using h that by (intro feature_term_nonneg) auto
  then show ?thesis unfolding calculate_distance_sum by (rule sum_list_map_nonneg)
qed

text \<open>Claim C32: as long as no profile has a feature named
  like a distance field, the fields the loop writes do not disturb the distances computed
  after them: every distance is the one of the record as read from the CSV.\<close>

theorem annotate_row_order_independent:
  assumes "\<forall>(n, c) \<in> set ps. \<forall>(n', c') \<in> set ps. distance_key n \<notin> set (dict_keys (profile c'))"
  shows "annotate_row ps row = annotate_from row ps row"
  using assms by (rule annotate_row_from) simp

theorem annotate_row_order_independent_witness:
  "annotate_row profiles [] = annotate_from [] profiles []"
proof -
  have h: "\<forall>(n, c) \<in> set profiles. \<forall>(n', c') \<in> set profiles.
      distance_key n \<notin> set (dict_keys (profile c'))"
    by (simp add: profiles_def distance_key_def dict_keys_def)
  show ?thesis by (rule annotate_row_order_independent [OF h])
qed


lemma annotate_row_keys:
  assumes "distinct (dict_keys ps)" and "\<forall>n \<in> set (dict_keys ps). distance_key n \<notin> set (dict_keys row)"
  shows "dict_keys (annotate_row ps row) = dict_keys row @ map distance_key (dict_keys ps)"
  using assms
proof (induction ps arbitrary: row)
  case Nil
  then show ?case by simp
next
  case (Cons p ps)
  obtain n c where p: "p = (n, c)" by fastforce
  let ?row' = "AList.update (distance_key n) (PFloat (calculate_distance row (profile c))) row"
  have keys': "dict_keys ?row' = dict_keys row @ [distance_key n]"
    using Cons.prems(2) p by (simp add: dict_keys_update)
  have "\<forall>n' \<in> set (dict_keys ps). distance_key n' \<notin> set (dict_keys ?row')"
    using Cons.prems p keys' by (auto simp: distance_key_def)
  then have "dict_keys (annotate_row ps ?row') = dict_keys ?row' @ map distance_key (dict_keys ps)"
    using Cons.IH Cons.prems(1) p by simp
  then show ?case using keys' p by simp
qed


lemma calculate_all_distances_w_keys:
  assumes "\<forall>row \<in> set data. ''Distance_to_Ideal'' \<notin> set (dict_keys row)"
  shows "map dict_keys (calculate_all_distances_w data ideal ws) =
           map (\<lambda>row. dict_keys row @ [''Distance_to_Ideal'']) data"
  using assms by (simp add: calculate_all_distances_w_def dict_keys_update)

end
