(* ===== verification/Loader.thy ===== *)
theory Loader
  imports Distance
begin

text \<open>
  \<open>load_data(file_path)\<close>, lines 5-17 of both scripts (the two copies are identical).
  \<open>csv.DictReader\<close> turns every line of the file into a dict from the header's field
  names to the line's strings; a line with fewer fields than the header holds \<open>None\<close>
  for the missing ones (\<open>NoCell\<close>). Reading the file is not modelled: \<open>load_data\<close>
  starts from the reader's rows. For every field the loop replaces the string by
  \<open>float(s)\<close> when \<open>s.replace('.', '', 1).isdigit()\<close>, keeps it otherwise, and
  substitutes 0 when \<open>float\<close> raises \<open>ValueError\<close>; \<open>.replace\<close> on \<open>None\<close> raises
  \<open>AttributeError\<close>, which the loop does not catch. Fields with no header name (the
  reader's \<open>restkey\<close>) and non-ASCII digits are not modelled.
\<close>

datatype csv_cell = Cell string | NoCell

type_synonym csv_row = "csv_cell pydict"

text \<open>\<open>float(s) if s.replace('.', '', 1).isdigit() else s\<close>, with the \<open>except ValueError\<close>
  branch that stores 0.\<close>

definition coerce_str :: "string \<Rightarrow> pyval" where
  "coerce_str s =
     (if py_isdigit (py_replace_first CHR ''.'' s)
      then (case py_float_str s of Some r \<Rightarrow> PFloat r | None \<Rightarrow> PInt 0)
      else PStr s)"

fun coerce_cell :: "csv_cell \<Rightarrow> py_error + pyval" where
  "coerce_cell (Cell s) = Inr (coerce_str s)"
| "coerce_cell NoCell = Inl AttributeError"

text \<open>\<open>for key in row: row[key] = ...\<close>: every key keeps its position.\<close>

definition load_row :: "csv_row \<Rightarrow> py_error + row" where
  "load_row r = err_map (\<lambda>(k, c). err_bind (coerce_cell c) (\<lambda>v. Inr (k, v))) r"

definition load_data :: "csv_row list \<Rightarrow> py_error + dataset" where
  "load_data rows = err_map load_row rows"

text \<open>The same row before coercion: every field as the string the reader gave.\<close>

fun cell_text :: "csv_cell \<Rightarrow> string" where
  "cell_text (Cell s) = s"
| "cell_text NoCell = []"

definition raw_row :: "csv_row \<Rightarrow> row" where
  "raw_row r = map (\<lambda>(k, c). (k, PStr (cell_text c))) r"

text \<open>A line as the CSV reader returns it, with a negative number and a decimal, used by
  the witnesses.\<close>

definition sample_rows :: "csv_row list" where
  "sample_rows = [[(''Artist Name'', Cell ''A''), (''Spotify Following'', Cell ''1200''),
                   (''TikTok Following'', Cell ''-5''), (''Fan Retention Rate (Spotify)'', Cell ''7.5'')]]"

subsection \<open>Characters\<close>

lemma is_digit_not_special:
  assumes "is_digit c"
  shows "c \<noteq> CHR ''.''" "\<not> is_space c" "\<not> is_exp_mark c" "c \<noteq> CHR ''-''" "c \<noteq> CHR ''+''"
  using assms by (auto simp: is_digit_def is_space_def is_exp_mark_def)

lemma py_replace_first_split: "c \<notin> set a \<Longrightarrow> py_replace_first c (a @ c # b) = a @ b"
  by (induction a) auto

lemma py_replace_first_absent: "c \<notin> set s \<Longrightarrow> py_replace_first c s = s"
  by (induction s) auto

lemma py_strip_no_space: "list_all (\<lambda>c. \<not> is_space c) s \<Longrightarrow> py_strip s = s"
proof -
  assume a: "list_all (\<lambda>c. \<not> is_space c) s"
  have "dropWhile is_space xs = xs" if "list_all (\<lambda>c. \<not> is_space c) xs" for xs
    using that by (cases xs) simp_all
  then show ?thesis using a by (simp add: py_strip_def)
qed


lemma digits_no_space: "list_all is_digit s \<Longrightarrow> list_all (\<lambda>c. \<not> is_space c) s"
  by (auto simp: list_all_iff dest: is_digit_not_special(2))

lemma parse_sign_plain:
  "s = [] \<or> (hd s \<noteq> CHR ''-'' \<and> hd s \<noteq> CHR ''+'') \<Longrightarrow> parse_sign s = (1, s)"
  by (cases s) (auto simp: parse_sign_def)

lemma no_exp_mark:
  "list_all (\<lambda>c. \<not> is_exp_mark c) s \<Longrightarrow>
     takeWhile (\<lambda>c. \<not> is_exp_mark c) s = s \<and> dropWhile (\<lambda>c. \<not> is_exp_mark c) s = []"
  by (simp add: list_all_iff)

lemma py_float_str_plain:
  assumes "list_all (\<lambda>c. \<not> is_space c \<and> \<not> is_exp_mark c) s"
    and "s = [] \<or> (hd s \<noteq> CHR ''-'' \<and> hd s \<noteq> CHR ''+'')"
  shows "py_float_str s = parse_decimal s"
proof -
  have strip: "py_strip s = s" using assms(1) by (simp add: py_strip_no_space list_all_iff)
  have sign: "parse_sign s = (1, s)" by (rule parse_sign_plain [OF assms(2)])
  have tw: "takeWhile (\<lambda>c. \<not> is_exp_mark c) s = s" and dw: "dropWhile (\<lambda>c. \<not> is_exp_mark c) s = []"
    using assms(1) by (simp_all add: list_all_iff)
  show ?thesis unfolding py_float_str_def
    by (simp only: strip sign tw dw Let_def prod.case list.case) (cases "parse_decimal s"; simp)
qed

lemma digitpart_tail_digits: "list_all is_digit ds \<Longrightarrow> digitpart_tail ds = Some ds"
  by (induction ds) simp_all

lemma digitpart_digits: "ds \<noteq> [] \<Longrightarrow> list_all is_digit ds \<Longrightarrow> digitpart ds = Some ds"
  by (cases ds) (simp_all add: digitpart_def digitpart_tail_digits)

lemma digitpart_opt_digits:
  "list_all is_digit ds \<Longrightarrow> (if ds = [] then Some [] else digitpart ds) = Some ds"
  by (simp add: digitpart_digits)

lemma digits_no_point: "list_all is_digit ds \<Longrightarrow> list_all (\<lambda>c. c \<noteq> CHR ''.'') ds"
  by (auto simp: list_all_iff dest: is_digit_not_special(1))

lemma parse_decimal_digits:
  assumes "ds \<noteq> []" and "list_all is_digit ds"
  shows "parse_decimal ds = Some (of_nat (digits_nat ds))"
proof -
  have tw: "takeWhile (\<lambda>c. c \<noteq> CHR ''.'') ds = ds" and dw: "dropWhile (\<lambda>c. c \<noteq> CHR ''.'') ds = []"
    using digits_no_point [OF assms(2)] by (simp_all add: list_all_iff)
  show ?thesis unfolding parse_decimal_def
    by (simp only: tw dw Let_def list.case) (simp add: digitpart_digits [OF assms])
qed

lemma parse_decimal_point:
  assumes "list_all is_digit a" and "list_all is_digit b" and "a @ b \<noteq> []"
  shows "parse_decimal (a @ CHR ''.'' # b) = Some (of_nat (digits_nat a) + of_nat (digits_nat b) / 10 ^ length b)"
proof -
  have "list_all (\<lambda>c. c \<noteq> CHR ''.'') a" by (rule digits_no_point [OF assms(1)])
  then have tw: "takeWhile (\<lambda>c. c \<noteq> CHR ''.'') (a @ CHR ''.'' # b) = a"
    and dw: "dropWhile (\<lambda>c. c \<noteq> CHR ''.'') (a @ CHR ''.'' # b) = CHR ''.'' # b"
    by (simp_all add: list_all_iff takeWhile_append2 dropWhile_append2)
  show ?thesis unfolding parse_decimal_def
    by (simp only: tw dw Let_def list.case digitpart_opt_digits [OF assms(1)] digitpart_opt_digits [OF assms(2)]
        prod.case option.case) (use assms(3) in auto)
qed

lemma digitpart_tail_append:
  "list_all is_digit g \<Longrightarrow> digitpart_tail (g @ rest) = map_option (\<lambda>r. g @ r) (digitpart_tail rest)"
  by (induction g) (cases "digitpart_tail rest"; simp)+

lemma set_groups:
  "c \<in> set (concat (map (\<lambda>h. CHR ''_'' # h) hs)) \<Longrightarrow> c = CHR ''_'' \<or> (\<exists>h \<in> set hs. c \<in> set h)"
  by (induction hs) auto

lemma digitpart_tail_groups:
  "\<forall>h \<in> set hs. h \<noteq> [] \<and> list_all is_digit h \<Longrightarrow>
     digitpart_tail (concat (map (\<lambda>h. CHR ''_'' # h) hs)) = Some (concat hs)"
proof (induction hs)
  case (Cons h hs)
  then obtain d h' where h: "h = d # h'" and d: "is_digit d" and h': "list_all is_digit h'"
    by (cases h) auto
  have "\<not> is_digit CHR ''_''" by (simp add: is_digit_def)
  then show ?case using Cons d h' by (simp add: h digitpart_tail_append)
qed simp

lemma digit_or_point_plain:
  assumes "is_digit c \<or> c = CHR ''.''"
  shows "\<not> is_space c \<and> \<not> is_exp_mark c \<and> c \<noteq> CHR ''-'' \<and> c \<noteq> CHR ''+''"
proof (cases "is_digit c")
  case True
  then show ?thesis by (simp add: is_digit_not_special)
next
  case False
  then have "c = CHR ''.''" using assms by simp
  then show ?thesis by (simp add: is_space_def is_exp_mark_def)
qed

lemma digit_string_plain:
  assumes "list_all (\<lambda>c. is_digit c \<or> c = CHR ''.'') s"
  shows "list_all (\<lambda>c. \<not> is_space c \<and> \<not> is_exp_mark c) s"
    and "s = [] \<or> (hd s \<noteq> CHR ''-'' \<and> hd s \<noteq> CHR ''+'')"
proof -
  show "list_all (\<lambda>c. \<not> is_space c \<and> \<not> is_exp_mark c) s"
    using assms digit_or_point_plain by (simp add: list_all_iff)
  show "s = [] \<or> (hd s \<noteq> CHR ''-'' \<and> hd s \<noteq> CHR ''+'')"
  proof (cases s)
    case (Cons c r)
    then have "is_digit c \<or> c = CHR ''.''" using assms by simp
    then show ?thesis using Cons digit_or_point_plain by simp
  qed simp
qed

lemma py_float_str_digits:
  assumes "ds \<noteq> []" and "list_all is_digit ds"
  shows "py_float_str ds = Some (of_nat (digits_nat ds))"
proof -
  have "list_all (\<lambda>c. is_digit c \<or> c = CHR ''.'') ds" using assms(2) by (simp add: list_all_iff)
  from py_float_str_plain [OF digit_string_plain [OF this]] show ?thesis
    using parse_decimal_digits [OF assms] by simp
qed

lemma py_float_str_point:
  assumes "list_all is_digit a" and "list_all is_digit b" and "a @ b \<noteq> []"
  shows "py_float_str (a @ CHR ''.'' # b) =
           Some (of_nat (digits_nat a) + of_nat (digits_nat b) / 10 ^ length b)"
proof -
  have "list_all (\<lambda>c. is_digit c \<or> c = CHR ''.'') (a @ CHR ''.'' # b)" using assms(1,2) by (auto simp: list_all_iff)
  from py_float_str_plain [OF digit_string_plain [OF this]] show ?thesis
    using parse_decimal_point [OF assms] by simp
qed


lemma coerce_digit_cases:
  assumes "py_isdigit (py_replace_first CHR ''.'' s)"
  shows "(s \<noteq> [] \<and> list_all is_digit s) \<or>
         (\<exists>a b. s = a @ CHR ''.'' # b \<and> list_all is_digit a \<and> list_all is_digit b \<and> a @ b \<noteq> [])"
proof (cases "CHR ''.'' \<in> set s")
  case True
  then obtain a b where s: "s = a @ CHR ''.'' # b" and a: "CHR ''.'' \<notin> set a"
    by (metis split_list_first)
  then have "py_isdigit (a @ b)" using assms py_replace_first_split [OF a] by simp
  then show ?thesis using s by (auto simp: py_isdigit_def)
next
  case False
  then show ?thesis using assms py_replace_first_absent [OF False] by (simp add: py_isdigit_def)
qed

lemma coerce_float_total:
  assumes "py_isdigit (py_replace_first CHR ''.'' s)"
  shows "\<exists>r. py_float_str s = Some r \<and> 0 \<le> r"
  using coerce_digit_cases [OF assms]
proof
  assume "s \<noteq> [] \<and> list_all is_digit s"
  then have "py_float_str s = Some (of_nat (digits_nat s))" by (simp add: py_float_str_digits)
  then show ?thesis by simp
next
  assume "\<exists>a b. s = a @ CHR ''.'' # b \<and> list_all is_digit a \<and> list_all is_digit b \<and> a @ b \<noteq> []"
  then obtain a b where s: "s = a @ CHR ''.'' # b" and ab: "list_all is_digit a" "list_all is_digit b" "a @ b \<noteq> []"
    by blast
  let ?r = "of_nat (digits_nat a) + of_nat (digits_nat b) / 10 ^ length b :: real"
  have "py_float_str s = Some ?r" unfolding s by (rule py_float_str_point [OF ab])
  moreover have "0 \<le> ?r" by simp
  ultimately show ?thesis by blast
qed

lemma digit_char_props:
  assumes "d < 10"
  shows "is_digit (digit_char d)" and "digit_val (digit_char d) = d"
  using assms by (simp_all add: digit_char_def is_digit_def digit_val_def of_char_of)

lemma digits_nat_snoc: "digits_nat (xs @ [c]) = 10 * digits_nat xs + digit_val c"
  by (simp add: digits_nat_def)

lemma py_str_nat_digits:
  "py_str_nat n \<noteq> [] \<and> list_all is_digit (py_str_nat n) \<and> digits_nat (py_str_nat n) = n"
proof (induction n rule: py_str_nat.induct)
  case (1 n)
  show ?case
  proof (cases "n < 10")
    case True
    then show ?thesis
      using digit_char_props [OF True] by (simp add: py_str_nat.simps [of n] digits_nat_def)
  next
    case False
    have "n mod 10 < 10" by simp
    note d = digit_char_props [OF this]
    have "10 * (n div 10) + n mod 10 = n" by simp
    then show ?thesis using 1 False d by (simp add: py_str_nat.simps [of n] digits_nat_snoc)
  qed
qed


subsection \<open>Rows\<close>

lemma load_row_Cons:
  "load_row ((k, c) # r) = err_bind (coerce_cell c) (\<lambda>v. err_bind (load_row r) (\<lambda>row. Inr ((k, v) # row)))"
  by (simp add: load_row_def err_bind_assoc)

lemma load_row_Inr_iff:
  "load_row r = Inr row \<longleftrightarrow>
     NoCell \<notin> snd ` set r \<and> row = map (\<lambda>(k, c). (k, coerce_str (cell_text c))) r"
proof (induction r arbitrary: row)
  case Nil
  then show ?case by (auto simp: load_row_def)
next
  case (Cons kc r)
  obtain k c where kc: "kc = (k, c)" by fastforce
  show ?case
  proof (cases c)
    case (Cell s)
    then show ?thesis using Cons.IH by (auto simp: kc load_row_Cons)
  next
    case NoCell
    then show ?thesis by (simp add: kc load_row_Cons)
  qed
qed

lemma load_row_NoCell: "NoCell \<in> snd ` set r \<Longrightarrow> load_row r = Inl AttributeError"
proof (induction r)
  case Nil
  then show ?case by simp
next
  case (Cons kc r)
  obtain k c where kc: "kc = (k, c)" by fastforce
  show ?case
  proof (cases c)
    case (Cell s)
    then have "NoCell \<in> snd ` set r" using Cons.prems kc by auto
    then show ?thesis using Cons.IH Cell by (simp add: kc load_row_Cons)
  next
    case NoCell
    then show ?thesis by (simp add: kc load_row_Cons)
  qed
qed

lemma distances_cong:
  assumes "\<And>f. py_float (dict_get row f (PInt 0)) = py_float (dict_get row' f (PInt 0))"
  shows "calculate_distance_w row ideal ws = calculate_distance_w row' ideal ws"
    and "calculate_distance row prof = calculate_distance row' prof"
proof -
  have "feature_term_w row ws = feature_term_w row' ws"
    by (rule ext) (simp add: feature_term_w_def assms split: prod.split)
  moreover have "feature_term row = feature_term row'"
    by (rule ext) (simp add: feature_term_def assms split: prod.split)
  ultimately show "calculate_distance_w row ideal ws = calculate_distance_w row' ideal ws"
    and "calculate_distance row prof = calculate_distance row' prof"
    by (simp_all add: calculate_distance_w_sum calculate_distance_sum)
qed

lemma coerce_float_agree_lemma: "py_float (coerce_str s) = py_float_str s"
proof (cases "py_isdigit (py_replace_first CHR ''.'' s)")
  case True
  then obtain r where "py_float_str s = Some r" using coerce_float_total by blast
  then show ?thesis using True by (simp add: coerce_str_def)
next
  case False
  then show ?thesis by (simp add: coerce_str_def)
qed

lemma load_row_float_agree:
  "py_float (dict_get (map (\<lambda>(k, c). (k, coerce_str (cell_text c))) r) f (PInt 0)) =
     py_float (dict_get (raw_row r) f (PInt 0))"
  by (induction r) (auto simp: raw_row_def coerce_float_agree_lemma)


lemma load_data_Inr_iff:
  "load_data rows = Inr data \<longleftrightarrow> list_all2 (\<lambda>r row. load_row r = Inr row) rows data"
  by (simp add: load_data_def err_map_Inr_iff)


lemma load_row_keys: "load_row r = Inr row \<Longrightarrow> dict_keys row = dict_keys r"
  by (auto simp: load_row_Inr_iff dict_keys_def)

lemma load_data_total:
  assumes "\<forall>r \<in> set rows. NoCell \<notin> snd ` set r"
  shows "\<exists>data. load_data rows = Inr data"
proof -
  have "\<exists>row. load_row r = Inr row" if "r \<in> set rows" for r
    using assms that load_row_Inr_iff by blast
  then show ?thesis unfolding load_data_def by (rule err_map_total)
qed

lemma load_data_uniform:
  assumes "\<forall>r \<in> set rows. dict_keys r = ks \<and> NoCell \<notin> snd ` set r"
  obtains data where "load_data rows = Inr data" and "length data = length rows"
    and "\<forall>row \<in> set data. dict_keys row = ks"
proof -
  have "\<forall>r \<in> set rows. NoCell \<notin> snd ` set r" using assms by simp
  then obtain data where ld: "load_data rows = Inr data" using load_data_total by blast
  then have la: "list_all2 (\<lambda>r row. load_row r = Inr row) rows data" by (simp add: load_data_Inr_iff)
  have eq: "map dict_keys data = map dict_keys rows" by (rule list_all2_map_eq [OF la]) (rule load_row_keys)
  have "\<forall>r \<in> set rows. dict_keys r = ks" using assms by simp
  with eq have keys: "\<forall>row \<in> set data. dict_keys row = ks" by (rule map_eq_uniform)
  have len: "length data = length rows" using la by (simp add: list_all2_lengthD)
  show ?thesis by (rule that [OF ld len keys])
qed

lemmas load_eval = sample_rows_def load_data_def load_row_def coerce_str_def py_isdigit_def is_digit_def
  py_float_str_def py_strip_def is_space_def parse_sign_def is_exp_mark_def parse_decimal_def
  digits_nat_def digit_val_def digitpart_def

lemma sample_rows_loaded:
  "load_data sample_rows =
     Inr [[(''Artist Name'', PStr ''A''), (''Spotify Following'', PFloat 1200),
           (''TikTok Following'', PStr ''-5''), (''Fan Retention Rate (Spotify)'', PFloat 7.5)]]"
  by (simp add: load_eval)

subsection \<open>Properties of \<open>load_data\<close>\<close>

lemma coerce_str_float_or_str:
  "coerce_str s = PStr s \<or> (\<exists>r. 0 \<le> r \<and> py_float_str s = Some r \<and> coerce_str s = PFloat r)"
proof (cases "py_isdigit (py_replace_first CHR ''.'' s)")
  case True
  then obtain r where "py_float_str s = Some r" "0 \<le> r" using coerce_float_total by blast
  then show ?thesis using True by (simp add: coerce_str_def)
next
  case False
  then show ?thesis by (simp add: coerce_str_def)
qed



text \<open>Claim C20: a field holding \<open>str(n)\<close> of a natural number is
  loaded as the float \<open>n\<close>.\<close>

theorem coerce_str_py_str_nat: "coerce_str (py_str_nat n) = PFloat (of_nat n)"
proof -
  have d: "py_str_nat n \<noteq> []" "list_all is_digit (py_str_nat n)" "digits_nat (py_str_nat n) = n"
    using py_str_nat_digits by blast+
  have "CHR ''.'' \<notin> set (py_str_nat n)"
    using d(2) is_digit_not_special(1) by (auto simp: list_all_iff)
  then have "py_replace_first CHR ''.'' (py_str_nat n) = py_str_nat n" by (rule py_replace_first_absent)
  then show ?thesis using d py_float_str_digits [OF d(1,2)] by (simp add: coerce_str_def py_isdigit_def)
qed

lemma load_row_Inl: "load_row r = Inl e \<Longrightarrow> e = AttributeError"
proof -
  assume "load_row r = Inl e"
  then have "\<exists>kc \<in> set r. (case kc of (k, c) \<Rightarrow> err_bind (coerce_cell c) (\<lambda>v. Inr (k, v))) = Inl e"
    unfolding load_row_def by (rule err_map_Inl)
  then obtain kc :: "string \<times> csv_cell"
    where "(case kc of (k, c) \<Rightarrow> err_bind (coerce_cell c) (\<lambda>v. Inr (k, v))) = Inl e"
    by blast
  then have "err_bind (coerce_cell (snd kc)) (\<lambda>v. Inr (fst kc, v)) = Inl e" by (simp add: split_beta)
  then show ?thesis by (cases "snd kc") auto
qed

text \<open>Claim C22: a CSV line with fewer fields than the header
  makes \<open>load_data\<close> raise \<open>AttributeError\<close> (\<open>None.replace\<close>), whatever the other lines
  hold.\<close>

theorem load_data_missing_field_error:
  assumes "r \<in> set rows" and "NoCell \<in> snd ` set r"
  shows "load_data rows = Inl AttributeError"
proof (cases "load_data rows")
  case (Inl e)
  then have "\<exists>r' \<in> set rows. load_row r' = Inl e" unfolding load_data_def by (rule err_map_Inl)
  then obtain r' where "load_row r' = Inl e" by blast
  then show ?thesis using Inl load_row_Inl by blast
next
  case (Inr data)
  then have la: "list_all2 (\<lambda>r row. load_row r = Inr row) rows data" by (simp add: load_data_Inr_iff)
  obtain i where i: "i < length rows" "rows ! i = r" using assms(1) by (metis in_set_conv_nth)
  then have "load_row r = Inr (data ! i)" using list_all2_nthD [OF la] by blast
  then show ?thesis using load_row_NoCell [OF assms(2)] by simp
qed

theorem load_data_missing_field_error_witness:
  "load_data [[(''Artist Name'', Cell ''A'')], [(''Artist Name'', Cell ''B''), (''Spotify Following'', NoCell)]] =
     Inl AttributeError"
  using load_data_missing_field_error [of "[(''Artist Name'', Cell ''B''), (''Spotify Following'', NoCell)]"] by simp


lemma load_row_distances:
  assumes "load_row r = Inr row"
  shows "calculate_distance_w row ideal ws = calculate_distance_w (raw_row r) ideal ws"
    and "calculate_distance row prof = calculate_distance (raw_row r) prof"
proof -
  have "row = map (\<lambda>(k, c). (k, coerce_str (cell_text c))) r" using assms by (simp add: load_row_Inr_iff)
  then have "py_float (dict_get row f (PInt 0)) = py_float (dict_get (raw_row r) f (PInt 0))" for f
    using load_row_float_agree by simp
  then show "calculate_distance_w row ideal ws = calculate_distance_w (raw_row r) ideal ws"
    and "calculate_distance row prof = calculate_distance (raw_row r) prof"
    by (rule distances_cong)+
qed

text \<open>Claim C11: the coercion of \<open>load_data\<close> never changes a
  distance: both scripts' \<open>calculate_distance\<close> give on every loaded record what they give
  on the record as the CSV reader returned it, all fields strings.\<close>

theorem load_data_distance_agree:
  assumes "load_data rows = Inr data"
  shows "map (\<lambda>row. calculate_distance_w row ideal ws) data = map (\<lambda>r. calculate_distance_w (raw_row r) ideal ws) rows \<and>
         map (\<lambda>row. calculate_distance row prof) data = map (\<lambda>r. calculate_distance (raw_row r) prof) rows"
proof
  have la: "list_all2 (\<lambda>r row. load_row r = Inr row) rows data" using assms by (simp add: load_data_Inr_iff)
  show "map (\<lambda>row. calculate_distance_w row ideal ws) data = map (\<lambda>r. calculate_distance_w (raw_row r) ideal ws) rows"
    by (rule list_all2_map_eq [OF la]) (erule load_row_distances(1))
  show "map (\<lambda>row. calculate_distance row prof) data = map (\<lambda>r. calculate_distance (raw_row r) prof) rows"
    by (rule list_all2_map_eq [OF la]) (erule load_row_distances(2))
qed

theorem load_data_distance_agree_witness:
  "map (\<lambda>row. calculate_distance_w row ideal_artist weights)
       [[(''Artist Name'', PStr ''A''), (''Spotify Following'', PFloat 1200),
         (''TikTok Following'', PStr ''-5''), (''Fan Retention Rate (Spotify)'', PFloat 7.5)]] =
     map (\<lambda>r. calculate_distance_w (raw_row r) ideal_artist weights) sample_rows"
  using conjunct1 [OF load_data_distance_agree [OF sample_rows_loaded]] by simp

text \<open>Claim C21: a field written with PEP 515 digit groups, such as
  \<open>1_000\<close>, fails the digit test of \<open>load_data\<close> and is kept as a string, yet
  \<open>float()\<close> in \<open>calculate_distance\<close> reads it as the number its digits spell, so it is
  scored as that number and not penalised as non-numeric.\<close>

theorem float_digit_groups:
  assumes "g \<noteq> []" and "list_all is_digit g" and "hs \<noteq> []"
    and "\<forall>h \<in> set hs. h \<noteq> [] \<and> list_all is_digit h"
    and "s = g @ concat (map (\<lambda>h. CHR ''_'' # h) hs)"
  shows "coerce_str s = PStr s \<and> py_float (PStr s) = Some (of_nat (digits_nat (g @ concat hs)))"
proof -
  have us: "\<not> is_digit CHR ''_''" "CHR ''_'' \<noteq> CHR ''.''" "\<not> is_space CHR ''_''" "\<not> is_exp_mark CHR ''_''"
    by (simp_all add: is_digit_def is_space_def is_exp_mark_def)
  have chars: "c = CHR ''_'' \<or> is_digit c" if "c \<in> set s" for c
  proof -
    have "c \<in> set g \<or> c = CHR ''_'' \<or> (\<exists>h \<in> set hs. c \<in> set h)"
      using that assms(5) set_groups [of c hs] by auto
    then show ?thesis using assms(2,4) by (auto simp: list_all_iff)
  qed
  have plain: "list_all (\<lambda>c. \<not> is_space c \<and> \<not> is_exp_mark c) s"
    using chars us is_digit_not_special by (fastforce simp: list_all_iff)
  have nodot: "list_all (\<lambda>c. c \<noteq> CHR ''.'') s"
    using chars us is_digit_not_special by (fastforce simp: list_all_iff)
  obtain c r where cr: "g = c # r" using assms(1) by (cases g) auto
  have c: "is_digit c" and r: "list_all is_digit r" using assms(2) cr by simp_all
  have hd: "s = [] \<or> (hd s \<noteq> CHR ''-'' \<and> hd s \<noteq> CHR ''+'')"
    using assms(5) cr c is_digit_not_special by simp
  have dp: "digitpart s = Some (g @ concat hs)"
    using assms(4,5) cr c r by (simp add: digitpart_def digitpart_tail_append digitpart_tail_groups)
  have tw: "takeWhile (\<lambda>c. c \<noteq> CHR ''.'') s = s" and dw: "dropWhile (\<lambda>c. c \<noteq> CHR ''.'') s = []"
    using nodot by (simp_all add: list_all_iff)
  have "py_float_str s = Some (of_nat (digits_nat (g @ concat hs)))"
    unfolding py_float_str_plain [OF plain hd] parse_decimal_def
    by (simp only: tw dw Let_def list.case dp option.map)
  moreover have "\<not> py_isdigit (py_replace_first CHR ''.'' s)"
  proof -
    obtain h hs' where "hs = h # hs'" using assms(3) by (cases hs) auto
    then have "CHR ''_'' \<in> set s" using assms(5) by simp
    moreover have "CHR ''.'' \<notin> set s" using nodot by (auto simp: list_all_iff)
    ultimately show ?thesis using us(1) by (auto simp: py_isdigit_def py_replace_first_absent list_all_iff)
  qed
  ultimately show ?thesis by (simp add: coerce_str_def)
qed

theorem float_digit_groups_witness:
  "coerce_str ''1_000'' = PStr ''1_000'' \<and> py_float (PStr ''1_000'') = Some 1000"
proof -
  have "coerce_str ''1_000'' = PStr ''1_000'' \<and>
      py_float (PStr ''1_000'') = Some (of_nat (digits_nat (''1'' @ concat [''000''])))"
    by (rule float_digit_groups [of "''1''" "[''000'']"]) (simp_all add: is_digit_def)
  moreover have "digits_nat (''1'' @ concat [''000'']) = 1000" by (simp add: digits_nat_def digit_val_def)
  ultimately show ?thesis by simp
qed

end
