(* ===== verification/Normalize.thy ===== *)
theory Normalize
  imports Distance
begin

text \<open>
  The distance normalizer of \<open>modified_artist_clustering.py\<close>: \<open>normalize_distances\<close>
  divides, profile by profile, every record's \<open>Distance_to_<name>\<close> field by the
  largest value of that field over the dataset, guarding only the empty dataset
  (\<open>max(distances) if distances else 1\<close>). Reading a field is \<open>row[key]\<close> (\<open>KeyError\<close>),
  the arithmetic needs a number (\<open>TypeError\<close> on a string), and \<open>/= 0\<close> raises
  \<open>ZeroDivisionError\<close>. \<open>calculate_all_distances\<close> annotates every record and then
  normalizes. The lemmas show what the spec promises (every column in [0, 1], its maximum
  1) and where the code departs from it: a column that is 0 on every record raises
  instead of being divided by 1, and a second normalization changes nothing.
\<close>

subsection \<open>Definitions\<close>

text \<open>A record's field used as a number in \<open>max\<close> and \<open>/=\<close>.\<close>

fun num_of :: "pyval \<Rightarrow> py_error + real" where
  "num_of (PFloat r) = Inr r"
| "num_of (PInt i) = Inr (of_int i)"
| "num_of (PStr s) = Inl TypeError"

text \<open>\<open>[row[key] for row in data]\<close>\<close>

definition column :: "string \<Rightarrow> dataset \<Rightarrow> py_error + real list" where
  "column key data = err_map (\<lambda>row. err_bind (dict_index row key) num_of) data"

text \<open>\<open>max(xs)\<close> on a non-empty list: the running maximum from the first element.\<close>

fun py_max :: "real list \<Rightarrow> real" where
  "py_max [] = 0"
| "py_max (x # xs) = fold max xs x"

text \<open>\<open>for row in data: row[key] /= max_distance\<close>\<close>

definition divide_field :: "string \<Rightarrow> real \<Rightarrow> row \<Rightarrow> py_error + row" where
  "divide_field key max_distance row =
     err_bind (dict_index row key) (\<lambda>v. err_bind (num_of v) (\<lambda>r.
       if max_distance = 0 then Inl ZeroDivisionError
       else Inr (AList.update key (PFloat (r / max_distance)) row)))"

definition divide_column :: "string \<Rightarrow> real \<Rightarrow> dataset \<Rightarrow> py_error + dataset" where
  "divide_column key max_distance data = err_map (divide_field key max_distance) data"

text \<open>One iteration of the outer loop of \<open>normalize_distances\<close>.\<close>

definition normalize_column :: "string \<Rightarrow> dataset \<Rightarrow> py_error + dataset" where
  "normalize_column key data =
     err_bind (column key data) (\<lambda>distances.
       let max_distance = (if distances \<noteq> [] then py_max distances else 1) in
       divide_column key max_distance data)"

definition normalize_distances :: "cluster_cfg pydict \<Rightarrow> dataset \<Rightarrow> py_error + dataset" where
  "normalize_distances ps data =
     err_fold (\<lambda>cluster_name d. normalize_column (distance_key cluster_name) d) (dict_keys ps) data"

definition calculate_all_distances :: "dataset \<Rightarrow> cluster_cfg pydict \<Rightarrow> py_error + dataset" where
  "calculate_all_distances data ps = normalize_distances ps (map (annotate_row ps) data)"

definition col_nonneg :: "string \<Rightarrow> dataset \<Rightarrow> bool" where
  "col_nonneg key data = (case column key data of Inr ds \<Rightarrow> list_all (\<lambda>d. 0 \<le> d) ds | Inl _ \<Rightarrow> False)"

definition col_unit :: "string \<Rightarrow> dataset \<Rightarrow> bool" where
  "col_unit key data = (case column key data of Inr ds \<Rightarrow> list_all (\<lambda>d. 0 \<le> d \<and> d \<le> 1) ds | Inl _ \<Rightarrow> False)"

subsection \<open>One column\<close>

lemma column_Nil [simp]: "column key [] = Inr []"
  by (simp add: column_def)

lemma column_Cons:
  "column key (row # data) =
     err_bind (dict_index row key) (\<lambda>v. err_bind (num_of v) (\<lambda>d.
       err_bind (column key data) (\<lambda>ds. Inr (d # ds))))"
  by (cases "dict_index row key"; cases "num_of (projr (dict_index row key))")
     (auto simp: column_def err_bind_def split: sum.splits)

lemma column_Inr_length: "column key data = Inr ds \<Longrightarrow> length ds = length data"
  by (auto simp: column_def err_map_Inr_iff dest: list_all2_lengthD)

lemma py_max_Max: "xs \<noteq> [] \<Longrightarrow> py_max xs = Max (set xs)"
proof (cases xs)
  case (Cons a l)
  then show ?thesis using Max.set_eq_fold [of a l] by simp
qed simp

lemma divide_column_ok:
  assumes "column key data = Inr ds" and "m \<noteq> 0"
  shows "divide_column key m data =
           Inr (map2 (\<lambda>row r. AList.update key (PFloat (r / m)) row) data ds)"
  using assms(1)
proof (induction data arbitrary: ds)
  case Nil
  then show ?case by (simp add: divide_column_def column_def)
next
  case (Cons row data)
  then show ?case using assms(2)
    by (auto simp: column_Cons divide_column_def divide_field_def err_bind_def
             split: sum.splits)
qed

lemma divide_column_zero:
  assumes "column key data = Inr ds" and "data \<noteq> []"
  shows "divide_column key 0 data = Inl ZeroDivisionError"
proof (cases data)
  case (Cons row rest)
  then show ?thesis using assms(1)
    by (auto simp: column_Cons divide_column_def divide_field_def err_bind_def split: sum.splits)
qed (use assms(2) in simp)

lemma column_map2_update:
  "length ds = length data \<Longrightarrow>
     column key (map2 (\<lambda>row r. AList.update key (PFloat (f r)) row) data ds) = Inr (map f ds)"
proof (induction data arbitrary: ds)
  case Nil
  then show ?case by simp
next
  case (Cons row data)
  then show ?case by (cases ds) (auto simp: column_Cons dict_index_update)
qed

lemma column_map2_update_other:
  "length ds = length data \<Longrightarrow> k \<noteq> key \<Longrightarrow>
     column k (map2 (\<lambda>row r. AList.update key (v r) row) data ds) = column k data"
proof (induction data arbitrary: ds)
  case Nil
  then show ?case by simp
next
  case (Cons row data)
  then show ?case by (cases ds) (auto simp: column_Cons dict_index_update)
qed

lemma normalize_column_cases:
  assumes "column key data = Inr ds"
  shows "normalize_column key data =
           (if data = [] then Inr []
            else if py_max ds = 0 then Inl ZeroDivisionError
            else Inr (map2 (\<lambda>row r. AList.update key (PFloat (r / py_max ds)) row) data ds))"
proof -
  have len: "length ds = length data" using assms by (rule column_Inr_length)
  show ?thesis
  proof (cases "data = []")
    case True
    then show ?thesis using assms by (simp add: normalize_column_def divide_column_def)
  next
    case False
    with len have "ds \<noteq> []" by auto
    then show ?thesis using False assms divide_column_ok [OF assms] divide_column_zero [OF assms]
      by (simp add: normalize_column_def)
  qed
qed

lemma normalize_column_Inr_column:
  assumes "normalize_column key data = Inr data'"
  obtains ds where "column key data = Inr ds"
  using assms by (auto simp: normalize_column_def err_bind_def split: sum.splits)

lemma normalize_column_result:
  assumes "column key data = Inr ds" and "normalize_column key data = Inr data'"
  shows "column key data' = Inr (map (\<lambda>d. d / py_max ds) ds)"
    and "k \<noteq> key \<Longrightarrow> column k data' = column k data"
proof -
  have len: "length ds = length data" using assms(1) by (rule column_Inr_length)
  show "column key data' = Inr (map (\<lambda>d. d / py_max ds) ds)"
    using assms len by (auto simp: normalize_column_cases column_map2_update split: if_splits)
  show "k \<noteq> key \<Longrightarrow> column k data' = column k data"
    using assms len by (auto simp: normalize_column_cases column_map2_update_other split: if_splits)
qed

lemma py_max_ge: "d \<in> set ds \<Longrightarrow> d \<le> py_max ds"
  by (cases "ds = []") (auto simp: py_max_Max)

lemma py_max_in: "ds \<noteq> [] \<Longrightarrow> py_max ds \<in> set ds"
  by (simp add: py_max_Max)

lemma py_max_map_div:
  assumes "ds \<noteq> []" and "0 < m"
  shows "py_max (map (\<lambda>d. d / m) ds) = py_max ds / m"
proof -
  have mono: "mono (\<lambda>d::real. d / m)" using assms(2) by (auto intro!: monoI divide_right_mono)
  have "Max ((\<lambda>d. d / m) ` set ds) = Max (set ds) / m"
    using assms(1) by (simp add: mono_Max_commute [OF mono])
  then show ?thesis using assms(1) by (simp add: py_max_Max)
qed


lemma map2_update_twice:
  "length ds = length data \<Longrightarrow>
   map2 (\<lambda>row r. AList.update key (PFloat r) row)
     (map2 (\<lambda>row r. AList.update key (PFloat (f r)) row) data ds) (map f ds) =
   map2 (\<lambda>row r. AList.update key (PFloat (f r)) row) data ds"
proof (induction data arbitrary: ds)
  case Nil
  then show ?case by simp
next
  case (Cons row data)
  then show ?case by (cases ds) auto
qed

lemma normalize_column_pos_max:
  assumes "column key data = Inr ds" and "\<forall>d \<in> set ds. 0 \<le> d"
    and "normalize_column key data = Inr data'" and "data \<noteq> []"
  shows "0 < py_max ds"
proof -
  have "ds \<noteq> []" using assms(1,4) column_Inr_length by fastforce
  then have "0 \<le> py_max ds" using assms(2) py_max_in by blast
  moreover have "py_max ds \<noteq> 0" using assms(1,3,4) by (auto simp: normalize_column_cases)
  ultimately show ?thesis by simp
qed

text \<open>Claim C24: after one pass of the normalization loop, every value
  of the column lies in [0, 1], when the raw distances are non-negative.\<close>

theorem normalize_column_bounds:
  assumes "column key data = Inr ds" and "\<forall>d \<in> set ds. 0 \<le> d"
    and "normalize_column key data = Inr data'"
  shows "col_unit key data'"
proof (cases "data = []")
  case True
  then show ?thesis using assms(1,3) by (simp add: normalize_column_cases col_unit_def)
next
  case False
  have m: "0 < py_max ds" using normalize_column_pos_max [OF assms False] .
  have "0 \<le> d / py_max ds \<and> d / py_max ds \<le> 1" if "d \<in> set ds" for d
    using m assms(2) py_max_ge [OF that] that by auto
  then show ?thesis
    using normalize_column_result(1) [OF assms(1,3)] by (simp add: col_unit_def list_all_iff)
qed

theorem normalize_column_bounds_witness:
  "col_unit ''Distance_to_Ready''
     (projr (normalize_column ''Distance_to_Ready''
        [[(''Distance_to_Ready'', PFloat 4)], [(''Distance_to_Ready'', PFloat 2)]]))"
proof -
  let ?data = "[[(''Distance_to_Ready'', PFloat 4)], [(''Distance_to_Ready'', PFloat (2::real))]]"
  have h1: "column ''Distance_to_Ready'' ?data = Inr [4, 2]" by (simp add: column_def)
  have h2: "\<forall>d \<in> set [4, 2::real]. 0 \<le> d" by simp
  have h3: "normalize_column ''Distance_to_Ready'' ?data = Inr (projr (normalize_column ''Distance_to_Ready'' ?data))"
    by (simp add: normalize_column_cases [OF h1])
  show ?thesis by (rule normalize_column_bounds [OF h1 h2 h3])
qed

text \<open>Claim C25: on a non-empty dataset with non-negative distances, a
  successful pass leaves the column with maximum exactly 1.\<close>

theorem normalize_column_max_one:
  assumes "column key data = Inr ds" and "\<forall>d \<in> set ds. 0 \<le> d"
    and "normalize_column key data = Inr data'" and "data \<noteq> []"
  shows "column key data' = Inr (map (\<lambda>d. d / py_max ds) ds) \<and> py_max (map (\<lambda>d. d / py_max ds) ds) = 1"
proof -
  have m: "0 < py_max ds" using normalize_column_pos_max [OF assms] .
  have "ds \<noteq> []" using assms(1,4) column_Inr_length by fastforce
  then show ?thesis using m normalize_column_result(1) [OF assms(1,3)] by (simp add: py_max_map_div)
qed

theorem normalize_column_max_one_witness:
  "column ''Distance_to_Ready'' (projr (normalize_column ''Distance_to_Ready''
      [[(''Distance_to_Ready'', PFloat 4)], [(''Distance_to_Ready'', PFloat 2)]])) = Inr [1, 1 / 2] \<and>
   py_max [1, 1 / 2 :: real] = 1"
proof -
  let ?data = "[[(''Distance_to_Ready'', PFloat 4)], [(''Distance_to_Ready'', PFloat (2::real))]]"
  have h1: "column ''Distance_to_Ready'' ?data = Inr [4, 2]" by (simp add: column_def)
  have h2: "\<forall>d \<in> set [4, 2::real]. 0 \<le> d" by simp
  have h3: "normalize_column ''Distance_to_Ready'' ?data = Inr (projr (normalize_column ''Distance_to_Ready'' ?data))"
    by (simp add: normalize_column_cases [OF h1])
  have h4: "?data \<noteq> []" by simp
  have m: "map (\<lambda>d. d / py_max [4, 2]) [4, 2::real] = [1, 1 / 2]" by simp
  show ?thesis using normalize_column_max_one [OF h1 h2 h3 h4] unfolding m .
qed

text \<open>Claim C30: a column that is 0 on every record of a
  non-empty dataset makes the loop raise \<open>ZeroDivisionError\<close>; the spec's divisor 1 for a
  zero maximum is not what the code does (\<open>max(distances) if distances else 1\<close> guards
  only the empty list).\<close>

theorem normalize_column_zero_max_error:
  assumes "column key data = Inr ds" and "data \<noteq> []" and "\<forall>d \<in> set ds. d = 0"
  shows "normalize_column key data = Inl ZeroDivisionError"
proof -
  have "ds \<noteq> []" using assms(1,2) column_Inr_length by fastforce
  then have "py_max ds = 0" using assms(3) py_max_in by blast
  then show ?thesis using assms(1,2) by (simp add: normalize_column_cases)
qed

theorem normalize_column_zero_max_error_witness:
  "normalize_column ''Distance_to_Not Ready'' [[(''Distance_to_Not Ready'', PFloat 0)]] =
     Inl ZeroDivisionError"
proof -
  have h1: "column ''Distance_to_Not Ready'' [[(''Distance_to_Not Ready'', PFloat 0)]] = Inr [0]"
    by (simp add: column_def)
  have h2: "[[(''Distance_to_Not Ready'', PFloat 0)]] \<noteq> []" by simp
  have h3: "\<forall>d \<in> set [0::real]. d = 0" by simp
  show ?thesis by (rule normalize_column_zero_max_error [OF h1 h2 h3])
qed

text \<open>Claim C31: normalizing an already normalized column changes
  nothing (its maximum is 1), contrary to the spec's warning that a second pass would
  compress the scale further.\<close>

theorem normalize_column_idempotent:
  assumes "column key data = Inr ds" and "\<forall>d \<in> set ds. 0 \<le> d"
    and "normalize_column key data = Inr data'"
  shows "normalize_column key data' = Inr data'"
proof (cases "data = []")
  case True
  then show ?thesis using assms(1,3) by (simp add: normalize_column_cases)
next
  case False
  let ?m = "py_max ds"
  have m: "0 < ?m" using normalize_column_pos_max [OF assms False] .
  have len: "length ds = length data" using assms(1) by (rule column_Inr_length)
  have d': "data' = map2 (\<lambda>row r. AList.update key (PFloat (r / ?m)) row) data ds"
    using assms(1,3) False m by (simp add: normalize_column_cases)
  have col': "column key data' = Inr (map (\<lambda>d. d / ?m) ds)"
    using normalize_column_result(1) [OF assms(1,3)] .
  have "ds \<noteq> []" using len False by auto
  then have one: "py_max (map (\<lambda>d. d / ?m) ds) = 1" using m by (simp add: py_max_map_div)
  have "data' \<noteq> []" using d' len False by auto
  then have "normalize_column key data' =
      Inr (map2 (\<lambda>row r. AList.update key (PFloat r) row) data' (map (\<lambda>d. d / ?m) ds))"
    using one by (simp add: normalize_column_cases [OF col'])
  also have "\<dots> = Inr data'"
    using d' len map2_update_twice [of ds data key "\<lambda>d. d / ?m"] by simp
  finally show ?thesis .
qed

theorem normalize_column_idempotent_witness:
  "normalize_column ''Distance_to_Ready''
     (projr (normalize_column ''Distance_to_Ready''
        [[(''Distance_to_Ready'', PFloat 4)], [(''Distance_to_Ready'', PFloat 2)]])) =
   normalize_column ''Distance_to_Ready''
        [[(''Distance_to_Ready'', PFloat 4)], [(''Distance_to_Ready'', PFloat 2)]]"
proof -
  let ?data = "[[(''Distance_to_Ready'', PFloat 4)], [(''Distance_to_Ready'', PFloat (2::real))]]"
  have h1: "column ''Distance_to_Ready'' ?data = Inr [4, 2]" by (simp add: column_def)
  have h2: "\<forall>d \<in> set [4, 2::real]. 0 \<le> d" by simp
  have h3: "normalize_column ''Distance_to_Ready'' ?data = Inr (projr (normalize_column ''Distance_to_Ready'' ?data))"
    by (simp add: normalize_column_cases [OF h1])
  show ?thesis using normalize_column_idempotent [OF h1 h2 h3] h3 by simp
qed


subsection \<open>All columns\<close>

lemma normalize_distances_Cons:
  "normalize_distances ((n, c) # ps) data =
     err_bind (normalize_column (distance_key n) data) (normalize_distances ps)"
  by (simp add: normalize_distances_def [abs_def])

lemma dict_keys_distinct_Cons:
  assumes "distinct (dict_keys ((n, c) # ps))" and "(n', c') \<in> set ps"
  shows "n' \<noteq> n"
proof
  assume "n' = n"
  have "n' \<in> fst ` set ps" using rev_image_eqI [OF assms(2), of n' fst] by simp
  with \<open>n' = n\<close> assms(1) show False by (simp add: dict_keys_def)
qed

lemma distance_key_inj [simp]: "distance_key a = distance_key b \<longleftrightarrow> a = b"
  by (simp add: distance_key_def)

lemma col_nonneg_iff: "col_nonneg key data \<longleftrightarrow> (\<exists>ds. column key data = Inr ds \<and> (\<forall>d \<in> set ds. 0 \<le> d))"
  by (auto simp: col_nonneg_def list_all_iff split: sum.splits)

lemma col_unit_nonneg: "col_unit key data \<Longrightarrow> col_nonneg key data"
  by (auto simp: col_unit_def col_nonneg_def list_all_iff split: sum.splits)

lemma normalize_column_length:
  assumes "normalize_column key data = Inr data'"
  shows "length data' = length data"
proof -
  obtain ds where ds: "column key data = Inr ds" using assms by (rule normalize_column_Inr_column)
  then have "length ds = length data" by (rule column_Inr_length)
  then show ?thesis using assms ds by (auto simp: normalize_column_cases split: if_splits)
qed

text \<open>The outer loop of \<open>normalize_distances\<close> leaves alone the columns it does not visit.\<close>

lemma normalize_distances_frame:
  assumes "normalize_distances ps data = Inr data'" and "k \<notin> distance_key ` set (dict_keys ps)"
  shows "column k data' = column k data"
  using assms
proof (induction ps arbitrary: data)
  case Nil
  then show ?case by (simp add: normalize_distances_def)
next
  case (Cons p ps)
  obtain n c where p: "p = (n, c)" by fastforce
  from Cons.prems p obtain d1 where d1: "normalize_column (distance_key n) data = Inr d1"
    and rest: "normalize_distances ps d1 = Inr data'"
    by (auto simp: normalize_distances_Cons)
  obtain ds where ds: "column (distance_key n) data = Inr ds"
    using d1 by (rule normalize_column_Inr_column)
  have "k \<noteq> distance_key n" using Cons.prems(2) p by auto
  then have "column k d1 = column k data" using normalize_column_result(2) [OF ds d1] by blast
  moreover have "column k data' = column k d1" using Cons.IH [OF rest] Cons.prems(2) p by auto
  ultimately show ?case by simp
qed

lemma normalize_distances_length:
  "normalize_distances ps data = Inr data' \<Longrightarrow> length data' = length data"
proof (induction ps arbitrary: data)
  case Nil
  then show ?case by (simp add: normalize_distances_def)
next
  case (Cons p ps)
  obtain n c where p: "p = (n, c)" by fastforce
  then show ?case using Cons normalize_column_length
    by (auto simp: normalize_distances_Cons)
qed

lemma column_nth:
  assumes "column key data = Inr ds" and "i < length data"
  shows "err_bind (dict_index (data ! i) key) num_of = Inr (ds ! i)"
  using assms list_all2_nthD [of "\<lambda>row d. err_bind (dict_index row key) num_of = Inr d" data ds i]
  by (simp add: column_def err_map_Inr_iff)

lemma column_Inr_keys:
  assumes "column key data = Inr ds"
  shows "\<forall>row \<in> set data. key \<in> set (dict_keys row)"
proof
  fix row assume "row \<in> set data"
  then obtain i where i: "i < length data" "data ! i = row" by (metis in_set_conv_nth)
  have "list_all2 (\<lambda>row d. err_bind (dict_index row key) num_of = Inr d) data ds"
    using assms by (simp add: column_def err_map_Inr_iff)
  then have "err_bind (dict_index row key) num_of = Inr (ds ! i)" using list_all2_nthD i by blast
  then obtain v where "dict_index row key = Inr v" by auto
  then have "map_of row key = Some v" by (simp add: dict_index_Inr_iff)
  then show "key \<in> set (dict_keys row)" by (force simp: dict_keys_def dest: map_of_SomeD)
qed

lemma normalize_column_keys:
  assumes "normalize_column key data = Inr data'"
  shows "map dict_keys data' = map dict_keys data"
proof -
  obtain ds where ds: "column key data = Inr ds" using assms by (rule normalize_column_Inr_column)
  have len: "length ds = length data" using ds by (rule column_Inr_length)
  have keys: "\<forall>row \<in> set data. key \<in> set (dict_keys row)" using ds by (rule column_Inr_keys)
  have "map dict_keys (map2 (\<lambda>row r. AList.update key (PFloat (r / py_max ds)) row) data ds) = map dict_keys data"
    using len keys by (simp add: list_eq_iff_nth_eq dict_keys_update)
  then show ?thesis using assms ds by (auto simp: normalize_column_cases split: if_splits)
qed

lemma normalize_distances_keys:
  "normalize_distances ps data = Inr data' \<Longrightarrow> map dict_keys data' = map dict_keys data"
proof (induction ps arbitrary: data)
  case Nil
  then show ?case by (simp add: normalize_distances_def)
next
  case (Cons p ps)
  obtain n c where p: "p = (n, c)" by fastforce
  then show ?case using Cons normalize_column_keys
    by (auto simp: normalize_distances_Cons)
qed

lemma normalize_column_keeps_nonneg:
  assumes "distinct (dict_keys ((n, c) # ps))"
    and "list_all (\<lambda>(n', c'). col_nonneg (distance_key n') data) ps"
    and "column (distance_key n) data = Inr ds" and "normalize_column (distance_key n) data = Inr d1"
  shows "list_all (\<lambda>(n', c'). col_nonneg (distance_key n') d1) ps"
proof -
  have "col_nonneg (distance_key n') d1" if "(n', c') \<in> set ps" for n' c'
  proof -
    have "n' \<noteq> n" using dict_keys_distinct_Cons [of n c ps n' c'] assms(1) that by simp
    then have "column (distance_key n') d1 = column (distance_key n') data"
      using normalize_column_result(2) [OF assms(3,4)] by simp
    moreover have "col_nonneg (distance_key n') data" using assms(2) that by (auto simp: list_all_iff)
    ultimately show ?thesis by (simp add: col_nonneg_def)
  qed
  then show ?thesis by (auto simp: list_all_iff)
qed

lemma normalize_distances_Inl:
  assumes "distinct (dict_keys ps)" and "list_all (\<lambda>(n, c). col_nonneg (distance_key n) data) ps"
    and "normalize_distances ps data = Inl e"
  shows "e = ZeroDivisionError"
  using assms
proof (induction ps arbitrary: data)
  case Nil
  then show ?case by (simp add: normalize_distances_def)
next
  case (Cons p ps)
  obtain n c where p: "p = (n, c)" by fastforce
  obtain ds where ds: "column (distance_key n) data = Inr ds"
    using Cons.prems(2) p by (auto simp: col_nonneg_iff)
  show ?case
  proof (cases "normalize_column (distance_key n) data")
    case (Inl e')
    then have "e' = ZeroDivisionError" using ds by (auto simp: normalize_column_cases split: if_splits)
    then show ?thesis using Inl p Cons.prems(3) by (simp add: normalize_distances_Cons)
  next
    case (Inr d1)
    have "list_all (\<lambda>(n', c'). col_nonneg (distance_key n') d1) ps"
      using normalize_column_keeps_nonneg [of n c ps data ds d1] Cons.prems(1,2) p ds Inr by simp
    moreover have "normalize_distances ps d1 = Inl e" using Cons.prems(3) Inr p by (simp add: normalize_distances_Cons)
    ultimately show ?thesis using Cons.IH Cons.prems(1) p by (simp add: dict_keys_def)
  qed
qed

lemma normalize_distances_unit:
  assumes "normalize_distances ps data = Inr data'" and "distinct (dict_keys ps)"
    and "list_all (\<lambda>(n, c). col_nonneg (distance_key n) data) ps"
  shows "list_all (\<lambda>(n, c). col_unit (distance_key n) data') ps"
  using assms
proof (induction ps arbitrary: data)
  case Nil
  then show ?case by simp
next
  case (Cons p ps)
  obtain n c where p: "p = (n, c)" by fastforce
  from Cons.prems(1) p obtain d1 where d1: "normalize_column (distance_key n) data = Inr d1"
    and rest: "normalize_distances ps d1 = Inr data'"
    by (auto simp: normalize_distances_Cons)
  obtain ds where ds: "column (distance_key n) data = Inr ds" and nn: "\<forall>d \<in> set ds. 0 \<le> d"
    using Cons.prems(3) p by (auto simp: col_nonneg_iff)
  have "n \<notin> set (dict_keys ps)" using Cons.prems(2) p by simp
  then have n_notin: "distance_key n \<notin> distance_key ` set (dict_keys ps)" by auto
  have "col_unit (distance_key n) d1" by (rule normalize_column_bounds [OF ds nn d1])
  then have own: "col_unit (distance_key n) data'"
    using normalize_distances_frame [OF rest n_notin] by (simp add: col_unit_def)
  have "list_all (\<lambda>(n', c'). col_nonneg (distance_key n') d1) ps"
    using normalize_column_keeps_nonneg [of n c ps data ds d1] Cons.prems(2,3) p ds d1 by simp
  then have "list_all (\<lambda>(n', c'). col_unit (distance_key n') data') ps"
    using Cons.IH [OF rest] Cons.prems(2) by (simp add: dict_keys_def)
  then show ?case using own p by simp
qed

lemma normalize_distances_zero_error:
  assumes "distinct (dict_keys ps)" and "data \<noteq> []"
    and "list_all (\<lambda>(n, c). col_nonneg (distance_key n) data) ps"
    and "(n0, c0) \<in> set ps" and "column (distance_key n0) data = Inr ds0" and "\<forall>d \<in> set ds0. d = 0"
  shows "normalize_distances ps data = Inl ZeroDivisionError"
  using assms
proof (induction ps arbitrary: data)
  case Nil
  then show ?case by simp
next
  case (Cons p ps)
  obtain n c where p: "p = (n, c)" by fastforce
  obtain ds where ds: "column (distance_key n) data = Inr ds"
    using Cons.prems(3) p by (auto simp: col_nonneg_iff)
  show ?case
  proof (cases "normalize_column (distance_key n) data")
    case (Inl e)
    then have "e = ZeroDivisionError"
      using ds by (auto simp: normalize_column_cases split: if_splits)
    then show ?thesis using Inl p by (simp add: normalize_distances_Cons)
  next
    case (Inr d1)
    have "n0 \<noteq> n"
    proof
      assume "n0 = n"
      then have "ds = ds0" using ds Cons.prems(5) by simp
      then show False
        using normalize_column_zero_max_error [OF ds Cons.prems(2)] Cons.prems(6) Inr by simp
    qed
    then have n0: "(n0, c0) \<in> set ps" using Cons.prems(4) p by auto
    have col0: "column (distance_key n0) d1 = Inr ds0"
      using normalize_column_result(2) [OF ds Inr] \<open>n0 \<noteq> n\<close> Cons.prems(5) by simp
    have ne: "d1 \<noteq> []" using normalize_column_length [OF Inr] Cons.prems(2) by auto
    have "list_all (\<lambda>(n, c). col_nonneg (distance_key n) d1) ps"
      using normalize_column_keeps_nonneg [of n c ps data ds d1] Cons.prems(1,3) p ds Inr by simp
    then have "normalize_distances ps d1 = Inl ZeroDivisionError"
      using Cons.IH [OF _ ne _ n0 col0 Cons.prems(6)] Cons.prems(1) by (simp add: dict_keys_def)
    then show ?thesis using Inr p by (simp add: normalize_distances_Cons)
  qed
qed


lemma column_annotated:
  assumes "distinct (dict_keys ps)"
    and "\<forall>(n, c) \<in> set ps. \<forall>(n', c') \<in> set ps. distance_key n \<notin> set (dict_keys (profile c'))"
    and "(n, c) \<in> set ps"
  shows "column (distance_key n) (map (annotate_row ps) data) =
           Inr (map (\<lambda>row. calculate_distance row (profile c)) data)"
proof (induction data)
  case Nil
  then show ?case by simp
next
  case (Cons row data)
  have "annotate_row ps row = annotate_from row ps row"
    using assms(2) by (rule annotate_row_from) simp
  then have "map_of (annotate_row ps row) (distance_key n) = Some (PFloat (calculate_distance row (profile c)))"
    using annotate_from_lookup [OF assms(1,3)] by simp
  then show ?case using Cons by (simp add: column_Cons dict_index_def)
qed

lemma annotated_col_nonneg:
  assumes "distinct (dict_keys ps)"
    and "\<forall>(n, c) \<in> set ps. \<forall>(n', c') \<in> set ps. distance_key n \<notin> set (dict_keys (profile c'))"
    and "\<forall>(n, c) \<in> set ps. \<forall>(f, v) \<in> set (profile c). 0 \<le> v"
  shows "list_all (\<lambda>(n, c). col_nonneg (distance_key n) (map (annotate_row ps) data)) ps"
proof -
  have "col_nonneg (distance_key n) (map (annotate_row ps) data)" if "(n, c) \<in> set ps" for n c
  proof -
    have "\<forall>(f, v) \<in> set (profile c). 0 \<le> v" using assms(3) that by blast
    then have "\<forall>row \<in> set data. 0 \<le> calculate_distance row (profile c)"
      using calculate_distance_nonneg by blast
    then show ?thesis using column_annotated [OF assms(1,2) that] by (simp add: col_nonneg_iff)
  qed
  then show ?thesis by (auto simp: list_all_iff)
qed

lemma calculate_all_distances_Inl:
  assumes "distinct (dict_keys ps)"
    and "\<forall>(n, c) \<in> set ps. \<forall>(n', c') \<in> set ps. distance_key n \<notin> set (dict_keys (profile c'))"
    and "\<forall>(n, c) \<in> set ps. \<forall>(f, v) \<in> set (profile c). 0 \<le> v"
    and "calculate_all_distances data ps = Inl e"
  shows "e = ZeroDivisionError"
  using normalize_distances_Inl [OF assms(1) annotated_col_nonneg [OF assms(1-3)]] assms(4)
  by (simp add: calculate_all_distances_def)

lemma calculate_all_distances_uniform:
  assumes "distinct (dict_keys ps)"
    and "\<forall>(n, c) \<in> set ps. \<forall>(n', c') \<in> set ps. distance_key n \<notin> set (dict_keys (profile c'))"
    and "\<forall>(n, c) \<in> set ps. \<forall>(f, v) \<in> set (profile c). 0 \<le> v"
    and "\<forall>row \<in> set data. dict_keys row = ks" and "\<forall>n \<in> set (dict_keys ps). distance_key n \<notin> set ks"
    and "calculate_all_distances data ps = Inr data'"
  shows "length data' = length data"
    and "\<forall>row \<in> set data'. dict_keys row = ks @ map distance_key (dict_keys ps)"
    and "list_all (\<lambda>(n, c). col_nonneg (distance_key n) data') ps"
proof -
  have nd: "normalize_distances ps (map (annotate_row ps) data) = Inr data'"
    using assms(6) by (simp add: calculate_all_distances_def)
  show "length data' = length data" using normalize_distances_length [OF nd] by simp
  have "map dict_keys data' = map dict_keys (map (annotate_row ps) data)" by (rule normalize_distances_keys [OF nd])
  also have "\<dots> = map (\<lambda>row. ks @ map distance_key (dict_keys ps)) data"
    using annotate_row_keys [OF assms(1)] assms(4,5) by simp
  finally show "\<forall>row \<in> set data'. dict_keys row = ks @ map distance_key (dict_keys ps)"
    by (rule map_eq_uniform) simp
  have "list_all (\<lambda>(n, c). col_unit (distance_key n) data') ps"
    by (rule normalize_distances_unit [OF nd assms(1) annotated_col_nonneg [OF assms(1-3)]])
  then show "list_all (\<lambda>(n, c). col_nonneg (distance_key n) data') ps"
    by (auto simp: list_all_iff col_unit_nonneg)
qed

text \<open>Claim C4: when \<open>calculate_all_distances\<close> returns, every
  record carries every profile's distance field and each such column lies in [0, 1]
  (profiles with distinct names, non-negative ideal values, no feature named like a
  distance field).\<close>

theorem calculate_all_distances_unit:
  assumes "distinct (dict_keys ps)"
    and "\<forall>(n, c) \<in> set ps. \<forall>(n', c') \<in> set ps. distance_key n \<notin> set (dict_keys (profile c'))"
    and "\<forall>(n, c) \<in> set ps. \<forall>(f, v) \<in> set (profile c). 0 \<le> v"
    and "calculate_all_distances data ps = Inr data'"
  shows "list_all (\<lambda>(n, c). col_unit (distance_key n) data') ps"
  using assms(4) unfolding calculate_all_distances_def
  by (rule normalize_distances_unit [OF _ assms(1) annotated_col_nonneg [OF assms(1-3)]])

text \<open>Claim C5: if some profile is at distance 0 from every
  record of a non-empty dataset, \<open>calculate_all_distances\<close> raises
  \<open>ZeroDivisionError\<close>, whatever the other profiles give. With the configured
  \<open>profiles\<close> this happens as soon as no record has a non-zero numeric value for any
  feature (the \<open>Not Ready\<close> profile is all zeros).\<close>

theorem calculate_all_distances_zero_error:
  assumes "distinct (dict_keys ps)"
    and "\<forall>(n, c) \<in> set ps. \<forall>(n', c') \<in> set ps. distance_key n \<notin> set (dict_keys (profile c'))"
    and "\<forall>(n, c) \<in> set ps. \<forall>(f, v) \<in> set (profile c). 0 \<le> v"
    and "data \<noteq> []" and "(n0, c0) \<in> set ps"
    and "\<forall>row \<in> set data. calculate_distance row (profile c0) = 0"
  shows "calculate_all_distances data ps = Inl ZeroDivisionError"
proof -
  have col: "column (distance_key n0) (map (annotate_row ps) data) =
      Inr (map (\<lambda>row. calculate_distance row (profile c0)) data)"
    by (rule column_annotated [OF assms(1,2,5)])
  have "\<forall>d \<in> set (map (\<lambda>row. calculate_distance row (profile c0)) data). d = 0"
    using assms(6) by auto
  then show ?thesis unfolding calculate_all_distances_def
    using normalize_distances_zero_error [OF assms(1) _ annotated_col_nonneg [OF assms(1-3)] assms(5) col]
      assms(4) by simp
qed

lemma profiles_wf:
  "distinct (dict_keys profiles)"
  "\<forall>(n, c) \<in> set profiles. \<forall>(n', c') \<in> set profiles. distance_key n \<notin> set (dict_keys (profile c'))"
  "\<forall>(n, c) \<in> set profiles. \<forall>(f, v) \<in> set (profile c). 0 \<le> v"
  by (simp_all add: profiles_def distance_key_def dict_keys_def)

theorem calculate_all_distances_zero_error_witness:
  "calculate_all_distances [[(''Artist Name'', PStr ''X'')]] profiles = Inl ZeroDivisionError"
proof -
  have h1: "[[(''Artist Name'', PStr ''X'')]] \<noteq> []" by simp
  have h2: "(''Not Ready'', \<lparr>profile = map (\<lambda>(f, _). (f, 0)) ideal_artist, weight = 0\<rparr>) \<in> set profiles"
    by (simp add: profiles_def ideal_artist_def)
  have h3: "\<forall>row \<in> set [[(''Artist Name'', PStr ''X'')]].
      calculate_distance row (profile \<lparr>profile = map (\<lambda>(f, _). (f, 0)) ideal_artist, weight = 0\<rparr>) = 0"
    by (simp add: ideal_artist_def calculate_distance_sum feature_term_def)
  show ?thesis by (rule calculate_all_distances_zero_error [OF profiles_wf h1 h2 h3])
qed

theorem calculate_all_distances_unit_witness:
  "list_all (\<lambda>(n, c). col_unit (distance_key n)
      (projr (calculate_all_distances [[(''Spotify Following'', PFloat 30)], [(''TikTok Following'', PStr ''n/a'')]] profiles)))
    profiles"
proof -
  let ?data = "[[(''Spotify Following'', PFloat 30)], [(''TikTok Following'', PStr ''n/a'')]]"
  have h: "calculate_all_distances ?data profiles = Inr (projr (calculate_all_distances ?data profiles))"
    by (simp add: calculate_all_distances_def normalize_distances_def profiles_def normalize_column_def
        column_def divide_column_def divide_field_def distance_key_def calculate_distance_sum
        feature_term_def py_float_defs dict_keys_def)
  show ?thesis by (rule calculate_all_distances_unit [OF profiles_wf h])
qed

end
