(* ===== verification/Milp.thy ===== *)
theory Milp
  imports Prelude
begin

text \<open>
  The part of \<open>gurobipy\<close> both scripts use, modelled as data: a model (\<open>milp\<close>) holds
  binary variables (\<open>addVars(..., vtype=GRB.BINARY)\<close>), a linear objective to minimise
  (\<open>setObjective(quicksum(...), GRB.MINIMIZE)\<close>) and named linear constraints whose
  coefficients are all 1 (\<open>addConstr(quicksum(...) == rhs)\<close> or \<open>>= rhs\<close>).
  \<open>model.optimize()\<close> is a solver, a function from models to results; the library is
  not modelled, only its contract (\<open>solver_contract\<close>): an optimal result is an
  optimal feasible point, an incumbent returned at a limit is feasible, and
  \<open>Infeasible\<close> means that no feasible point exists. Reading \<open>x[v].X\<close> of a model
  without a solution raises (\<open>read_X\<close>). \<open>solve_enum\<close> is an executable solver, by
  enumeration of all 0/1 points, that meets the contract on every well-formed model.
\<close>

subsection \<open>Models, their semantics, and the solver contract\<close>

datatype sense = SenseEQ | SenseGE

record 'v lin_constr =
  cname :: string
  cterms :: "'v list"
  csense :: sense
  crhs :: real

record 'v milp =
  mname :: string
  mvars :: "'v list"
  mobj :: "('v \<times> real) list"
  mconstrs :: "'v lin_constr list"

definition lin_value :: "('v \<Rightarrow> real) \<Rightarrow> 'v list \<Rightarrow> real" where
  "lin_value x vs = sum_list (map x vs)"

definition satisfies :: "('v \<Rightarrow> real) \<Rightarrow> 'v lin_constr \<Rightarrow> bool" where
  "satisfies x c = (case csense c of
      SenseEQ \<Rightarrow> lin_value x (cterms c) = crhs c
    | SenseGE \<Rightarrow> crhs c \<le> lin_value x (cterms c))"

definition binary_on :: "'v list \<Rightarrow> ('v \<Rightarrow> real) \<Rightarrow> bool" where
  "binary_on vs x = list_all (\<lambda>v. x v = 0 \<or> x v = 1) vs"

definition feasible :: "'v milp \<Rightarrow> ('v \<Rightarrow> real) \<Rightarrow> bool" where
  "feasible m x = (binary_on (mvars m) x \<and> list_all (satisfies x) (mconstrs m))"

definition objective :: "'v milp \<Rightarrow> ('v \<Rightarrow> real) \<Rightarrow> real" where
  "objective m x = sum_list (map (\<lambda>(v, c). x v * c) (mobj m))"

definition optimal :: "'v milp \<Rightarrow> ('v \<Rightarrow> real) \<Rightarrow> bool" where
  "optimal m x = (feasible m x \<and> (\<forall>y. feasible m y \<longrightarrow> objective m x \<le> objective m y))"

text \<open>What \<open>model.optimize()\<close> leaves in the model: an optimal solution, an incumbent
  found before a limit stopped the search, or no solution at all.\<close>

datatype 'v solve_result = Optimal "'v \<Rightarrow> real" | Incumbent "'v \<Rightarrow> real" | Infeasible | SolverFailed

type_synonym 'v solver = "'v milp \<Rightarrow> 'v solve_result"

definition solver_contract :: "'v solver \<Rightarrow> 'v milp \<Rightarrow> bool" where
  "solver_contract solve m =
     ((\<forall>x. solve m = Optimal x \<longrightarrow> optimal m x) \<and>
      (\<forall>x. solve m = Incumbent x \<longrightarrow> feasible m x) \<and>
      (solve m = Infeasible \<longrightarrow> \<not> (\<exists>x. feasible m x)))"

text \<open>\<open>x[v].X\<close>: the value of a variable in the solution, or the exception raised when
  the model holds none.\<close>

fun read_X :: "'v solve_result \<Rightarrow> 'v \<Rightarrow> py_error + real" where
  "read_X (Optimal x) v = Inr (x v)"
| "read_X (Incumbent x) v = Inr (x v)"
| "read_X Infeasible v = Inl SolutionUnavailable"
| "read_X SolverFailed v = Inl SolutionUnavailable"

subsection \<open>An executable solver: enumeration of the 0/1 points\<close>

definition point_of :: "'v list \<Rightarrow> real list \<Rightarrow> 'v \<Rightarrow> real" where
  "point_of vs bs v = (case map_of (zip vs bs) v of Some b \<Rightarrow> b | None \<Rightarrow> 0)"

fun argmin_by :: "('a \<Rightarrow> real) \<Rightarrow> 'a list \<Rightarrow> 'a option" where
  "argmin_by f [] = None"
| "argmin_by f (x # xs) = (case argmin_by f xs of
      None \<Rightarrow> Some x
    | Some y \<Rightarrow> if f x \<le> f y then Some x else Some y)"

definition solve_enum :: "'v solver" where
  "solve_enum m =
     (case argmin_by (objective m)
             (filter (feasible m) (map (point_of (mvars m)) (List.n_lists (length (mvars m)) [0, 1]))) of
        Some x \<Rightarrow> Optimal x
      | None \<Rightarrow> Infeasible)"

text \<open>Well-formed models mention only their own variables; the models of
  \<open>cluster_artists\<close> are well-formed.\<close>

definition wf_milp :: "'v milp \<Rightarrow> bool" where
  "wf_milp m = (list_all (\<lambda>c. set (cterms c) \<subseteq> set (mvars m)) (mconstrs m) \<and>
                set (map fst (mobj m)) \<subseteq> set (mvars m))"

subsection \<open>The enumeration solver meets the contract\<close>


lemma point_of_agree: "v \<in> set vs \<Longrightarrow> point_of vs (map y vs) v = y v"
  by (induction vs) (auto simp: point_of_def)

lemma lin_value_cong: "(\<forall>v \<in> set vs. x v = y v) \<Longrightarrow> lin_value x vs = lin_value y vs"
  by (simp add: lin_value_def cong: map_cong)

lemma feasible_cong:
  assumes "wf_milp m" and "\<forall>v \<in> set (mvars m). x v = y v"
  shows "feasible m x = feasible m y"
proof -
  have "satisfies x c = satisfies y c" if "c \<in> set (mconstrs m)" for c
  proof -
    have "\<forall>v \<in> set (cterms c). x v = y v" using assms that by (auto simp: wf_milp_def list_all_iff)
    then have "lin_value x (cterms c) = lin_value y (cterms c)" by (rule lin_value_cong)
    then show ?thesis by (simp add: satisfies_def split: sense.splits)
  qed
  moreover have "binary_on (mvars m) x = binary_on (mvars m) y"
    using assms(2) by (simp add: binary_on_def list_all_iff)
  ultimately show ?thesis by (simp add: feasible_def list_all_iff)
qed

lemma objective_cong:
  assumes "wf_milp m" and "\<forall>v \<in> set (mvars m). x v = y v"
  shows "objective m x = objective m y"
proof -
  have "\<forall>vc \<in> set (mobj m). (case vc of (v, c) \<Rightarrow> x v * c) = (case vc of (v, c) \<Rightarrow> y v * c)"
    using assms by (force simp: wf_milp_def)
  then show ?thesis unfolding objective_def by (metis (no_types, lifting) map_eq_conv)
qed

lemma argmin_by_None: "argmin_by f xs = None \<longleftrightarrow> xs = []"
  by (cases xs) (auto split: option.splits)

lemma argmin_by_Some:
  "argmin_by f xs = Some x \<Longrightarrow> x \<in> set xs \<and> (\<forall>y \<in> set xs. f x \<le> f y)"
proof (induction xs arbitrary: x)
  case Nil
  then show ?case by simp
next
  case (Cons a xs)
  show ?case
  proof (cases "argmin_by f xs")
    case None
    then show ?thesis using Cons.prems by (simp add: argmin_by_None)
  next
    case (Some y)
    note IH = Cons.IH [OF Some]
    show ?thesis
    proof (cases "f a \<le> f y")
      case True
      then show ?thesis using Cons.prems Some IH by force
    next
      case False
      then show ?thesis using Cons.prems Some IH by force
    qed
  qed
qed

lemma enum_candidate:
  assumes "feasible m y"
  shows "map y (mvars m) \<in> set (List.n_lists (length (mvars m)) [0, 1])"
proof -
  have "binary_on (mvars m) y" using assms by (simp add: feasible_def)
  then show ?thesis by (auto simp: set_n_lists binary_on_def list_all_iff)
qed

lemma solve_enum_finds:
  assumes "wf_milp m" and "feasible m y"
  shows "\<exists>x. solve_enum m = Optimal x \<and> feasible m x \<and> objective m x \<le> objective m y"
proof -
  let ?cands = "filter (feasible m) (map (point_of (mvars m)) (List.n_lists (length (mvars m)) [0, 1]))"
  let ?y' = "point_of (mvars m) (map y (mvars m))"
  have agree: "\<forall>v \<in> set (mvars m). ?y' v = y v" by (simp add: point_of_agree)
  have fy': "feasible m ?y'" using feasible_cong [OF assms(1) agree] assms(2) by simp
  have mem: "?y' \<in> set ?cands" using enum_candidate [OF assms(2)] fy' by simp
  obtain x where x: "argmin_by (objective m) ?cands = Some x"
  proof (cases "argmin_by (objective m) ?cands")
    case None
    then have "?cands = []" by (simp only: argmin_by_None)
    then show ?thesis using mem by simp
  qed
  have xm: "x \<in> set ?cands" and le: "objective m x \<le> objective m ?y'"
    using argmin_by_Some [OF x] mem by blast+
  have "feasible m x" using xm by simp
  moreover have "objective m ?y' = objective m y" by (rule objective_cong [OF assms(1) agree])
  moreover have "solve_enum m = Optimal x" using x by (simp only: solve_enum_def option.case)
  ultimately show ?thesis using le by auto
qed

lemma solve_enum_contract: "wf_milp m \<Longrightarrow> solver_contract solve_enum m"
proof -
  assume wf: "wf_milp m"
  let ?cands = "filter (feasible m) (map (point_of (mvars m)) (List.n_lists (length (mvars m)) [0, 1]))"
  have opt: "optimal m x" if "solve_enum m = Optimal x" for x
  proof -
    have x: "argmin_by (objective m) ?cands = Some x"
      using that by (auto simp: solve_enum_def split: option.splits)
    have "feasible m x" using argmin_by_Some [OF x] by simp
    moreover have "objective m x \<le> objective m y" if fy: "feasible m y" for y
    proof -
      obtain x' where "solve_enum m = Optimal x'" "objective m x' \<le> objective m y"
        using solve_enum_finds [OF wf fy] by blast
      then show ?thesis using \<open>solve_enum m = Optimal x\<close> by simp
    qed
    ultimately show ?thesis by (simp add: optimal_def)
  qed
  have inf: "\<not> (\<exists>x. feasible m x)" if inf0: "solve_enum m = Infeasible"
  proof
    assume "\<exists>x. feasible m x"
    then obtain y where "feasible m y" by blast
    from solve_enum_finds [OF wf this] inf0 show False by auto
  qed
  have "solve_enum m \<noteq> Incumbent x" for x
    by (simp only: solve_enum_def split: option.split) simp
  then show ?thesis using opt inf unfolding solver_contract_def by blast
qed

lemma read_X_solution:
  "read_X (Optimal x) = (\<lambda>v. Inr (x v))" "read_X (Incumbent x) = (\<lambda>v. Inr (x v))"
  by (simp_all add: fun_eq_iff)

lemma no_solution_when_infeasible:
  assumes "solver_contract solve m" and "\<not> (\<exists>x. feasible m x)"
  shows "solve m = Infeasible \<or> solve m = SolverFailed"
  using assms by (cases "solve m") (auto simp: solver_contract_def optimal_def)

end
