(* ===== verification/Assignment.thy ===== *)
theory Assignment
  imports Normalize Milp
begin

text \<open>
  The cluster assignment of \<open>modified_artist_clustering.py\<close>, \<open>cluster_artists(data,
  profiles)\<close>, lines 101-137: the model it builds (\<open>build_model\<close>) in the vocabulary of
  \<open>Milp\<close>, the loop that reads the labels back (\<open>assign_clusters\<close>), the abstract
  assignment problem the model encodes (\<open>valid_assignment\<close>, \<open>assign_cost\<close>) with the
  refinement between the two, and the effect of the Not Ready penalty on optima.
\<close>

subsection \<open>The model built by \<open>cluster_artists\<close>\<close>

text \<open>\<open>model.addVars(len(data), len(profiles))\<close>: the keys \<open>(i, j)\<close> in row-major order.\<close>

definition cluster_vars :: "nat \<Rightarrow> nat \<Rightarrow> (nat \<times> nat) list" where
  "cluster_vars n k = concat (map (\<lambda>i. map (\<lambda>j. (i, j)) [0..<k]) [0..<n])"

definition penalty :: "string \<Rightarrow> real" where
  "penalty cluster_name = (if cluster_name = ''Not Ready'' then 10 else 0)"

text \<open>The objective coefficient of \<open>x[i, j]\<close>:
  \<open>data[i][f'Distance_to_{cluster_name}'] + (10 if cluster_name == "Not Ready" else 0)\<close>.\<close>

definition cell_cost :: "dataset \<Rightarrow> string list \<Rightarrow> nat \<times> nat \<Rightarrow> py_error + real" where
  "cell_cost data names v = (case v of (i, j) \<Rightarrow>
     err_bind (dict_index (data ! i) (distance_key (names ! j))) (\<lambda>d.
       err_bind (num_of d) (\<lambda>r. Inr (r + penalty (names ! j)))))"

definition obj_terms :: "dataset \<Rightarrow> string list \<Rightarrow> py_error + ((nat \<times> nat) \<times> real) list" where
  "obj_terms data names =
     err_map (\<lambda>v. err_bind (cell_cost data names v) (\<lambda>c. Inr (v, c)))
       (cluster_vars (length data) (length names))"

text \<open>\<open>quicksum(x[i, j] for j in range(len(profiles))) == 1\<close> for every record.\<close>

definition assign_constrs :: "nat \<Rightarrow> nat \<Rightarrow> (nat \<times> nat) lin_constr list" where
  "assign_constrs n k =
     map (\<lambda>i. \<lparr>cname = ''Artist_'' @ py_str_nat i @ ''_Cluster_Assignment'',
               cterms = map (\<lambda>j. (i, j)) [0..<k], csense = SenseEQ, crhs = 1\<rparr>) [0..<n]"

text \<open>\<open>quicksum(x[i, j] for i in range(len(data))) >= min_artists\<close> for every cluster.\<close>

definition min_constrs :: "nat \<Rightarrow> string list \<Rightarrow> nat \<Rightarrow> (nat \<times> nat) lin_constr list" where
  "min_constrs n names min_artists =
     map (\<lambda>(j, cluster_name). \<lparr>cname = ''Min_'' @ cluster_name,
               cterms = map (\<lambda>i. (i, j)) [0..<n], csense = SenseGE, crhs = real min_artists\<rparr>)
       (enumerate 0 names)"

text \<open>\<open>max(1, len(data) // len(profiles))\<close>; \<open>//\<close> by zero raises.\<close>

definition min_artists :: "nat \<Rightarrow> nat \<Rightarrow> py_error + nat" where
  "min_artists n k = (if k = 0 then Inl ZeroDivisionError else Inr (max 1 (n div k)))"

definition build_model :: "dataset \<Rightarrow> cluster_cfg pydict \<Rightarrow> py_error + (nat \<times> nat) milp" where
  "build_model data ps =
     (let names = dict_keys ps; n = length data; k = length names in
      err_bind (obj_terms data names) (\<lambda>obj.
        err_bind (min_artists n k) (\<lambda>ma.
          Inr \<lparr>mname = ''Artist Clustering'', mvars = cluster_vars n k, mobj = obj,
               mconstrs = assign_constrs n k @ min_constrs n names ma\<rparr>)))"

subsection \<open>Reading the solution\<close>

text \<open>The inner loop: the first cluster whose variable exceeds 0.5, then \<open>break\<close>.\<close>

fun select_cluster :: "(nat \<times> nat \<Rightarrow> py_error + real) \<Rightarrow> nat \<Rightarrow> nat \<Rightarrow> string list \<Rightarrow> py_error + string option" where
  "select_cluster X i j [] = Inr None"
| "select_cluster X i j (cluster_name # names) =
     err_bind (X (i, j)) (\<lambda>v.
       if 0.5 < v then Inr (Some cluster_name) else select_cluster X i (Suc j) names)"

definition label_row :: "(nat \<times> nat \<Rightarrow> py_error + real) \<Rightarrow> string list \<Rightarrow> nat \<times> row \<Rightarrow> py_error + row" where
  "label_row X names ir = (case ir of (i, row) \<Rightarrow>
     err_bind (select_cluster X i 0 names) (\<lambda>sel. case sel of
        Some cluster_name \<Rightarrow> Inr (AList.update ''Cluster'' (PStr cluster_name) row)
      | None \<Rightarrow> Inr row))"

definition assign_clusters :: "(nat \<times> nat \<Rightarrow> py_error + real) \<Rightarrow> string list \<Rightarrow> dataset \<Rightarrow> py_error + dataset" where
  "assign_clusters X names data = err_map (label_row X names) (enumerate 0 data)"

definition cluster_artists :: "(nat \<times> nat) solver \<Rightarrow> dataset \<Rightarrow> cluster_cfg pydict \<Rightarrow> py_error + dataset" where
  "cluster_artists solve data ps =
     err_bind (build_model data ps) (\<lambda>m. assign_clusters (read_X (solve m)) (dict_keys ps) data)"

subsection \<open>The assignment problem the model encodes\<close>

definition min_size :: "nat \<Rightarrow> nat \<Rightarrow> nat" where
  "min_size n k = max 1 (n div k)"

text \<open>A cluster index per record, every cluster with at least \<open>min_size\<close> records.\<close>

definition valid_assignment :: "nat \<Rightarrow> nat \<Rightarrow> nat list \<Rightarrow> bool" where
  "valid_assignment n k a =
     (length a = n \<and> list_all (\<lambda>c. c < k) a \<and> list_all (\<lambda>j. min_size n k \<le> count_list a j) [0..<k])"

definition assign_cost :: "(nat \<times> nat \<Rightarrow> real) \<Rightarrow> nat list \<Rightarrow> real" where
  "assign_cost C a = (\<Sum>i < length a. C (i, a ! i))"

definition indicator :: "nat list \<Rightarrow> nat \<times> nat \<Rightarrow> real" where
  "indicator a v = (case v of (i, j) \<Rightarrow> if i < length a \<and> a ! i = j then 1 else 0)"

text \<open>The assignment a 0/1 point selects: for each record the first cluster above 0.5.\<close>

definition decode :: "nat \<Rightarrow> nat \<Rightarrow> (nat \<times> nat \<Rightarrow> real) \<Rightarrow> nat list" where
  "decode n k x = map (\<lambda>i. case find (\<lambda>j. 0.5 < x (i, j)) [0..<k] of Some j \<Rightarrow> j | None \<Rightarrow> 0) [0..<n]"

text \<open>The assignment's output: the label \<open>Cluster\<close> written into every record.\<close>

definition label_rows :: "string list \<Rightarrow> nat list \<Rightarrow> dataset \<Rightarrow> dataset" where
  "label_rows names a data = map2 (\<lambda>c row. AList.update ''Cluster'' (PStr (names ! c)) row) a data"

definition cost_of :: "dataset \<Rightarrow> string list \<Rightarrow> nat \<times> nat \<Rightarrow> real" where
  "cost_of data names v = (case cell_cost data names v of Inr c \<Rightarrow> c | Inl _ \<Rightarrow> 0)"

text \<open>A balanced assignment: \<open>n div k\<close> full rounds over the clusters, the rest to cluster 0.\<close>

definition balanced :: "nat \<Rightarrow> nat \<Rightarrow> nat list" where
  "balanced n k = concat (replicate (n div k) [0..<k]) @ replicate (n mod k) 0"

text \<open>A two-record, two-cluster instance used by the witnesses.\<close>

definition ps2 :: "cluster_cfg pydict" where
  "ps2 = [(''Ready'', \<lparr>profile = [], weight = 1\<rparr>), (''Not Ready'', \<lparr>profile = [], weight = 0\<rparr>)]"

definition data2 :: dataset where
  "data2 = [[(''Distance_to_Ready'', PFloat 0.2), (''Distance_to_Not Ready'', PFloat 0.9)],
            [(''Distance_to_Ready'', PFloat 1), (''Distance_to_Not Ready'', PFloat 0)]]"

subsection \<open>Shape of the model\<close>


lemma set_cluster_vars: "set (cluster_vars n k) = {(i, j). i < n \<and> j < k}"
  by (auto simp: cluster_vars_def)

lemma cluster_vars_0 [simp]: "cluster_vars n 0 = []"
  by (simp add: cluster_vars_def)

lemma err_map_pair:
  "err_map (\<lambda>v. err_bind (g v) (\<lambda>c. Inr (v, c))) vs = Inr obj \<Longrightarrow>
     obj = map (\<lambda>v. (v, case g v of Inr c \<Rightarrow> c | Inl _ \<Rightarrow> 0)) vs"
proof (induction vs arbitrary: obj)
  case Nil
  then show ?case by simp
next
  case (Cons v vs)
  then show ?case by (auto simp: err_bind_def split: sum.splits)
qed

lemma build_model_Inr_iff:
  "build_model data ps = Inr m \<longleftrightarrow>
     ps \<noteq> [] \<and> (\<exists>obj. obj_terms data (dict_keys ps) = Inr obj \<and>
        m = \<lparr>mname = ''Artist Clustering'', mvars = cluster_vars (length data) (length ps), mobj = obj,
             mconstrs = assign_constrs (length data) (length ps) @
               min_constrs (length data) (dict_keys ps) (min_size (length data) (length ps))\<rparr>)"
  by (auto simp: build_model_def Let_def min_artists_def min_size_def err_bind_def dict_keys_def
           split: sum.splits)

lemma build_model_Inr:
  assumes "build_model data ps = Inr m"
  shows "0 < length ps"
    and "mvars m = cluster_vars (length data) (length ps)"
    and "mobj m = map (\<lambda>v. (v, cost_of data (dict_keys ps) v)) (cluster_vars (length data) (length ps))"
    and "mconstrs m = assign_constrs (length data) (length ps) @
                      min_constrs (length data) (dict_keys ps) (min_size (length data) (length ps))"
proof -
  obtain obj where ps: "ps \<noteq> []" and obj: "obj_terms data (dict_keys ps) = Inr obj"
    and m: "m = \<lparr>mname = ''Artist Clustering'', mvars = cluster_vars (length data) (length ps), mobj = obj,
             mconstrs = assign_constrs (length data) (length ps) @
               min_constrs (length data) (dict_keys ps) (min_size (length data) (length ps))\<rparr>"
    using assms by (auto simp: build_model_Inr_iff)
  have "obj = map (\<lambda>v. (v, cost_of data (dict_keys ps) v)) (cluster_vars (length data) (length ps))"
    using err_map_pair obj by (fastforce simp: obj_terms_def cost_of_def dict_keys_def)
  then show "0 < length ps" "mvars m = cluster_vars (length data) (length ps)"
    "mobj m = map (\<lambda>v. (v, cost_of data (dict_keys ps) v)) (cluster_vars (length data) (length ps))"
    "mconstrs m = assign_constrs (length data) (length ps) @
                      min_constrs (length data) (dict_keys ps) (min_size (length data) (length ps))"
    using ps m by simp_all
qed

lemma build_model_wf:
  assumes "build_model data ps = Inr m"
  shows "wf_milp m"
  using build_model_Inr [OF assms]
  by (auto simp: wf_milp_def set_cluster_vars assign_constrs_def min_constrs_def list_all_iff
                 in_set_enumerate_eq dict_keys_def)

lemma sum_list_concat_map: "sum_list (concat xss) = sum_list (map sum_list (xss :: real list list))"
  by (induction xss) simp_all

lemma binary_on_cluster_vars:
  "binary_on (cluster_vars n k) x \<longleftrightarrow> (\<forall>i<n. \<forall>j<k. x (i, j) = 0 \<or> x (i, j) = 1)"
  by (auto simp: binary_on_def list_all_iff set_cluster_vars)

lemma satisfies_assign_constrs:
  "list_all (satisfies x) (assign_constrs n k) \<longleftrightarrow> (\<forall>i<n. (\<Sum>j<k. x (i, j)) = 1)"
  by (auto simp: assign_constrs_def list_all_iff satisfies_def lin_value_def sum_list_map_upt0 comp_def
                atLeast0LessThan)

lemma list_all_enumerate:
  "list_all (\<lambda>(j, y). P j) (enumerate k ys) \<longleftrightarrow> (\<forall>j. k \<le> j \<and> j < k + length ys \<longrightarrow> P j)"
proof
  assume "list_all (\<lambda>(j, y). P j) (enumerate k ys)"
  then have "P (fst p)" if "p \<in> set (enumerate k ys)" for p
    using that by (auto simp: list_all_iff)
  moreover have "(j, ys ! (j - k)) \<in> set (enumerate k ys)" if "k \<le> j" "j < k + length ys" for j
    using that by (simp add: in_set_enumerate_eq)
  ultimately show "\<forall>j. k \<le> j \<and> j < k + length ys \<longrightarrow> P j" by fastforce
next
  assume "\<forall>j. k \<le> j \<and> j < k + length ys \<longrightarrow> P j"
  then show "list_all (\<lambda>(j, y). P j) (enumerate k ys)"
    by (auto simp: list_all_iff in_set_enumerate_eq)
qed

lemma satisfies_min_constrs:
  "list_all (satisfies x) (min_constrs n names ma) \<longleftrightarrow>
     (\<forall>j < length names. real ma \<le> (\<Sum>i<n. x (i, j)))"
proof -
  have "list_all (satisfies x) (min_constrs n names ma) \<longleftrightarrow>
      list_all (\<lambda>(j, y). real ma \<le> (\<Sum>i<n. x (i, j))) (enumerate 0 names)"
    by (simp add: min_constrs_def list_all_iff satisfies_def lin_value_def sum_list_map_upt0
                  comp_def case_prod_unfold)
  then show ?thesis by (simp add: list_all_enumerate)
qed

lemma feasible_model_iff:
  assumes "build_model data ps = Inr m"
  shows "feasible m x \<longleftrightarrow>
    (\<forall>i < length data. \<forall>j < length ps. x (i, j) = 0 \<or> x (i, j) = 1) \<and>
    (\<forall>i < length data. (\<Sum>j < length ps. x (i, j)) = 1) \<and>
    (\<forall>j < length ps. real (min_size (length data) (length ps)) \<le> (\<Sum>i < length data. x (i, j)))"
  using build_model_Inr [OF assms]
  by (simp add: feasible_def binary_on_cluster_vars satisfies_assign_constrs satisfies_min_constrs
                dict_keys_def)

lemma objective_model:
  assumes "build_model data ps = Inr m"
  shows "objective m x =
    (\<Sum>i < length data. \<Sum>j < length ps. x (i, j) * cost_of data (dict_keys ps) (i, j))"
  using build_model_Inr(3) [OF assms]
  by (simp add: objective_def cluster_vars_def sum_list_concat_map map_concat comp_def sum_list_map_upt0)


subsection \<open>Feasible points are valid assignments\<close>


lemma indicator_row_sum:
  "i < length a \<Longrightarrow> a ! i < k \<Longrightarrow> (\<Sum>j<k. indicator a (i, j)) = 1"
  by (simp add: indicator_def)

lemma indicator_col_sum:
  "(\<Sum>i<length a. indicator a (i, j)) = real (count_list a j)"
  using count_list_sum [of a j] by (simp add: indicator_def)

lemma indicator_cost_row:
  assumes "i < length a" and "a ! i < k"
  shows "(\<Sum>j<k. indicator a (i, j) * C (i, j)) = C (i, a ! i)"
proof -
  have "(\<Sum>j<k. indicator a (i, j) * C (i, j)) = (\<Sum>j<k. if j = a ! i then C (i, j) else 0)"
    using assms(1) by (intro sum.cong) (auto simp: indicator_def)
  then show ?thesis using assms(2) by simp
qed

lemma valid_assignment_nth:
  "valid_assignment n k a \<Longrightarrow> i < n \<Longrightarrow> a ! i < k"
  by (auto simp: valid_assignment_def list_all_iff)

lemma valid_feasible:
  assumes "build_model data ps = Inr m" and "valid_assignment (length data) (length ps) a"
  shows "feasible m (indicator a)"
proof -
  have len: "length a = length data" using assms(2) by (simp add: valid_assignment_def)
  have cnt: "min_size (length data) (length ps) \<le> count_list a j" if "j < length ps" for j
    using assms(2) that by (auto simp: valid_assignment_def list_all_iff)
  show ?thesis unfolding feasible_model_iff [OF assms(1)]
    using len valid_assignment_nth [OF assms(2)] cnt indicator_col_sum [of a]
    by (auto simp: indicator_def)
qed

lemma objective_indicator:
  assumes "build_model data ps = Inr m" and "valid_assignment (length data) (length ps) a"
  shows "objective m (indicator a) = assign_cost (cost_of data (dict_keys ps)) a"
proof -
  have len: "length a = length data" using assms(2) by (simp add: valid_assignment_def)
  have "(\<Sum>j < length ps. indicator a (i, j) * cost_of data (dict_keys ps) (i, j)) =
      cost_of data (dict_keys ps) (i, a ! i)" if "i < length data" for i
    using indicator_cost_row valid_assignment_nth [OF assms(2) that] len that by simp
  then show ?thesis using len by (simp add: objective_model [OF assms(1)] assign_cost_def)
qed

lemma binary_row_one:
  assumes "\<forall>j<(k::nat). x j = 0 \<or> x j = (1::real)" and "(\<Sum>j<k. x j) = 1"
  obtains j0 where "j0 < k" and "x j0 = 1" and "\<forall>j<k. j \<noteq> j0 \<longrightarrow> x j = 0"
proof -
  have "(\<Sum>j<k. x j) = (\<Sum>j<k. of_bool (x j = 1))"
    using assms(1) by (intro sum.cong) auto
  also have "\<dots> = real (card ({..<k} \<inter> {j. x j = 1}))" by simp
  finally have "card ({..<k} \<inter> {j. x j = 1}) = 1" using assms(2) by simp
  then obtain j0 where j0: "{..<k} \<inter> {j. x j = 1} = {j0}" by (rule card_1_singletonE)
  then have "j0 < k" "x j0 = 1" by auto
  moreover have "\<forall>j<k. j \<noteq> j0 \<longrightarrow> x j = 0" using j0 assms(1) by blast
  ultimately show ?thesis by (rule that)
qed

lemma find_unique: "(\<forall>j \<in> set xs. P j \<longleftrightarrow> j = j0) \<Longrightarrow> j0 \<in> set xs \<Longrightarrow> find P xs = Some j0"
  by (induction xs) auto

lemma feasible_row:
  assumes "build_model data ps = Inr m" and "feasible m x" and "i < length data"
  obtains j0 where "j0 < length ps"
    and "find (\<lambda>j. 0.5 < x (i, j)) [0..<length ps] = Some j0"
    and "\<forall>j < length ps. x (i, j) = (if j = j0 then 1 else 0)"
proof -
  have bin: "\<forall>j<length ps. x (i, j) = 0 \<or> x (i, j) = 1" and one: "(\<Sum>j<length ps. x (i, j)) = 1"
    using assms by (auto simp: feasible_model_iff [OF assms(1)])
  obtain j0 where j0: "j0 < length ps" "x (i, j0) = 1" "\<forall>j<length ps. j \<noteq> j0 \<longrightarrow> x (i, j) = 0"
    using binary_row_one [of "length ps" "\<lambda>j. x (i, j)"] bin one by blast
  have "find (\<lambda>j. 0.5 < x (i, j)) [0..<length ps] = Some j0"
    using j0 by (intro find_unique) auto
  moreover have "\<forall>j < length ps. x (i, j) = (if j = j0 then 1 else 0)" using j0 by auto
  ultimately show ?thesis using j0(1) that by blast
qed

lemma feasible_decode:
  assumes "build_model data ps = Inr m" and "feasible m x"
  shows "valid_assignment (length data) (length ps) (decode (length data) (length ps) x)"
    and "\<forall>v \<in> set (mvars m). x v = indicator (decode (length data) (length ps) x) v"
proof -
  let ?a = "decode (length data) (length ps) x"
  have row: "?a ! i < length ps \<and> (\<forall>j < length ps. x (i, j) = (if j = ?a ! i then 1 else 0))"
    if ilt: "i < length data" for i
  proof -
    obtain j0 where "j0 < length ps" "find (\<lambda>j. 0.5 < x (i, j)) [0..<length ps] = Some j0"
      "\<forall>j < length ps. x (i, j) = (if j = j0 then 1 else 0)"
      using feasible_row [OF assms ilt] by blast
    then show ?thesis using ilt by (simp add: decode_def)
  qed
  have len: "length ?a = length data" by (simp add: decode_def)
  have agree: "x (i, j) = indicator ?a (i, j)" if "i < length data" "j < length ps" for i j
    using row [OF that(1)] that len by (auto simp: indicator_def)
  then show "\<forall>v \<in> set (mvars m). x v = indicator ?a v"
    by (auto simp: build_model_Inr(2) [OF assms(1)] set_cluster_vars)
  have "real (min_size (length data) (length ps)) \<le> real (count_list ?a j)" if "j < length ps" for j
  proof -
    have "real (min_size (length data) (length ps)) \<le> (\<Sum>i < length data. x (i, j))"
      using assms that by (simp add: feasible_model_iff [OF assms(1)])
    also have "\<dots> = (\<Sum>i < length ?a. indicator ?a (i, j))"
      using agree that len by (intro sum.cong) auto
    finally show ?thesis by (simp add: indicator_col_sum)
  qed
  then show "valid_assignment (length data) (length ps) ?a"
    using row len by (auto simp: valid_assignment_def list_all_iff in_set_conv_nth)
qed


subsection \<open>Reading the solution\<close>


lemma select_cluster_unique:
  "(\<forall>j < length names. 0.5 < x (i, j0 + j) \<longleftrightarrow> j = c) \<Longrightarrow> c < length names \<Longrightarrow>
     select_cluster (\<lambda>v. Inr (x v)) i j0 names = Inr (Some (names ! c))"
proof (induction names arbitrary: j0 c)
  case Nil
  then show ?case by simp
next
  case (Cons nm names)
  show ?case
  proof (cases c)
    case 0
    then have "0.5 < x (i, j0)" using Cons.prems(1) by fastforce
    then show ?thesis using 0 by simp
  next
    case (Suc c')
    then have "\<not> 0.5 < x (i, j0)" using Cons.prems(1) by fastforce
    moreover have "\<forall>j < length names. 0.5 < x (i, Suc j0 + j) \<longleftrightarrow> j = c'"
    proof (intro allI impI)
      fix j assume "j < length names"
      then show "0.5 < x (i, Suc j0 + j) \<longleftrightarrow> j = c'"
        using Cons.prems(1) Suc by (metis Suc_less_eq add_Suc_shift length_Cons nat.inject)
    qed
    moreover have "c' < length names" using Cons.prems(2) Suc by simp
    ultimately show ?thesis using Cons.IH Suc by simp
  qed
qed

lemma err_map_Inr_cong: "(\<forall>y \<in> set ys. f y = Inr (g y)) \<Longrightarrow> err_map f ys = Inr (map g ys)"
  by (induction ys) auto

lemma map_enumerate_label_rows:
  assumes "length a = length data"
  shows "map (\<lambda>(i, row). AList.update ''Cluster'' (PStr (names ! (a ! i))) row) (enumerate 0 data) =
         label_rows names a data"
  using assms by (intro nth_equalityI) (simp_all add: label_rows_def nth_enumerate_eq)

lemma assign_clusters_feasible:
  assumes "build_model data ps = Inr m" and "feasible m x"
  shows "assign_clusters (\<lambda>v. Inr (x v)) (dict_keys ps) data =
           Inr (label_rows (dict_keys ps) (decode (length data) (length ps) x) data)"
proof -
  let ?a = "decode (length data) (length ps) x"
  have valid: "valid_assignment (length data) (length ps) ?a" by (rule feasible_decode(1) [OF assms])
  have len: "length ?a = length data" by (simp add: decode_def)
  have agree: "\<forall>v \<in> set (mvars m). x v = indicator ?a v" by (rule feasible_decode(2) [OF assms])
  have row: "label_row (\<lambda>v. Inr (x v)) (dict_keys ps) (i, row) =
      Inr (AList.update ''Cluster'' (PStr (dict_keys ps ! (?a ! i))) row)" if "i < length data" for i row
  proof -
    have lt: "?a ! i < length ps" using valid_assignment_nth [OF valid that] .
    have "\<forall>j < length (dict_keys ps). 0.5 < x (i, 0 + j) \<longleftrightarrow> j = ?a ! i"
      using agree that len by (auto simp: build_model_Inr(2) [OF assms(1)] set_cluster_vars
                                          indicator_def dict_keys_def)
    then have "select_cluster (\<lambda>v. Inr (x v)) i 0 (dict_keys ps) = Inr (Some (dict_keys ps ! (?a ! i)))"
      using lt by (intro select_cluster_unique) (simp_all add: dict_keys_def)
    then show ?thesis by (simp add: label_row_def)
  qed
  have "\<forall>ir \<in> set (enumerate 0 data). label_row (\<lambda>v. Inr (x v)) (dict_keys ps) ir =
      Inr ((\<lambda>(i, row). AList.update ''Cluster'' (PStr (dict_keys ps ! (?a ! i))) row) ir)"
    using row by (auto simp: in_set_enumerate_eq)
  then have "assign_clusters (\<lambda>v. Inr (x v)) (dict_keys ps) data =
      Inr (map (\<lambda>(i, row). AList.update ''Cluster'' (PStr (dict_keys ps ! (?a ! i))) row) (enumerate 0 data))"
    unfolding assign_clusters_def by (rule err_map_Inr_cong)
  then show ?thesis using map_enumerate_label_rows [OF len] by simp
qed


subsection \<open>Existence of valid assignments\<close>


lemma sum_count_list:
  "list_all (\<lambda>c. c < (k::nat)) a \<Longrightarrow> (\<Sum>j<k. count_list a j) = length a"
proof (induction a)
  case Nil
  then show ?case by simp
next
  case (Cons c a)
  have "(\<Sum>j<k. count_list (c # a) j) = (\<Sum>j<k. (if j = c then 1 else 0) + count_list a j)"
    by (intro sum.cong) auto
  also have "\<dots> = (\<Sum>j<k. if j = c then 1 else 0) + (\<Sum>j<k. count_list a j)"
    by (simp add: sum.distrib)
  also have "(\<Sum>j<k. if j = c then 1 else 0) = (1::nat)"
    using Cons.prems by (subst sum.delta) auto
  finally have "(\<Sum>j<k. count_list (c # a) j) = 1 + (\<Sum>j<k. count_list a j)" .
  then show ?case using Cons by simp
qed

lemma valid_assignment_bounds:
  assumes "valid_assignment n k a" and "0 < k"
  shows "0 < n \<and> k \<le> n"
proof -
  have cnt: "1 \<le> count_list a j" if "j < k" for j
    using assms(1) that by (auto simp: valid_assignment_def list_all_iff min_size_def)
  have "k = (\<Sum>j<k. (1::nat))" by simp
  also have "\<dots> \<le> (\<Sum>j<k. count_list a j)" using cnt by (intro sum_mono) simp
  also have "\<dots> = n"
  proof -
    have "list_all (\<lambda>c. c < k) a" "length a = n" using assms(1) by (simp_all add: valid_assignment_def)
    then show ?thesis using sum_count_list [of k a] by simp
  qed
  finally show ?thesis using assms(2) by simp
qed

lemma count_list_upt: "j < k \<Longrightarrow> count_list [0..<k] j = 1"
  by (induction k) auto

lemma count_list_concat_replicate: "count_list (concat (replicate q xs)) j = q * count_list xs j"
  by (induction q) simp_all

lemma balanced_valid:
  assumes "0 < k" and "k \<le> n"
  shows "valid_assignment n k (balanced n k)"
proof -
  have len: "length (balanced n k) = n"
    by (simp add: balanced_def length_concat sum_list_replicate)
  have lt: "list_all (\<lambda>c. c < k) (balanced n k)"
    using assms(1) by (auto simp: balanced_def list_all_iff)
  have "k div k \<le> n div k" using assms(2) by (rule div_le_mono)
  then have q: "1 \<le> n div k" using assms(1) by simp
  have "min_size n k \<le> count_list (balanced n k) j" if "j < k" for j
    using that q by (simp add: balanced_def count_list_concat_replicate count_list_upt min_size_def)
  then show ?thesis using len lt by (simp add: valid_assignment_def list_all_iff)
qed

lemma valid_assignment_exists_iff:
  "0 < k \<Longrightarrow> (\<exists>a. valid_assignment n k a) \<longleftrightarrow> 0 < n \<and> k \<le> n"
  using valid_assignment_bounds balanced_valid by blast


subsection \<open>The Not Ready penalty in optimal assignments\<close>

lemma assign_cost_update:
  assumes "i < length a"
  shows "assign_cost C (a[i := s]) = assign_cost C a - C (i, a ! i) + C (i, s)"
  using sum_update_nth [OF assms, of "\<lambda>i c. C (i, c)"] by (simp add: assign_cost_def)

lemma valid_assignment_move:
  assumes "valid_assignment n k a" and "i < n" and "s < k"
    and "min_size n k < count_list a (a ! i)"
  shows "valid_assignment n k (a[i := s])"
proof -
  have len: "length a = n" using assms(1) by (simp add: valid_assignment_def)
  have "min_size n k \<le> count_list (a[i := s]) j" if "j < k" for j
  proof -
    have "min_size n k \<le> count_list a j" using assms(1) that by (auto simp: valid_assignment_def list_all_iff)
    then show ?thesis using count_list_update [of i a s j] assms(2,4) len by auto
  qed
  moreover have "list_all (\<lambda>c. c < k) (a[i := s])"
    using assms(1,3) by (auto simp: valid_assignment_def list_all_iff dest: set_update_subset_insert [THEN subsetD])
  ultimately show ?thesis using len by (simp add: valid_assignment_def list_all_iff)
qed

lemma optimal_not_ready_at_floor:
  assumes valid: "valid_assignment n k a"
    and opt: "\<forall>b. valid_assignment n k b \<longrightarrow> assign_cost C a \<le> assign_cost C b"
    and "r < k" and "s < k" and "s \<noteq> r"
    and low: "\<forall>i<n. C (i, s) \<le> 1"
    and high: "\<forall>i<n. 10 \<le> C (i, r)"
  shows "count_list a r = min_size n k"
proof (rule ccontr)
  assume ne: "count_list a r \<noteq> min_size n k"
  have len: "length a = n" using valid by (simp add: valid_assignment_def)
  have "min_size n k \<le> count_list a r" using valid assms(3) by (auto simp: valid_assignment_def list_all_iff)
  with ne have more: "min_size n k < count_list a r" by simp
  then have "r \<in> set a" by (metis count_list_0_iff gr_implies_not0)
  then obtain i where i: "i < n" "a ! i = r" using len by (metis in_set_conv_nth)
  have v: "valid_assignment n k (a[i := s])"
    using valid_assignment_move [OF valid i(1) assms(4)] more i(2) by simp
  have "assign_cost C (a[i := s]) = assign_cost C a - C (i, r) + C (i, s)"
    using assign_cost_update [of i a C s] i len by simp
  also have "\<dots> < assign_cost C a" using low high i(1) by fastforce
  finally show False using opt v by fastforce
qed

lemma cost_of_unit:
  assumes "col_unit (distance_key (names ! j)) data" and "i < length data"
  shows "0 \<le> cost_of data names (i, j) - penalty (names ! j) \<and>
         cost_of data names (i, j) - penalty (names ! j) \<le> 1"
proof -
  obtain ds where ds: "column (distance_key (names ! j)) data = Inr ds"
    and unit: "list_all (\<lambda>d. 0 \<le> d \<and> d \<le> 1) ds"
    using assms(1) by (auto simp: col_unit_def split: sum.splits)
  have len: "length ds = length data" using ds by (rule column_Inr_length)
  have "err_bind (dict_index (data ! i) (distance_key (names ! j))) num_of = Inr (ds ! i)"
    by (rule column_nth [OF ds assms(2)])
  then have "cost_of data names (i, j) = ds ! i + penalty (names ! j)"
    by (auto simp: cost_of_def cell_cost_def err_bind_def split: sum.splits)
  moreover have "0 \<le> ds ! i \<and> ds ! i \<le> 1" using unit len assms(2) by (simp add: list_all_length)
  ultimately show ?thesis by simp
qed

lemma cell_cost_readable:
  assumes "column (distance_key (names ! j)) data = Inr ds" and "i < length data"
  shows "cell_cost data names (i, j) = Inr (ds ! i + penalty (names ! j))"
  using column_nth [OF assms] by (auto simp: cell_cost_def err_bind_def split: sum.splits)

lemma build_model_total:
  assumes "ps \<noteq> []" and "list_all (\<lambda>(n, c). col_nonneg (distance_key n) data) ps"
  shows "\<exists>m. build_model data ps = Inr m"
proof -
  have cell: "\<exists>c. cell_cost data (dict_keys ps) v = Inr c" if "v \<in> set (cluster_vars (length data) (length ps))" for v
  proof -
    obtain i j where v0: "v = (i, j)" by fastforce
    then have v: "v = (i, j)" "i < length data" "j < length ps" using that by (auto simp: set_cluster_vars)
    then have "(dict_keys ps ! j, snd (ps ! j)) \<in> set ps" by (simp add: dict_keys_def)
    then obtain ds where "column (distance_key (dict_keys ps ! j)) data = Inr ds"
      using assms(2) by (auto simp: list_all_iff col_nonneg_iff)
    then show ?thesis using cell_cost_readable v by blast
  qed
  have "\<exists>y. err_bind (cell_cost data (dict_keys ps) v) (\<lambda>c. Inr (v, c)) = Inr y"
    if "v \<in> set (cluster_vars (length data) (length (dict_keys ps)))" for v
    using cell [of v] that by (auto simp: dict_keys_def)
  then have "\<exists>obj. obj_terms data (dict_keys ps) = Inr obj"
    unfolding obj_terms_def by (rule err_map_total)
  then show ?thesis using assms(1) by (auto simp: build_model_Inr_iff)
qed

lemma label_rows_keys:
  assumes "length a = length data" and "\<forall>row \<in> set data. ''Cluster'' \<notin> set (dict_keys row)"
  shows "map dict_keys (label_rows names a data) = map (\<lambda>row. dict_keys row @ [''Cluster'']) data"
  using assms by (induction a data rule: list_induct2) (simp_all add: label_rows_def dict_keys_update)

lemma label_rows_cluster:
  assumes "row \<in> set (label_rows names a data)"
  shows "\<exists>c \<in> set a. map_of row ''Cluster'' = Some (PStr (names ! c))"
  using assms by (auto simp: label_rows_def update_conv' dest: set_zip_leftD)

lemma label_rows_count:
  assumes "distinct names" and "list_all (\<lambda>c. c < length names) a" and "length a = length data"
    and "j < length names"
  shows "length (filter (\<lambda>row. map_of row ''Cluster'' = Some (PStr (names ! j))) (label_rows names a data)) =
           count_list a j"
  using assms(3,2)
proof (induction a data rule: list_induct2)
  case Nil
  then show ?case by (simp add: label_rows_def)
next
  case (Cons c a row data)
  have "names ! c = names ! j \<longleftrightarrow> c = j"
    using assms(1,4) Cons.prems by (simp add: nth_eq_iff_index_eq)
  then show ?case using Cons by (simp add: label_rows_def update_conv')
qed

lemma cluster_artists_optimal_decode:
  assumes "build_model data ps = Inr m" and "solver_contract solve m" and "solve m = Optimal x"
  shows "valid_assignment (length data) (length ps) (decode (length data) (length ps) x) \<and>
         (\<forall>b. valid_assignment (length data) (length ps) b \<longrightarrow>
              assign_cost (cost_of data (dict_keys ps)) (decode (length data) (length ps) x)
              \<le> assign_cost (cost_of data (dict_keys ps)) b) \<and>
         cluster_artists solve data ps =
           Inr (label_rows (dict_keys ps) (decode (length data) (length ps) x) data)"
proof -
  let ?a = "decode (length data) (length ps) x"
  let ?C = "cost_of data (dict_keys ps)"
  have opt: "optimal m x" using assms(2,3) by (simp add: solver_contract_def)
  then have fx: "feasible m x" by (simp add: optimal_def)
  have valid: "valid_assignment (length data) (length ps) ?a" by (rule feasible_decode(1) [OF assms(1) fx])
  have "objective m x = objective m (indicator ?a)"
    by (rule objective_cong [OF build_model_wf [OF assms(1)] feasible_decode(2) [OF assms(1) fx]])
  then have cost_a: "assign_cost ?C ?a = objective m x"
    using objective_indicator [OF assms(1) valid] by simp
  have "assign_cost ?C ?a \<le> assign_cost ?C b" if "valid_assignment (length data) (length ps) b" for b
  proof -
    have "objective m x \<le> objective m (indicator b)"
      using opt valid_feasible [OF assms(1) that] by (simp add: optimal_def)
    then show ?thesis using cost_a objective_indicator [OF assms(1) that] by simp
  qed
  moreover have "cluster_artists solve data ps = Inr (label_rows (dict_keys ps) ?a data)"
    using assms(1,3) assign_clusters_feasible [OF assms(1) fx] by (simp add: cluster_artists_def read_X_solution)
  ultimately show ?thesis using valid by blast
qed

lemma cluster_artists_exact:
  assumes "ps \<noteq> []" and "list_all (\<lambda>(n, c). col_nonneg (distance_key n) data) ps"
    and "length ps \<le> length data"
  shows "\<exists>a. valid_assignment (length data) (length ps) a \<and>
           cluster_artists solve_enum data ps = Inr (label_rows (dict_keys ps) a data)"
proof -
  obtain m where build: "build_model data ps = Inr m" using build_model_total [OF assms(1,2)] by blast
  have wf: "wf_milp m" by (rule build_model_wf [OF build])
  have "0 < length ps" using assms(1) by simp
  then obtain a where "valid_assignment (length data) (length ps) a"
    using valid_assignment_exists_iff assms(3) by fastforce
  then obtain x where x: "solve_enum m = Optimal x"
    using solve_enum_finds [OF wf valid_feasible [OF build]] by blast
  show ?thesis using cluster_artists_optimal_decode [OF build solve_enum_contract [OF wf] x] by blast
qed

subsection \<open>Properties of \<open>cluster_artists\<close>\<close>

lemma build_data2: "build_model data2 ps2 = Inr (projr (build_model data2 ps2))"
  by (simp add: build_model_def data2_def ps2_def obj_terms_def cluster_vars_def cell_cost_def
                min_artists_def dict_keys_def Let_def distance_key_def penalty_def)

lemma valid_data2: "valid_assignment (length data2) (length ps2) [0, 1]"
  by (simp add: valid_assignment_def data2_def ps2_def min_size_def)

text \<open>Claim C1: whenever the solver reports an optimal solution of the
  model \<open>cluster_artists\<close> builds, the function returns the records with a \<open>Cluster\<close>
  label each, taken from a valid assignment (every record in exactly one cluster, every
  cluster with at least \<open>max(1, n // k)\<close> records) whose total cost (normalized distance
  plus the Not Ready penalty) is minimal among all valid assignments.\<close>

theorem cluster_artists_optimal:
  assumes "build_model data ps = Inr m" and "solver_contract solve m" and "solve m = Optimal x"
  shows "\<exists>a. valid_assignment (length data) (length ps) a \<and>
             (\<forall>b. valid_assignment (length data) (length ps) b \<longrightarrow>
                  assign_cost (cost_of data (dict_keys ps)) a \<le> assign_cost (cost_of data (dict_keys ps)) b) \<and>
             cluster_artists solve data ps = Inr (label_rows (dict_keys ps) a data)"
  using cluster_artists_optimal_decode [OF assms] by blast

theorem cluster_artists_optimal_witness:
  "\<exists>a. valid_assignment (length data2) (length ps2) a \<and>
     cluster_artists solve_enum data2 ps2 = Inr (label_rows (dict_keys ps2) a data2)"
proof -
  let ?m = "projr (build_model data2 ps2)"
  have c: "solver_contract solve_enum ?m" by (rule solve_enum_contract [OF build_model_wf [OF build_data2]])
  obtain x where x: "solve_enum ?m = Optimal x"
    using solve_enum_finds [OF build_model_wf [OF build_data2] valid_feasible [OF build_data2 valid_data2]]
    by blast
  show ?thesis using cluster_artists_optimal [OF build_data2 c x] by blast
qed

text \<open>Claim C3: the model \<open>cluster_artists\<close> builds has a feasible
  point exactly when there is at least one record and no more clusters than records:
  with \<open>min_artists = max(1, n // k)\<close> the spec's infeasibility condition
  \<open>k * min_size > n\<close> amounts to \<open>n < k\<close> or \<open>n = 0\<close>.\<close>

theorem model_feasible_iff:
  assumes "build_model data ps = Inr m"
  shows "(\<exists>x. feasible m x) \<longleftrightarrow> 0 < length data \<and> length ps \<le> length data"
proof -
  have k: "0 < length ps" by (rule build_model_Inr(1) [OF assms])
  have "(\<exists>x. feasible m x) \<longleftrightarrow> (\<exists>a. valid_assignment (length data) (length ps) a)"
    using feasible_decode(1) [OF assms] valid_feasible [OF assms] by blast
  then show ?thesis using valid_assignment_exists_iff [OF k] by simp
qed

theorem model_feasible_iff_witness:
  "\<exists>x. feasible (projr (build_model data2 ps2)) x"
  using model_feasible_iff [OF build_data2] by (simp add: data2_def ps2_def)

text \<open>Claim C6: when there are fewer records than clusters
  (but at least one), no solver that keeps the contract yields a solution, and the
  first \<open>x[0, 0].X\<close> raises: the run fails with an attribute error, not with a
  distinguished infeasibility condition.\<close>

theorem cluster_artists_infeasible_error:
  assumes "build_model data ps = Inr m" and "solver_contract solve m"
    and "0 < length data" and "length data < length ps"
  shows "cluster_artists solve data ps = Inl SolutionUnavailable"
proof -
  have nofeas: "\<not> (\<exists>x. feasible m x)"
    using feasible_decode(1) [OF assms(1)] valid_assignment_bounds build_model_Inr(1) [OF assms(1)] assms(4)
    by fastforce
  then have "read_X (solve m) = (\<lambda>v. Inl SolutionUnavailable)"
    using assms(2) by (cases "solve m") (auto simp: solver_contract_def optimal_def fun_eq_iff)
  moreover obtain row rest where "data = row # rest" using assms(3) by (cases data) auto
  moreover obtain nm names where "dict_keys ps = nm # names"
    using build_model_Inr(1) [OF assms(1)] by (cases ps) auto
  ultimately show ?thesis using assms(1)
    by (simp add: cluster_artists_def assign_clusters_def label_row_def)
qed

theorem cluster_artists_infeasible_error_witness:
  "cluster_artists solve_enum [hd data2] ps2 = Inl SolutionUnavailable"
proof -
  have b: "build_model [hd data2] ps2 = Inr (projr (build_model [hd data2] ps2))"
    by (simp add: build_model_def data2_def ps2_def obj_terms_def cluster_vars_def cell_cost_def
                  min_artists_def dict_keys_def Let_def distance_key_def penalty_def)
  have c: "solver_contract solve_enum (projr (build_model [hd data2] ps2))"
    by (rule solve_enum_contract [OF build_model_wf [OF b]])
  show ?thesis
    by (rule cluster_artists_infeasible_error [OF b c]) (simp_all add: ps2_def)
qed

text \<open>Claim C23: \<open>cluster_artists\<close> never looks at the solver's
  status: if the search stops at a limit with a feasible incumbent, its labels are
  returned as if optimal. They still form a valid assignment.\<close>

theorem cluster_artists_incumbent:
  assumes "build_model data ps = Inr m" and "solver_contract solve m" and "solve m = Incumbent x"
  shows "\<exists>a. valid_assignment (length data) (length ps) a \<and>
             cluster_artists solve data ps = Inr (label_rows (dict_keys ps) a data)"
proof -
  have fx: "feasible m x" using assms(2,3) by (simp add: solver_contract_def)
  show ?thesis
    using feasible_decode(1) [OF assms(1) fx] assign_clusters_feasible [OF assms(1) fx] assms(1,3)
    by (auto simp: cluster_artists_def read_X_solution)
qed

theorem cluster_artists_incumbent_witness:
  "\<exists>a. valid_assignment (length data2) (length ps2) a \<and>
     cluster_artists (\<lambda>_. Incumbent (indicator [1, 0])) data2 ps2 =
       Inr (label_rows (dict_keys ps2) a data2)"
proof -
  let ?m = "projr (build_model data2 ps2)"
  have v: "valid_assignment (length data2) (length ps2) [1, 0]"
    by (simp add: valid_assignment_def data2_def ps2_def min_size_def)
  have c: "solver_contract (\<lambda>_. Incumbent (indicator [1, 0])) ?m"
    using valid_feasible [OF build_data2 v] by (simp add: solver_contract_def)
  show ?thesis using cluster_artists_incumbent [OF build_data2 c refl] by blast
qed

text \<open>Claim C34: with no profiles, \<open>len(data) // len(profiles)\<close>
  raises \<open>ZeroDivisionError\<close> for every dataset, before the solver runs.\<close>

theorem cluster_artists_no_profiles:
  "cluster_artists solve data [] = Inl ZeroDivisionError"
  by (simp add: cluster_artists_def build_model_def obj_terms_def min_artists_def)

text \<open>Claim C27: on an empty dataset the model is infeasible (every
  cluster needs at least one record), yet \<open>cluster_artists\<close> returns the empty list
  without error, because no \<open>.X\<close> is ever read.\<close>

theorem cluster_artists_empty_data:
  assumes "ps \<noteq> []"
  shows "cluster_artists solve [] ps = Inr [] \<and>
         (\<exists>m. build_model [] ps = Inr m \<and> \<not> (\<exists>x. feasible m x))"
proof -
  obtain m where m: "build_model [] ps = Inr m"
    using assms by (simp add: build_model_def obj_terms_def cluster_vars_def min_artists_def dict_keys_def)
  have "\<not> (\<exists>x. feasible m x)"
    using feasible_decode(1) [OF m] valid_assignment_bounds build_model_Inr(1) [OF m] by fastforce
  moreover have "cluster_artists solve [] ps = Inr []"
    using m by (simp add: cluster_artists_def assign_clusters_def)
  ultimately show ?thesis using m by blast
qed

theorem cluster_artists_empty_data_witness:
  "cluster_artists solve_enum [] ps2 = Inr []"
  using cluster_artists_empty_data [of ps2 solve_enum] by (simp add: ps2_def)

end
