(* ===== verification/SingleProfile.thy ===== *)
theory SingleProfile
  imports Normalize Milp
begin

text \<open>
  The clustering step of \<open>src/artist_clustering.py\<close>, \<open>cluster_artists(data,
  min_ready_artists=5)\<close>, lines 68-89. One binary variable \<open>x[i]\<close> per record says
  "record \<open>i\<close> is Ready"; the objective is the total \<open>Distance_to_Ideal\<close> of the Ready
  records; a single constraint asks for at least \<open>min_ready_artists\<close> of them. The
  labels are read back with the 0.5 threshold, every other record becoming Not Ready.
  The abstract problem is a selection (a \<open>bool list\<close>, True for Ready) of at least
  \<open>min_ready_artists\<close> records with least total distance; the feasible 0/1 points of
  the model are exactly the indicators of such selections.
\<close>

subsection \<open>The model\<close>

text \<open>\<open>data[i]['Distance_to_Ideal']\<close> as a coefficient of \<open>x[i]\<close>.\<close>

definition ready_cost :: "dataset \<Rightarrow> nat \<Rightarrow> py_error + real" where
  "ready_cost data i = err_bind (dict_index (data ! i) ''Distance_to_Ideal'') num_of"

text \<open>\<open>quicksum(x[i] * data[i]['Distance_to_Ideal'] for i in range(len(data)))\<close>\<close>

definition ready_obj :: "dataset \<Rightarrow> py_error + (nat \<times> real) list" where
  "ready_obj data = err_map (\<lambda>i. err_bind (ready_cost data i) (\<lambda>c. Inr (i, c))) [0..<length data]"

text \<open>Lines 69-80: the variables, the objective and the constraint \<open>min_ready_artists\<close>.\<close>

definition build_ready_model :: "dataset \<Rightarrow> int \<Rightarrow> py_error + nat milp" where
  "build_ready_model data min_ready_artists =
     err_bind (ready_obj data) (\<lambda>obj.
       Inr \<lparr>mname = ''Artist Clustering'', mvars = [0..<length data], mobj = obj,
            mconstrs = [\<lparr>cname = ''min_ready_artists'', cterms = [0..<length data],
                         csense = SenseGE, crhs = of_int min_ready_artists\<rparr>]\<rparr>)"

subsection \<open>Reading the solution\<close>

text \<open>\<open>'Ready' if x[i].X > 0.5 else 'Not Ready'\<close>\<close>

definition ready_label :: "real \<Rightarrow> string" where
  "ready_label v = (if 0.5 < v then ''Ready'' else ''Not Ready'')"

definition label_ready :: "(nat \<Rightarrow> py_error + real) \<Rightarrow> nat \<times> row \<Rightarrow> py_error + row" where
  "label_ready X ir = (case ir of (i, row) \<Rightarrow>
     err_bind (X i) (\<lambda>v. Inr (AList.update ''Cluster'' (PStr (ready_label v)) row)))"

text \<open>The whole function: build, \<open>model.optimize()\<close>, and the loop of lines 86-87.\<close>

definition cluster_artists_single :: "nat solver \<Rightarrow> dataset \<Rightarrow> int \<Rightarrow> py_error + dataset" where
  "cluster_artists_single solve data min_ready_artists =
     err_bind (build_ready_model data min_ready_artists) (\<lambda>m.
       err_map (label_ready (read_X (solve m))) (enumerate 0 data))"

subsection \<open>The selection problem the model encodes\<close>

definition sel_valid :: "nat \<Rightarrow> int \<Rightarrow> bool list \<Rightarrow> bool" where
  "sel_valid n min_ready s = (length s = n \<and> min_ready \<le> int (count_list s True))"

definition sel_cost :: "real list \<Rightarrow> bool list \<Rightarrow> real" where
  "sel_cost ds s = (\<Sum>i < length s. if s ! i then ds ! i else 0)"

definition sel_point :: "bool list \<Rightarrow> nat \<Rightarrow> real" where
  "sel_point s i = (if i < length s \<and> s ! i then 1 else 0)"

definition sel_decode :: "nat \<Rightarrow> (nat \<Rightarrow> real) \<Rightarrow> bool list" where
  "sel_decode n x = map (\<lambda>i. 0.5 < x i) [0..<n]"

definition label_sel :: "bool list \<Rightarrow> dataset \<Rightarrow> dataset" where
  "label_sel s data =
     map2 (\<lambda>b row. AList.update ''Cluster'' (PStr (if b then ''Ready'' else ''Not Ready'')) row) s data"

text \<open>Three records at distances 3, 1, 2 from the ideal, used by the witnesses.\<close>

definition data3 :: dataset where
  "data3 = [[(''Artist Name'', PStr ''A''), (''Distance_to_Ideal'', PFloat 3)],
            [(''Artist Name'', PStr ''B''), (''Distance_to_Ideal'', PFloat 1)],
            [(''Artist Name'', PStr ''C''), (''Distance_to_Ideal'', PFloat 2)]]"

subsection \<open>Shape of the model\<close>

lemma ready_obj_column:
  "ready_obj data = err_bind (column ''Distance_to_Ideal'' data) (\<lambda>ds. Inr (zip [0..<length data] ds))"
  unfolding ready_obj_def ready_cost_def column_def by (rule err_map_upt_nth)

lemma build_ready_model_Inr_iff:
  "build_ready_model data mr = Inr m \<longleftrightarrow>
     (\<exists>ds. column ''Distance_to_Ideal'' data = Inr ds \<and>
        m = \<lparr>mname = ''Artist Clustering'', mvars = [0..<length data], mobj = zip [0..<length data] ds,
             mconstrs = [\<lparr>cname = ''min_ready_artists'', cterms = [0..<length data],
                          csense = SenseGE, crhs = of_int mr\<rparr>]\<rparr>)"
  by (auto simp: build_ready_model_def ready_obj_column)

lemma build_ready_model_Inr:
  assumes "build_ready_model data mr = Inr m"
  obtains ds where "column ''Distance_to_Ideal'' data = Inr ds" and "length ds = length data"
    and "mvars m = [0..<length data]" and "mobj m = zip [0..<length data] ds"
    and "mconstrs m = [\<lparr>cname = ''min_ready_artists'', cterms = [0..<length data],
                         csense = SenseGE, crhs = of_int mr\<rparr>]"
  using assms column_Inr_length by (auto simp: build_ready_model_Inr_iff)

lemma build_ready_model_wf: "build_ready_model data mr = Inr m \<Longrightarrow> wf_milp m"
  by (erule build_ready_model_Inr) (auto simp: wf_milp_def dest: set_zip_leftD)

lemma feasible_ready_iff:
  assumes "build_ready_model data mr = Inr m"
  shows "feasible m x \<longleftrightarrow>
           (\<forall>i < length data. x i = 0 \<or> x i = 1) \<and> of_int mr \<le> (\<Sum>i < length data. x i)"
  using assms
  by (rule build_ready_model_Inr)
     (auto simp: feasible_def binary_on_def list_all_iff satisfies_def lin_value_def sum_list_map_upt0)

lemma objective_ready:
  assumes "build_ready_model data mr = Inr m" and "column ''Distance_to_Ideal'' data = Inr ds"
  shows "objective m x = (\<Sum>i < length data. x i * ds ! i)"
proof -
  obtain ds' where "column ''Distance_to_Ideal'' data = Inr ds'" "length ds' = length data"
    "mobj m = zip [0..<length data] ds'" using assms(1) by (rule build_ready_model_Inr)
  then have "mobj m = zip [0..<length data] ds" "length ds = length data" using assms(2) by auto
  moreover have "map (\<lambda>(v, c). x v * c) (zip [0..<length ds] ds) = map (\<lambda>i. x i * ds ! i) [0..<length ds]"
    by (rule nth_equalityI) simp_all
  ultimately show ?thesis by (simp add: objective_def sum_list_map_upt0)
qed

lemma sel_point_sum: "(\<Sum>i < length s. sel_point s i) = real (count_list s True)"
  using count_list_sum [of s True] by (simp add: sel_point_def)

lemma sel_point_objective:
  "(\<Sum>i < length s. sel_point s i * ds ! i) = sel_cost ds s"
  unfolding sel_point_def sel_cost_def by (intro sum.cong) auto

lemma sel_valid_feasible:
  assumes "build_ready_model data mr = Inr m" and "sel_valid (length data) mr s"
  shows "feasible m (sel_point s)"
proof -
  have "length s = length data" and "mr \<le> int (count_list s True)"
    using assms(2) by (simp_all add: sel_valid_def)
  then show ?thesis using feasible_ready_iff [OF assms(1)] sel_point_sum [of s]
    by (auto simp: sel_point_def)
qed

lemma feasible_sel_decode:
  assumes "build_ready_model data mr = Inr m" and "feasible m x"
  shows "sel_valid (length data) mr (sel_decode (length data) x)"
    and "\<forall>i < length data. x i = sel_point (sel_decode (length data) x) i"
proof -
  let ?s = "sel_decode (length data) x"
  have bin: "\<forall>i < length data. x i = 0 \<or> x i = 1" and ge: "of_int mr \<le> (\<Sum>i < length data. x i)"
    using assms feasible_ready_iff by blast+
  show agree: "\<forall>i < length data. x i = sel_point ?s i"
    using bin by (auto simp: sel_point_def sel_decode_def)
  have "(\<Sum>i < length data. x i) = (\<Sum>i < length ?s. sel_point ?s i)"
    using agree by (simp add: sel_decode_def)
  then show "sel_valid (length data) mr ?s"
    using ge sel_point_sum [of ?s] by (simp add: sel_valid_def sel_decode_def)
qed

lemma objective_sel_point:
  assumes "build_ready_model data mr = Inr m" and "column ''Distance_to_Ideal'' data = Inr ds"
    and "length s = length data"
  shows "objective m (sel_point s) = sel_cost ds s"
proof -
  show ?thesis using objective_ready [OF assms(1,2)] sel_point_objective [of s ds] assms(3) by simp
qed

subsection \<open>Reading the solution\<close>

lemma label_sel_length [simp]: "length (label_sel s data) = min (length s) (length data)"
  by (simp add: label_sel_def)

lemma label_sel_nth:
  "i < length s \<Longrightarrow> i < length data \<Longrightarrow>
     label_sel s data ! i = AList.update ''Cluster'' (PStr (if s ! i then ''Ready'' else ''Not Ready'')) (data ! i)"
  by (simp add: label_sel_def)

lemma label_ready_total:
  "err_map (label_ready (\<lambda>i. Inr (x i))) (enumerate 0 data) = Inr (label_sel (sel_decode (length data) x) data)"
proof -
  have "label_ready (\<lambda>i. Inr (x i)) =
      (\<lambda>ir. Inr (AList.update ''Cluster'' (PStr (ready_label (x (fst ir)))) (snd ir)))"
    by (simp add: label_ready_def fun_eq_iff split_def)
  moreover have "map (\<lambda>ir. AList.update ''Cluster'' (PStr (ready_label (x (fst ir)))) (snd ir)) (enumerate 0 data) =
      label_sel (sel_decode (length data) x) data"
    by (rule nth_equalityI) (simp_all add: label_sel_nth nth_enumerate_eq ready_label_def sel_decode_def)
  ultimately show ?thesis by simp
qed

lemma label_sel_count:
  "length s = length data \<Longrightarrow>
     length (filter (\<lambda>row. map_of row ''Cluster'' = Some (PStr ''Ready'')) (label_sel s data)) = count_list s True"
  by (induction s data rule: list_induct2) (simp_all add: label_sel_def update_conv')

lemma label_sel_cluster:
  "i < length s \<Longrightarrow> i < length data \<Longrightarrow>
     map_of (label_sel s data ! i) ''Cluster'' = Some (PStr (if s ! i then ''Ready'' else ''Not Ready''))"
  by (simp add: label_sel_nth update_conv')

lemma cluster_artists_single_optimal_decode:
  assumes build: "build_ready_model data mr = Inr m" and contract: "solver_contract solve m"
    and opt: "solve m = Optimal x" and col: "column ''Distance_to_Ideal'' data = Inr ds"
  shows "sel_valid (length data) mr (sel_decode (length data) x)"
    and "\<forall>s'. sel_valid (length data) mr s' \<longrightarrow>
           sel_cost ds (sel_decode (length data) x) \<le> sel_cost ds s'"
    and "cluster_artists_single solve data mr = Inr (label_sel (sel_decode (length data) x) data)"
proof -
  let ?s = "sel_decode (length data) x"
  have optm: "optimal m x" using contract opt by (simp add: solver_contract_def)
  then have fx: "feasible m x" by (simp add: optimal_def)
  show valid: "sel_valid (length data) mr ?s" by (rule feasible_sel_decode(1) [OF build fx])
  have len: "length ?s = length data" by (simp add: sel_decode_def)
  have "objective m x = objective m (sel_point ?s)"
    using feasible_sel_decode(2) [OF build fx] build_ready_model_Inr [OF build]
    by (metis objective_cong build_ready_model_wf [OF build] atLeastLessThan_iff set_upt zero_le)
  then have cx: "objective m x = sel_cost ds ?s" using objective_sel_point [OF build col len] by simp
  show "\<forall>s'. sel_valid (length data) mr s' \<longrightarrow> sel_cost ds ?s \<le> sel_cost ds s'"
  proof (intro allI impI)
    fix s' assume v': "sel_valid (length data) mr s'"
    then have "objective m x \<le> objective m (sel_point s')"
      using optm sel_valid_feasible [OF build v'] by (simp add: optimal_def)
    then show "sel_cost ds ?s \<le> sel_cost ds s'"
      using cx objective_sel_point [OF build col] v' by (simp add: sel_valid_def)
  qed
  show "cluster_artists_single solve data mr = Inr (label_sel ?s data)"
    using build opt label_ready_total [of x data] by (simp add: cluster_artists_single_def read_X_solution)
qed

subsection \<open>The distances of \<open>calculate_all_distances\<close> feed the model\<close>

lemma column_calculate_all_distances_w:
  "column ''Distance_to_Ideal'' (calculate_all_distances_w data ideal ws) =
     Inr (map (\<lambda>row. calculate_distance_w row ideal ws) data)"
  by (simp add: column_def calculate_all_distances_w_def err_map_comp dict_index_update)

lemma build_ready_model_distances_w:
  "\<exists>m. build_ready_model (calculate_all_distances_w data ideal ws) mr = Inr m"
  by (simp add: build_ready_model_Inr_iff column_calculate_all_distances_w)

lemma cluster_artists_single_exact:
  assumes "column ''Distance_to_Ideal'' data = Inr ds" and "mr \<le> int (length data)"
  shows "\<exists>s. sel_valid (length data) mr s \<and> cluster_artists_single solve_enum data mr = Inr (label_sel s data)"
proof -
  obtain m where build: "build_ready_model data mr = Inr m"
    using assms(1) by (simp add: build_ready_model_Inr_iff)
  have wf: "wf_milp m" by (rule build_ready_model_wf [OF build])
  have "sel_valid (length data) mr (replicate (length data) True)" using assms(2) by (simp add: sel_valid_def)
  then obtain x where x: "solve_enum m = Optimal x"
    using solve_enum_finds [OF wf sel_valid_feasible [OF build]] by blast
  show ?thesis using cluster_artists_single_optimal_decode [OF build solve_enum_contract [OF wf] x assms(1)] by blast
qed

subsection \<open>Exchange arguments on optimal selections\<close>

lemma sel_cost_update:
  "i < length s \<Longrightarrow>
     sel_cost ds (s[i := b]) = sel_cost ds s - (if s ! i then ds ! i else 0) + (if b then ds ! i else 0)"
  using sum_update_nth [of i s "\<lambda>i b. if b then ds ! i else 0" b] by (simp add: sel_cost_def)

lemma optimal_sel_closest:
  assumes valid: "sel_valid n mr s"
    and opt: "\<forall>s'. sel_valid n mr s' \<longrightarrow> sel_cost ds s \<le> sel_cost ds s'"
    and i: "i < n" and j: "j < n" and si: "s ! i" and sj: "\<not> s ! j"
  shows "ds ! i \<le> ds ! j"
proof -
  have len: "length s = n" using valid by (simp add: sel_valid_def)
  have ij: "i \<noteq> j" using si sj by auto
  let ?s1 = "s[i := False]"
  let ?s2 = "?s1[j := True]"
  have c1: "count_list ?s1 True = count_list s True - 1" using count_list_update [of i s False True] i len si by simp
  have pos: "0 < count_list s True" using si i len by (metis count_list_0_iff gr0I nth_mem)
  have "count_list ?s2 True = count_list ?s1 True + 1"
    using count_list_update [of j ?s1 True True] j len sj ij by simp
  then have "count_list ?s2 True = count_list s True" using c1 pos by simp
  then have v2: "sel_valid n mr ?s2" using valid by (simp add: sel_valid_def)
  have "sel_cost ds ?s2 = sel_cost ds s - ds ! i + ds ! j"
    using sel_cost_update [of i s ds False] sel_cost_update [of j ?s1 ds True] i j len si sj ij by simp
  then show ?thesis using opt v2 by force
qed

lemma optimal_sel_count:
  assumes valid: "sel_valid n mr s"
    and opt: "\<forall>s'. sel_valid n mr s' \<longrightarrow> sel_cost ds s \<le> sel_cost ds s'"
    and pos: "\<forall>i < n. 0 < ds ! i"
  shows "int (count_list s True) = max 0 mr"
proof (rule ccontr)
  assume ne: "int (count_list s True) \<noteq> max 0 mr"
  have len: "length s = n" and ge: "mr \<le> int (count_list s True)" using valid by (simp_all add: sel_valid_def)
  then have gt: "max 0 mr < int (count_list s True)" using ne unfolding max_def by (auto split: if_splits)
  then have "True \<in> set s" by (metis count_list_0_iff of_nat_0 max.strict_boundedE less_irrefl)
  then obtain i where i: "i < n" and si: "s ! i" using len by (metis in_set_conv_nth)
  let ?s1 = "s[i := False]"
  have "count_list ?s1 True = count_list s True - 1" using count_list_update [of i s False True] i len si by simp
  then have "sel_valid n mr ?s1" using gt len by (simp add: sel_valid_def)
  moreover have "sel_cost ds ?s1 = sel_cost ds s - ds ! i"
    using sel_cost_update [of i s ds False] i len si by simp
  ultimately show False using opt pos i by force
qed

subsection \<open>Properties of \<open>cluster_artists\<close> (single profile)\<close>

lemma build3: "build_ready_model data3 2 = Inr (projr (build_ready_model data3 2))"
  by (simp add: build_ready_model_def ready_obj_def ready_cost_def data3_def)

lemma build3_4: "build_ready_model data3 4 = Inr (projr (build_ready_model data3 4))"
  by (simp add: build_ready_model_def ready_obj_def ready_cost_def data3_def)

lemmas run3_eval = cluster_artists_single_def build_ready_model_def ready_obj_def ready_cost_def data3_def
  solve_enum_def feasible_def binary_on_def satisfies_def lin_value_def objective_def point_of_def
  label_ready_def ready_label_def label_sel_def

lemma run3: "cluster_artists_single solve_enum data3 2 = Inr (label_sel [False, True, True] data3)"
  by (simp add: run3_eval)

lemma column3: "column ''Distance_to_Ideal'' data3 = Inr [3, 1, 2]"
  by (simp add: column_def data3_def)

lemma wf3: "wf_milp (projr (build_ready_model data3 2))"
  by (rule build_ready_model_wf [OF build3])

lemma opt3: "\<exists>x. solve_enum (projr (build_ready_model data3 2)) = Optimal x"
proof -
  have "sel_valid (length data3) 2 [False, True, True]" by (simp add: sel_valid_def data3_def)
  from solve_enum_finds [OF wf3 sel_valid_feasible [OF build3 this]] show ?thesis by blast
qed

text \<open>Claim C8: when the solver reports an optimal solution,
  \<open>cluster_artists\<close> of \<open>artist_clustering.py\<close> labels the records by a selection of at
  least \<open>min_ready_artists\<close> Ready records whose total \<open>Distance_to_Ideal\<close> is least among
  all such selections.\<close>

theorem cluster_artists_single_optimal:
  assumes "build_ready_model data mr = Inr m" and "solver_contract solve m"
    and "solve m = Optimal x" and "column ''Distance_to_Ideal'' data = Inr ds"
  shows "\<exists>s. cluster_artists_single solve data mr = Inr (label_sel s data) \<and> sel_valid (length data) mr s \<and>
           (\<forall>s'. sel_valid (length data) mr s' \<longrightarrow> sel_cost ds s \<le> sel_cost ds s')"
  using cluster_artists_single_optimal_decode [OF assms] by blast

theorem cluster_artists_single_optimal_witness:
  "cluster_artists_single solve_enum data3 2 = Inr (label_sel [False, True, True] data3) \<and>
     sel_valid 3 2 [False, True, True] \<and> sel_cost [3, 1, 2] [False, True, True] \<le> sel_cost [3, 1, 2] [True, True, False]"
proof -
  obtain x where x: "solve_enum (projr (build_ready_model data3 2)) = Optimal x" using opt3 by blast
  obtain s where s: "cluster_artists_single solve_enum data3 2 = Inr (label_sel s data3)"
      "sel_valid (length data3) 2 s" "\<forall>s'. sel_valid (length data3) 2 s' \<longrightarrow> sel_cost [3, 1, 2] s \<le> sel_cost [3, 1, 2] s'"
    using cluster_artists_single_optimal [OF build3 solve_enum_contract [OF wf3] x column3] by blast
  have "label_sel s data3 = label_sel [False, True, True] data3" using s(1) run3 by simp
  then have "s = [False, True, True]" using s(2)
    by (auto simp: label_sel_def data3_def sel_valid_def length_Suc_conv split: if_splits)
  then show ?thesis using s run3 by (simp add: data3_def sel_valid_def sel_cost_def)
qed


lemma feasible_ready_bound:
  assumes "build_ready_model data mr = Inr m" and "feasible m x"
  shows "mr \<le> int (length data)"
proof -
  have "sel_valid (length data) mr (sel_decode (length data) x)" by (rule feasible_sel_decode(1) [OF assms])
  then show ?thesis using count_le_length [of "sel_decode (length data) x" True]
    by (simp add: sel_valid_def sel_decode_def)
qed

text \<open>Claim C12: the model of the single-profile \<open>cluster_artists\<close>
  has a feasible 0/1 point exactly when \<open>min_ready_artists\<close> does not exceed the number
  of records.\<close>

theorem ready_model_feasible_iff:
  assumes "build_ready_model data mr = Inr m"
  shows "(\<exists>x. feasible m x) \<longleftrightarrow> mr \<le> int (length data)"
proof
  show "\<exists>x. feasible m x \<Longrightarrow> mr \<le> int (length data)" using feasible_ready_bound [OF assms] by blast
next
  assume "mr \<le> int (length data)"
  then have "sel_valid (length data) mr (replicate (length data) True)" by (simp add: sel_valid_def)
  then show "\<exists>x. feasible m x" using sel_valid_feasible [OF assms] by blast
qed

theorem ready_model_feasible_iff_witness:
  "(\<exists>x. feasible (projr (build_ready_model data3 2)) x) \<and> \<not> (\<exists>x. feasible (projr (build_ready_model data3 4)) x)"
  using ready_model_feasible_iff [OF build3] ready_model_feasible_iff [OF build3_4] by (simp add: data3_def)

text \<open>Claim C13: in the labels of an optimal solution every Ready
  record is at least as close to the ideal artist as every Not Ready record.\<close>

theorem cluster_artists_single_closest:
  assumes "build_ready_model data mr = Inr m" and "solver_contract solve m"
    and "solve m = Optimal x" and "column ''Distance_to_Ideal'' data = Inr ds"
    and out: "cluster_artists_single solve data mr = Inr out"
    and "i < length out" and "j < length out"
    and "map_of (out ! i) ''Cluster'' = Some (PStr ''Ready'')"
    and "map_of (out ! j) ''Cluster'' = Some (PStr ''Not Ready'')"
  shows "ds ! i \<le> ds ! j"
proof -
  let ?s = "sel_decode (length data) x"
  note d = cluster_artists_single_optimal_decode [OF assms(1-4)]
  have o: "out = label_sel ?s data" using d(3) out by simp
  have len: "length ?s = length data" by (simp add: sel_decode_def)
  have i: "i < length data" and j: "j < length data" using assms(6,7) o len by simp_all
  have "?s ! i" and "\<not> ?s ! j"
    using assms(8,9) label_sel_cluster [of _ ?s data] i j len o by (auto split: if_splits)
  then show ?thesis using optimal_sel_closest [OF d(1,2) i j] by blast
qed

theorem cluster_artists_single_closest_witness:
  "cluster_artists_single solve_enum data3 2 = Inr (label_sel [False, True, True] data3) \<and>
     [3, 1, 2] ! 1 \<le> ([3, 1, 2] :: real list) ! 0"
proof -
  obtain x where x: "solve_enum (projr (build_ready_model data3 2)) = Optimal x" using opt3 by blast
  have "map_of (label_sel [False, True, True] data3 ! 1) ''Cluster'' = Some (PStr ''Ready'')"
    and "map_of (label_sel [False, True, True] data3 ! 0) ''Cluster'' = Some (PStr ''Not Ready'')"
    by (simp_all add: label_sel_cluster data3_def)
  then have "[3, 1, 2] ! 1 \<le> ([3, 1, 2] :: real list) ! 0"
    using cluster_artists_single_closest [OF build3 solve_enum_contract [OF wf3] x column3 run3, of 1 0]
    by (simp add: data3_def)
  then show ?thesis using run3 by simp
qed

text \<open>Claim C14: when every distance to the ideal is positive, an
  optimal solution labels exactly \<open>min_ready_artists\<close> records Ready (none when it is not
  positive): the single constraint is tight.\<close>

theorem cluster_artists_single_count:
  assumes "build_ready_model data mr = Inr m" and "solver_contract solve m"
    and "solve m = Optimal x" and col: "column ''Distance_to_Ideal'' data = Inr ds"
    and pos: "\<forall>d \<in> set ds. 0 < d"
  shows "\<exists>out. cluster_artists_single solve data mr = Inr out \<and>
           int (length (filter (\<lambda>row. map_of row ''Cluster'' = Some (PStr ''Ready'')) out)) = max 0 mr"
proof -
  let ?s = "sel_decode (length data) x"
  note d = cluster_artists_single_optimal_decode [OF assms(1-4)]
  have "length ds = length data" using col column_Inr_length by blast
  then have "\<forall>i < length data. 0 < ds ! i" using pos by auto
  then have "int (count_list ?s True) = max 0 mr" by (rule optimal_sel_count [OF d(1,2)])
  moreover have "length ?s = length data" by (simp add: sel_decode_def)
  ultimately show ?thesis using d(3) label_sel_count by auto
qed

theorem cluster_artists_single_count_witness:
  "\<exists>out. cluster_artists_single solve_enum data3 2 = Inr out \<and>
     length (filter (\<lambda>row. map_of row ''Cluster'' = Some (PStr ''Ready'')) out) = 2"
proof -
  obtain x where x: "solve_enum (projr (build_ready_model data3 2)) = Optimal x" using opt3 by blast
  have "\<forall>d \<in> set [3, 1, 2]. (0::real) < d" by simp
  from cluster_artists_single_count [OF build3 solve_enum_contract [OF wf3] x column3 this]
  show ?thesis by auto
qed

text \<open>Claim C28: with fewer records than
  \<open>min_ready_artists\<close>, the model has no solution and the labelling loop raises on the
  first \<open>x[0].X\<close>; the infeasibility is not reported as such.\<close>

theorem cluster_artists_single_infeasible_error:
  assumes build: "build_ready_model data mr = Inr m" and "solver_contract solve m"
    and "data \<noteq> []" and "int (length data) < mr"
  shows "cluster_artists_single solve data mr = Inl SolutionUnavailable"
proof -
  have "\<not> (\<exists>x. feasible m x)" using feasible_ready_bound [OF build] assms(4) by force
  then have "solve m = Infeasible \<or> solve m = SolverFailed" using no_solution_when_infeasible assms(2) by blast
  moreover obtain r rs where "data = r # rs" using assms(3) by (cases data) auto
  ultimately show ?thesis using build by (auto simp: cluster_artists_single_def label_ready_def)
qed

theorem cluster_artists_single_infeasible_error_witness:
  "cluster_artists_single solve_enum data3 4 = Inl SolutionUnavailable"
proof -
  have wf: "wf_milp (projr (build_ready_model data3 4))" by (rule build_ready_model_wf [OF build3_4])
  have "data3 \<noteq> []" and "int (length data3) < 4" by (simp_all add: data3_def)
  then show ?thesis using cluster_artists_single_infeasible_error [OF build3_4 solve_enum_contract [OF wf]] by blast
qed

text \<open>Claim C29: on an empty dataset with a positive
  \<open>min_ready_artists\<close> the model is infeasible, yet \<open>cluster_artists\<close> returns the empty list
  without raising, whatever the solver reports.\<close>

theorem cluster_artists_single_empty:
  assumes "0 < mr"
  shows "\<exists>m. build_ready_model [] mr = Inr m \<and> \<not> (\<exists>x. feasible m x) \<and>
           cluster_artists_single solve [] mr = Inr []"
proof -
  have b: "build_ready_model [] mr = Inr (projr (build_ready_model [] mr))"
    by (simp add: build_ready_model_def ready_obj_def)
  have "\<not> (\<exists>x. feasible (projr (build_ready_model [] mr)) x)"
    using feasible_ready_bound [OF b] assms by force
  then show ?thesis using b by (auto simp: cluster_artists_single_def)
qed

theorem cluster_artists_single_empty_witness:
  "\<exists>m. build_ready_model [] 5 = Inr m \<and> \<not> (\<exists>x. feasible m x) \<and> cluster_artists_single solve_enum [] 5 = Inr []"
  using cluster_artists_single_empty [of 5 solve_enum] by simp


lemma label_sel_keys:
  assumes "length s = length data" and "\<forall>row \<in> set data. ''Cluster'' \<notin> set (dict_keys row)"
  shows "map dict_keys (label_sel s data) = map (\<lambda>row. dict_keys row @ [''Cluster'']) data"
  using assms by (induction s data rule: list_induct2) (simp_all add: label_sel_def dict_keys_update)

end
