(* ===== verification/Report.thy ===== *)
theory Report
  imports Loader Assignment SingleProfile
begin

text \<open>
  \<open>main()\<close> of both scripts without the file system and the console: the records
  \<open>load_data\<close> returns are scored, clustered, reported and written. The report loop
  reads \<open>artist['Cluster']\<close> (and, in \<open>artist_clustering.py\<close>,
  \<open>artist['Distance_to_Ideal']\<close>) of every record, raising \<open>KeyError\<close> on a record without
  the field; the CSV header is \<open>clustered_data[0].keys()\<close>, which raises \<open>IndexError\<close> on
  an empty result; \<open>csv.DictWriter.writerows\<close> raises \<open>ValueError\<close> on a record with a
  field outside the header and writes \<open>''\<close> for a missing one. The printed text and
  the file's bytes are not modelled: a report line is the tuple of values printed, a
  CSV row the list of values written.
\<close>

subsection \<open>Reporting and writing\<close>

text \<open>\<open>print(f"Artist: {artist.get('Artist Name', 'Unknown')}, Cluster: {artist['Cluster']}")\<close>\<close>

definition report_line :: "row \<Rightarrow> py_error + pyval \<times> pyval" where
  "report_line artist =
     err_bind (dict_index artist ''Cluster'') (\<lambda>c. Inr (dict_get artist ''Artist Name'' (PStr ''Unknown''), c))"

text \<open>The same line in \<open>artist_clustering.py\<close>, with \<open>artist['Distance_to_Ideal']\<close> first.\<close>

definition report_line_w :: "row \<Rightarrow> py_error + pyval \<times> pyval \<times> pyval" where
  "report_line_w artist =
     err_bind (dict_index artist ''Distance_to_Ideal'') (\<lambda>d.
       err_bind (dict_index artist ''Cluster'') (\<lambda>c.
         Inr (dict_get artist ''Artist Name'' (PStr ''Unknown''), d, c)))"

text \<open>\<open>fieldnames=clustered_data[0].keys()\<close>\<close>

definition csv_fieldnames :: "dataset \<Rightarrow> py_error + string list" where
  "csv_fieldnames clustered_data = (case clustered_data of [] \<Rightarrow> Inl IndexError | row # _ \<Rightarrow> Inr (dict_keys row))"

text \<open>\<open>DictWriter.writerow\<close> with the defaults \<open>restval=''\<close> and \<open>extrasaction='raise'\<close>.\<close>

definition dict_writer_row :: "string list \<Rightarrow> row \<Rightarrow> py_error + pyval list" where
  "dict_writer_row fieldnames row =
     (if set (dict_keys row) \<subseteq> set fieldnames
      then Inr (map (\<lambda>key. dict_get row key (PStr [])) fieldnames) else Inl ValueError)"

definition write_csv :: "string list \<Rightarrow> dataset \<Rightarrow> py_error + pyval list list" where
  "write_csv fieldnames rows = err_map (dict_writer_row fieldnames) rows"

text \<open>What \<open>main\<close> produces: the report lines, the CSV header and the CSV rows.\<close>

type_synonym 'l main_result = "'l list \<times> string list \<times> pyval list list"

definition write_results :: "(row \<Rightarrow> py_error + 'l) \<Rightarrow> dataset \<Rightarrow> py_error + 'l main_result" where
  "write_results report clustered_data =
     err_bind (err_map report clustered_data) (\<lambda>lines.
       err_bind (csv_fieldnames clustered_data) (\<lambda>fieldnames.
         err_bind (write_csv fieldnames clustered_data) (\<lambda>rows. Inr (lines, fieldnames, rows))))"

subsection \<open>The two \<open>main\<close> functions\<close>

text \<open>\<open>main()\<close> of \<open>artist_clustering.py\<close>, lines 92-116.\<close>

definition main_single :: "nat solver \<Rightarrow> csv_row list \<Rightarrow> py_error + (pyval \<times> pyval \<times> pyval) main_result" where
  "main_single solve rows =
     err_bind (load_data rows) (\<lambda>artist_data.
       err_bind (cluster_artists_single solve (calculate_all_distances_w artist_data ideal_artist weights) 5)
         (write_results report_line_w))"

text \<open>\<open>main()\<close> of \<open>modified_artist_clustering.py\<close>, lines 140-164.\<close>

definition main_multi :: "(nat \<times> nat) solver \<Rightarrow> csv_row list \<Rightarrow> py_error + (pyval \<times> pyval) main_result" where
  "main_multi solve rows =
     err_bind (load_data rows) (\<lambda>artist_data.
       err_bind (calculate_all_distances artist_data profiles) (\<lambda>artist_data.
         err_bind (cluster_artists solve artist_data profiles) (write_results report_line)))"

text \<open>Five CSV lines under the header \<open>Artist Name, Spotify Following\<close>, for the witnesses.\<close>

definition sample_csv5 :: "csv_row list" where
  "sample_csv5 = map (\<lambda>n. [(''Artist Name'', Cell n), (''Spotify Following'', Cell ''800'')])
                   [''A'', ''B'', ''C'', ''D'', ''E'']"

subsection \<open>The report and the writer on uniform records\<close>

lemma write_csv_uniform:
  assumes "\<forall>row \<in> set rows. dict_keys row = fs"
  shows "write_csv fs rows = Inr (map (\<lambda>row. map (\<lambda>key. dict_get row key (PStr [])) fs) rows)"
  using assms by (induction rows) (simp_all add: write_csv_def dict_writer_row_def)

lemma write_results_uniform:
  assumes "rows \<noteq> []" and "\<forall>row \<in> set rows. dict_keys row = fs"
    and "err_map report rows = Inr lines"
  shows "write_results report rows = Inr (lines, fs, map (\<lambda>row. map (\<lambda>key. dict_get row key (PStr [])) fs) rows)"
proof -
  have "csv_fieldnames rows = Inr fs" using assms(1,2) by (cases rows) (simp_all add: csv_fieldnames_def)
  then show ?thesis using assms(3) write_csv_uniform [OF assms(2)] by (simp add: write_results_def)
qed

lemma report_line_labelled:
  "map_of row ''Cluster'' = Some c \<Longrightarrow> report_line row = Inr (dict_get row ''Artist Name'' (PStr ''Unknown''), c)"
  by (simp add: report_line_def dict_index_def)

lemma report_line_w_labelled:
  "map_of row ''Distance_to_Ideal'' = Some d \<Longrightarrow> map_of row ''Cluster'' = Some c \<Longrightarrow>
     report_line_w row = Inr (dict_get row ''Artist Name'' (PStr ''Unknown''), d, c)"
  by (simp add: report_line_w_def dict_index_def)


lemma report_lines_labelled:
  assumes "\<forall>row \<in> set rows. map_of row ''Cluster'' \<noteq> None"
  shows "err_map report_line rows =
           Inr (map (\<lambda>row. (dict_get row ''Artist Name'' (PStr ''Unknown''), the (map_of row ''Cluster''))) rows)"
  using assms by (intro err_map_Inr_map) (auto simp: report_line_labelled)

lemma report_lines_w_labelled:
  assumes "\<forall>row \<in> set rows. map_of row ''Distance_to_Ideal'' \<noteq> None \<and> map_of row ''Cluster'' \<noteq> None"
  shows "err_map report_line_w rows =
           Inr (map (\<lambda>row. (dict_get row ''Artist Name'' (PStr ''Unknown''),
                             the (map_of row ''Distance_to_Ideal''), the (map_of row ''Cluster''))) rows)"
  using assms by (intro err_map_Inr_map) (auto simp: report_line_w_labelled)

lemma distance_key_not_cluster: "distance_key n \<noteq> ''Cluster''"
  by (simp add: distance_key_def)

subsection \<open>Properties of \<open>main\<close>\<close>

text \<open>On a CSV file with a header and no records both \<open>main\<close>
  functions crash with \<open>IndexError\<close> at \<open>clustered_data[0]\<close>, whatever the solver does:
  clustering an empty list reads no \<open>.X\<close> and returns the empty list.\<close>

lemma main_empty_error: "main_single solve1 [] = Inl IndexError \<and> main_multi solve2 [] = Inl IndexError"
  by (simp add: main_single_def main_multi_def load_data_def cluster_artists_single_def build_ready_model_def
      ready_obj_def calculate_all_distances_def normalize_distances_def profiles_def normalize_column_def
      divide_column_def cluster_artists_def build_model_def Let_def obj_terms_def cluster_vars_def
      assign_clusters_def min_artists_def write_results_def csv_fieldnames_def dict_keys_def
      calculate_all_distances_w_def)


lemma key_present: "k \<in> set (dict_keys row) \<Longrightarrow> map_of row k \<noteq> None"
  by (simp add: dict_keys_def map_of_eq_None_iff)

lemma main_multi_scored:
  assumes rows: "\<forall>r \<in> set rows. dict_keys r = ks \<and> NoCell \<notin> snd ` set r"
    and cl: "''Cluster'' \<notin> set ks" and dk: "\<forall>n \<in> set (dict_keys profiles). distance_key n \<notin> set ks"
    and n: "3 \<le> length rows"
    and ld: "load_data rows = Inr data" and Inr: "calculate_all_distances data profiles = Inr D"
  shows "\<exists>lines csv. main_multi solve_enum rows =
                Inr (lines, ks @ map distance_key (dict_keys profiles) @ [''Cluster''], csv) \<and>
              length lines = length rows \<and> length csv = length rows \<and>
              list_all (\<lambda>l. snd l \<in> PStr ` set (dict_keys profiles)) lines"
proof -
  obtain data' where ld': "load_data rows = Inr data'" and len': "length data' = length rows"
    and keys': "\<forall>row \<in> set data'. dict_keys row = ks"
    using load_data_uniform [OF rows] by blast
  have len: "length data = length rows" and keys: "\<forall>row \<in> set data. dict_keys row = ks"
    using ld ld' len' keys' by simp_all
  note u = calculate_all_distances_uniform [OF profiles_wf keys dk Inr]
  let ?names = "dict_keys profiles"
  let ?fs = "ks @ map distance_key ?names"
  have ne_ps: "profiles \<noteq> []" and k3: "length profiles = 3" by (simp_all add: profiles_def)
  then obtain a where va: "valid_assignment (length D) (length profiles) a"
    and ca: "cluster_artists solve_enum D profiles = Inr (label_rows ?names a D)"
    using cluster_artists_exact [OF ne_ps u(3)] u(1) len n by auto
  let ?L = "label_rows ?names a D"
  have lena: "length a = length D" and bound: "list_all (\<lambda>c. c < length profiles) a"
    using va by (simp_all add: valid_assignment_def)
  have "''Cluster'' \<noteq> distance_key m" for m using distance_key_not_cluster [of m] by simp
  then have noc: "\<forall>row \<in> set D. ''Cluster'' \<notin> set (dict_keys row)" using u(2) cl by auto
  have "map dict_keys ?L = map (\<lambda>row. dict_keys row @ [''Cluster'']) D" by (rule label_rows_keys [OF lena noc])
  moreover have "\<forall>row \<in> set D. dict_keys row @ [''Cluster''] = ?fs @ [''Cluster'']" using u(2) by simp
  ultimately have keysL: "\<forall>row \<in> set ?L. dict_keys row = ?fs @ [''Cluster'']" by (rule map_eq_uniform)
  have lab: "\<forall>row \<in> set ?L. \<exists>c \<in> set a. map_of row ''Cluster'' = Some (PStr (?names ! c))"
    using label_rows_cluster by blast
  then have "\<forall>row \<in> set ?L. map_of row ''Cluster'' \<noteq> None" by fastforce
  note rl = report_lines_labelled [OF this]
  have lenL: "length ?L = length rows" using lena u(1) len by (simp add: label_rows_def)
  then have ne: "?L \<noteq> []" using n by auto
  note wr = write_results_uniform [OF ne keysL rl]
  have "snd (dict_get row ''Artist Name'' (PStr ''Unknown''), the (map_of row ''Cluster'')) \<in> PStr ` set ?names"
    if "row \<in> set ?L" for row
  proof -
    have "\<exists>c \<in> set a. map_of row ''Cluster'' = Some (PStr (?names ! c))" using lab that by (rule bspec)
    then obtain c where c: "c \<in> set a" "map_of row ''Cluster'' = Some (PStr (?names ! c))" by (rule bexE)
    then have "c < length ?names" using bound by (auto simp: list_all_iff dict_keys_def)
    then show ?thesis using c by simp
  qed
  then have "list_all (\<lambda>l. snd l \<in> PStr ` set ?names)
      (map (\<lambda>row. (dict_get row ''Artist Name'' (PStr ''Unknown''), the (map_of row ''Cluster''))) ?L)"
    by (simp add: list_all_iff)
  then show ?thesis using wr ld Inr ca lenL by (simp add: main_multi_def)
qed

text \<open>Claim C10: with an exact solver, \<open>main\<close> of the modified script either
  stops with \<open>ZeroDivisionError\<close> (an all-zero distance column) or, on a file of at least
  three records with a common header and no short line, reports every record with a
  registered cluster and writes one CSV row per record under the header: the input
  columns, then \<open>Distance_to_Ready\<close>, \<open>Distance_to_Potential\<close>, \<open>Distance_to_Not Ready\<close>,
  then \<open>Cluster\<close>.\<close>

theorem main_multi_exact:
  assumes rows: "\<forall>r \<in> set rows. dict_keys r = ks \<and> NoCell \<notin> snd ` set r"
    and cl: "''Cluster'' \<notin> set ks" and dk: "\<forall>n \<in> set (dict_keys profiles). distance_key n \<notin> set ks"
    and n: "3 \<le> length rows"
  shows "main_multi solve_enum rows = Inl ZeroDivisionError \<or>
           (\<exists>lines csv. main_multi solve_enum rows =
                Inr (lines, ks @ map distance_key (dict_keys profiles) @ [''Cluster''], csv) \<and>
              length lines = length rows \<and> length csv = length rows \<and>
              list_all (\<lambda>l. snd l \<in> PStr ` set (dict_keys profiles)) lines)"
proof -
  obtain data where ld: "load_data rows = Inr data"
    using load_data_uniform [OF rows] by blast
  show ?thesis
  proof (cases "calculate_all_distances data profiles")
    case (Inl e)
    then have "e = ZeroDivisionError" by (rule calculate_all_distances_Inl [OF profiles_wf])
    then show ?thesis using ld Inl by (simp add: main_multi_def)
  next
    case (Inr D)
    show ?thesis using main_multi_scored [OF rows cl dk n ld Inr] by blast
  qed
qed

theorem main_multi_exact_witness:
  "main_multi solve_enum sample_csv5 = Inl ZeroDivisionError \<or>
     (\<exists>lines csv. main_multi solve_enum sample_csv5 =
        Inr (lines, [''Artist Name'', ''Spotify Following'', ''Distance_to_Ready'', ''Distance_to_Potential'',
                     ''Distance_to_Not Ready'', ''Cluster''], csv) \<and>
        length lines = 5 \<and> length csv = 5 \<and> list_all (\<lambda>l. snd l \<in> PStr ` set (dict_keys profiles)) lines)"
proof -
  have "\<forall>r \<in> set sample_csv5. dict_keys r = [''Artist Name'', ''Spotify Following''] \<and> NoCell \<notin> snd ` set r"
    and "''Cluster'' \<notin> set [''Artist Name'', ''Spotify Following'']"
    and "\<forall>n \<in> set (dict_keys profiles). distance_key n \<notin> set [''Artist Name'', ''Spotify Following'']"
    and "3 \<le> length sample_csv5"
    by (simp_all add: sample_csv5_def profiles_def distance_key_def)
  note m = main_multi_exact [OF this]
  have keys: "[''Artist Name'', ''Spotify Following''] @ map distance_key (dict_keys profiles) @ [''Cluster''] =
      [''Artist Name'', ''Spotify Following'', ''Distance_to_Ready'', ''Distance_to_Potential'',
       ''Distance_to_Not Ready'', ''Cluster'']"
    by (simp add: profiles_def distance_key_def)
  have len: "length sample_csv5 = 5" by (simp add: sample_csv5_def)
  show ?thesis using m unfolding keys len .
qed

text \<open>With an exact solver, \<open>main\<close> of \<open>artist_clustering.py\<close>
  on a file of at least five records with a common header and no short line reports
  every record, at least five of them Ready, and writes one CSV row per record under
  the header: the input columns, then \<open>Distance_to_Ideal\<close>, then \<open>Cluster\<close>.\<close>

lemma main_single_exact:
  assumes rows: "\<forall>r \<in> set rows. dict_keys r = ks \<and> NoCell \<notin> snd ` set r"
    and cl: "''Cluster'' \<notin> set ks" and di: "''Distance_to_Ideal'' \<notin> set ks" and n: "5 \<le> length rows"
  shows "\<exists>lines csv. main_single solve_enum rows = Inr (lines, ks @ [''Distance_to_Ideal'', ''Cluster''], csv) \<and>
           length lines = length rows \<and> length csv = length rows \<and>
           5 \<le> length (filter (\<lambda>l. snd (snd l) = PStr ''Ready'') lines)"
proof -
  obtain data where ld: "load_data rows = Inr data" and len: "length data = length rows"
    and keys: "\<forall>row \<in> set data. dict_keys row = ks"
    using load_data_uniform [OF rows] by blast
  let ?D = "calculate_all_distances_w data ideal_artist weights"
  have lenD: "length ?D = length data" by (simp add: calculate_all_distances_w_def)
  have "map dict_keys ?D = map (\<lambda>row. dict_keys row @ [''Distance_to_Ideal'']) data"
    using calculate_all_distances_w_keys keys di by simp
  moreover have "\<forall>row \<in> set data. dict_keys row @ [''Distance_to_Ideal''] = ks @ [''Distance_to_Ideal'']"
    using keys by simp
  ultimately have keysD: "\<forall>row \<in> set ?D. dict_keys row = ks @ [''Distance_to_Ideal'']" by (rule map_eq_uniform)
  have "5 \<le> int (length ?D)" using lenD len n by simp
  then obtain s where sv: "sel_valid (length ?D) 5 s" and cs: "cluster_artists_single solve_enum ?D 5 = Inr (label_sel s ?D)"
    using cluster_artists_single_exact [OF column_calculate_all_distances_w] by blast
  let ?L = "label_sel s ?D"
  have lens: "length s = length ?D" and cnt: "5 \<le> count_list s True" using sv by (simp_all add: sel_valid_def)
  have noc: "\<forall>row \<in> set ?D. ''Cluster'' \<notin> set (dict_keys row)" using keysD cl by simp
  have "map dict_keys ?L = map (\<lambda>row. dict_keys row @ [''Cluster'']) ?D" by (rule label_sel_keys [OF lens noc])
  moreover have "\<forall>row \<in> set ?D. dict_keys row @ [''Cluster''] = ks @ [''Distance_to_Ideal'', ''Cluster'']"
    using keysD by simp
  ultimately have keysL: "\<forall>row \<in> set ?L. dict_keys row = ks @ [''Distance_to_Ideal'', ''Cluster'']"
    by (rule map_eq_uniform)
  have "map_of row ''Distance_to_Ideal'' \<noteq> None \<and> map_of row ''Cluster'' \<noteq> None" if "row \<in> set ?L" for row
    using keysL that by (intro conjI key_present) simp_all
  then have "\<forall>row \<in> set ?L. map_of row ''Distance_to_Ideal'' \<noteq> None \<and> map_of row ''Cluster'' \<noteq> None"
    by blast
  note rl = report_lines_w_labelled [OF this]
  have lenL: "length ?L = length rows" using lens lenD len by simp
  then have "0 < length ?L" using n by linarith
  then have ne: "?L \<noteq> []" by (rule length_greater_0_conv [THEN iffD1])
  note wr = write_results_uniform [OF ne keysL rl]
  have some: "map_of row ''Cluster'' \<noteq> None" if "row \<in> set ?L" for row
    using keysL that by (intro key_present) simp
  have "(the (map_of row ''Cluster'') = PStr ''Ready'') = (map_of row ''Cluster'' = Some (PStr ''Ready''))"
    if "row \<in> set ?L" for row
    using some [OF that] by auto
  then have "filter (\<lambda>row. the (map_of row ''Cluster'') = PStr ''Ready'') ?L =
      filter (\<lambda>row. map_of row ''Cluster'' = Some (PStr ''Ready'')) ?L"
    by (rule filter_cong [OF refl])
  then have "length (filter (\<lambda>row. the (map_of row ''Cluster'') = PStr ''Ready'') ?L) = count_list s True"
    using label_sel_count [OF lens] by simp
  then have "5 \<le> length (filter (\<lambda>l. snd (snd l) = PStr ''Ready'')
      (map (\<lambda>row. (dict_get row ''Artist Name'' (PStr ''Unknown''),
                    the (map_of row ''Distance_to_Ideal''), the (map_of row ''Cluster''))) ?L))"
    using cnt by (simp add: filter_map comp_def)
  then show ?thesis using wr ld cs lenL by (simp add: main_single_def)
qed

lemma main_single_exact_witness:
  "\<exists>lines csv. main_single solve_enum sample_csv5 =
       Inr (lines, [''Artist Name'', ''Spotify Following'', ''Distance_to_Ideal'', ''Cluster''], csv) \<and>
     length lines = 5 \<and> length csv = 5 \<and> 5 \<le> length (filter (\<lambda>l. snd (snd l) = PStr ''Ready'') lines)"
proof -
  have "\<forall>r \<in> set sample_csv5. dict_keys r = [''Artist Name'', ''Spotify Following''] \<and> NoCell \<notin> snd ` set r"
    and "''Cluster'' \<notin> set [''Artist Name'', ''Spotify Following'']"
    and "''Distance_to_Ideal'' \<notin> set [''Artist Name'', ''Spotify Following'']"
    and "5 \<le> length sample_csv5"
    by (simp_all add: sample_csv5_def)
  note m = main_single_exact [OF this]
  have keys: "[''Artist Name'', ''Spotify Following''] @ [''Distance_to_Ideal'', ''Cluster''] =
      [''Artist Name'', ''Spotify Following'', ''Distance_to_Ideal'', ''Cluster'']" by simp
  have len: "length sample_csv5 = 5" by (simp add: sample_csv5_def)
  show ?thesis using m unfolding keys len .
qed

end
