(* ===== verification/Workflow.thy ===== *)
theory Workflow
  imports Report
begin

text \<open>
  \<open>main()\<close> of both scripts as a program that runs statement by statement and writes, in
  order, to the console and to its output file. The observable behaviour of a run
  is its list of events: the fixed messages of \<open>main\<close>, the \<open>Non-numeric value\<close> line
  \<open>calculate_distance\<close> prints in its \<open>except ValueError\<close> branch, the report lines,
  the opening of the output file and the CSV lines written to it. The distance loops are
  modelled again here with their prints; their results are those of the print-free
  definitions of \<open>Distance\<close> and \<open>Normalize\<close>.
\<close>

subsection \<open>Events\<close>

text \<open>\<open>print(...)\<close> of a fixed message; \<open>print(f"Non-numeric value for feature
  '{feature}' in row: {row}")\<close> with the feature and the record as it is at that moment; a
  line of the results loop; \<open>open(output_file, mode='w')\<close>; a line of the CSV file.\<close>

datatype 'l event =
    Print string
  | NonNumeric string row
  | Line 'l
  | OpenFile string
  | WriteRow "pyval list"

subsection \<open>The distance loops with their prints\<close>

text \<open>\<open>calculate_distance(row, ideal, weights)\<close> of \<open>artist_clustering.py\<close>, lines 47-60: the
  running distance and the console output of the loop.\<close>

fun distance_loop_w_io :: "row \<Rightarrow> real pydict \<Rightarrow> profile \<Rightarrow> real \<times> 'l event list \<Rightarrow> real \<times> 'l event list" where
  "distance_loop_w_io row ws [] st = st"
| "distance_loop_w_io row ws ((feature, ideal_value) # fis) (distance, out) =
     (let weight = dict_get ws feature 1 in
      distance_loop_w_io row ws fis
        (case py_float (dict_get row feature (PInt 0)) of
           Some row_value \<Rightarrow> (distance + weight * \<bar>row_value - ideal_value\<bar>, out)
         | None \<Rightarrow> (distance + weight * ideal_value, out @ [NonNumeric feature row])))"

definition calculate_distance_w_io :: "row \<Rightarrow> profile \<Rightarrow> real pydict \<Rightarrow> real \<times> 'l event list" where
  "calculate_distance_w_io row ideal ws = distance_loop_w_io row ws ideal (0, [])"

text \<open>\<open>calculate_all_distances(data, ideal, weights)\<close>, lines 62-65.\<close>

fun calculate_all_distances_w_io :: "dataset \<Rightarrow> profile \<Rightarrow> real pydict \<Rightarrow> dataset \<times> 'l event list" where
  "calculate_all_distances_w_io [] ideal ws = ([], [])"
| "calculate_all_distances_w_io (row # rows) ideal ws =
     (case calculate_distance_w_io row ideal ws of (distance, out) \<Rightarrow>
      case calculate_all_distances_w_io rows ideal ws of (rows', out') \<Rightarrow>
        (AList.update ''Distance_to_Ideal'' (PFloat distance) row # rows', out @ out'))"

text \<open>\<open>calculate_distance(row, profile)\<close> of \<open>modified_artist_clustering.py\<close>, lines 70-82.\<close>

fun distance_loop_io :: "row \<Rightarrow> profile \<Rightarrow> real \<times> 'l event list \<Rightarrow> real \<times> 'l event list" where
  "distance_loop_io row [] st = st"
| "distance_loop_io row ((feature, ideal_value) # fis) (distance, out) =
     distance_loop_io row fis
       (case py_float (dict_get row feature (PInt 0)) of
          Some row_value \<Rightarrow> (distance + \<bar>row_value - ideal_value\<bar>, out)
        | None \<Rightarrow> (distance + ideal_value, out @ [NonNumeric feature row]))"

definition calculate_distance_io :: "row \<Rightarrow> profile \<Rightarrow> real \<times> 'l event list" where
  "calculate_distance_io row prof = distance_loop_io row prof (0, [])"

text \<open>The loops of \<open>calculate_all_distances(data, profiles)\<close>, lines 93-96: each profile's
  distance is computed, and its warnings printed, on the record as the earlier iterations
  left it.\<close>

fun annotate_row_io :: "cluster_cfg pydict \<Rightarrow> row \<times> 'l event list \<Rightarrow> row \<times> 'l event list" where
  "annotate_row_io [] st = st"
| "annotate_row_io ((cluster_name, cluster_data) # ps) (row, out) =
     (case calculate_distance_io row (profile cluster_data) of (distance, out') \<Rightarrow>
        annotate_row_io ps (AList.update (distance_key cluster_name) (PFloat distance) row, out @ out'))"

fun annotate_rows_io :: "cluster_cfg pydict \<Rightarrow> dataset \<Rightarrow> dataset \<times> 'l event list" where
  "annotate_rows_io ps [] = ([], [])"
| "annotate_rows_io ps (row # rows) =
     (case annotate_row_io ps (row, []) of (row', out) \<Rightarrow>
      case annotate_rows_io ps rows of (rows', out') \<Rightarrow> (row' # rows', out @ out'))"

text \<open>Lines 92-98: the annotation loops, then \<open>normalize_distances\<close>, which prints nothing and
  may raise after the warnings are out.\<close>

definition calculate_all_distances_io :: "dataset \<Rightarrow> cluster_cfg pydict \<Rightarrow> 'l event list \<times> (py_error + dataset)" where
  "calculate_all_distances_io data ps =
     (case annotate_rows_io ps data of (data', out) \<Rightarrow> (out, normalize_distances ps data'))"

subsection \<open>main as a machine\<close>

text \<open>What distinguishes the two scripts' \<open>main\<close>: the lines of the CSV file as
  \<open>csv.DictReader\<close> yields them, \<open>output_file\<close>, the message before scoring, the scoring (with its
  prints), the clustering and the report line of a record.\<close>

record 'l main_cfg =
  cfg_file :: "csv_row list"
  cfg_output :: string
  cfg_score_msg :: string
  cfg_score :: "dataset \<Rightarrow> 'l event list \<times> (py_error + dataset)"
  cfg_cluster :: "dataset \<Rightarrow> py_error + dataset"
  cfg_report :: "row \<Rightarrow> py_error + 'l"

text \<open>The statement \<open>main\<close> executes next; \<open>Crashed\<close> is an exception leaving \<open>main\<close>.\<close>

datatype main_pc = AtLoad | AtScore | AtCluster | AtDisplay | AtReport | AtOpen | AtHeader | AtRows
  | Finished | Crashed py_error

text \<open>The local variables of \<open>main\<close> (\<open>artist_data\<close>, later \<open>clustered_data\<close>; the records
  the running \<open>for\<close> loop has still to visit; the writer's \<open>fieldnames\<close>) and what was
  written so far.\<close>

record 'l main_state =
  pc :: main_pc
  artist_data :: dataset
  pending :: dataset
  csv_header :: "string list"
  trace :: "'l event list"

definition main_init :: "'l main_state" where
  "main_init = \<lparr>pc = AtLoad, artist_data = [], pending = [], csv_header = [], trace = []\<rparr>"

text \<open>\<open>print(f"Results saved to '{output_file}'.")\<close>\<close>

definition saved_msg :: "string \<Rightarrow> string" where
  "saved_msg output_file = ''Results saved to '' @ [CHR 0x27] @ output_file @ [CHR 0x27] @ ''.''"

text \<open>One rule per statement of \<open>main\<close> and per outcome of the call it makes.\<close>

inductive main_step :: "'l main_cfg \<Rightarrow> 'l main_state \<Rightarrow> 'l main_state \<Rightarrow> bool" for c where
  load: "pc s = AtLoad \<Longrightarrow> load_data (cfg_file c) = Inr d \<Longrightarrow>
     main_step c s (s\<lparr>pc := AtScore, artist_data := d, trace := trace s @ [Print ''Loading data...'']\<rparr>)"
| load_error: "pc s = AtLoad \<Longrightarrow> load_data (cfg_file c) = Inl e \<Longrightarrow>
     main_step c s (s\<lparr>pc := Crashed e, trace := trace s @ [Print ''Loading data...'']\<rparr>)"
| score: "pc s = AtScore \<Longrightarrow> cfg_score c (artist_data s) = (ev, Inr d) \<Longrightarrow>
     main_step c s (s\<lparr>pc := AtCluster, artist_data := d, trace := trace s @ Print (cfg_score_msg c) # ev\<rparr>)"
| score_error: "pc s = AtScore \<Longrightarrow> cfg_score c (artist_data s) = (ev, Inl e) \<Longrightarrow>
     main_step c s (s\<lparr>pc := Crashed e, trace := trace s @ Print (cfg_score_msg c) # ev\<rparr>)"
| cluster: "pc s = AtCluster \<Longrightarrow> cfg_cluster c (artist_data s) = Inr d \<Longrightarrow>
     main_step c s (s\<lparr>pc := AtDisplay, artist_data := d, trace := trace s @ [Print ''Clustering artists...'']\<rparr>)"
| cluster_error: "pc s = AtCluster \<Longrightarrow> cfg_cluster c (artist_data s) = Inl e \<Longrightarrow>
     main_step c s (s\<lparr>pc := Crashed e, trace := trace s @ [Print ''Clustering artists...'']\<rparr>)"
| display: "pc s = AtDisplay \<Longrightarrow>
     main_step c s (s\<lparr>pc := AtReport, pending := artist_data s,
       trace := trace s @ [Print ''Clustering complete. Displaying results:'']\<rparr>)"
| report_line: "pc s = AtReport \<Longrightarrow> pending s = artist # rest \<Longrightarrow> cfg_report c artist = Inr l \<Longrightarrow>
     main_step c s (s\<lparr>pending := rest, trace := trace s @ [Line l]\<rparr>)"
| report_error: "pc s = AtReport \<Longrightarrow> pending s = artist # rest \<Longrightarrow> cfg_report c artist = Inl e \<Longrightarrow>
     main_step c s (s\<lparr>pc := Crashed e\<rparr>)"
| report_done: "pc s = AtReport \<Longrightarrow> pending s = [] \<Longrightarrow> main_step c s (s\<lparr>pc := AtOpen\<rparr>)"
| open_file: "pc s = AtOpen \<Longrightarrow>
     main_step c s (s\<lparr>pc := AtHeader, trace := trace s @ [OpenFile (cfg_output c)]\<rparr>)"
| header: "pc s = AtHeader \<Longrightarrow> csv_fieldnames (artist_data s) = Inr fs \<Longrightarrow>
     main_step c s (s\<lparr>pc := AtRows, pending := artist_data s, csv_header := fs,
       trace := trace s @ [WriteRow (map PStr fs)]\<rparr>)"
| header_error: "pc s = AtHeader \<Longrightarrow> csv_fieldnames (artist_data s) = Inl e \<Longrightarrow>
     main_step c s (s\<lparr>pc := Crashed e\<rparr>)"
| write_row: "pc s = AtRows \<Longrightarrow> pending s = row # rest \<Longrightarrow> dict_writer_row (csv_header s) row = Inr vs \<Longrightarrow>
     main_step c s (s\<lparr>pending := rest, trace := trace s @ [WriteRow vs]\<rparr>)"
| write_error: "pc s = AtRows \<Longrightarrow> pending s = row # rest \<Longrightarrow> dict_writer_row (csv_header s) row = Inl e \<Longrightarrow>
     main_step c s (s\<lparr>pc := Crashed e\<rparr>)"
| saved: "pc s = AtRows \<Longrightarrow> pending s = [] \<Longrightarrow>
     main_step c s (s\<lparr>pc := Finished, trace := trace s @ [Print (saved_msg (cfg_output c))]\<rparr>)"

fun is_final :: "main_pc \<Rightarrow> bool" where
  "is_final Finished = True"
| "is_final (Crashed e) = True"
| "is_final p = False"

text \<open>How far a state is from the end of \<open>main\<close>: the statements left, then the records
  the running loop has still to visit.\<close>

fun pc_rank :: "main_pc \<Rightarrow> nat" where
  "pc_rank AtLoad = 8"
| "pc_rank AtScore = 7"
| "pc_rank AtCluster = 6"
| "pc_rank AtDisplay = 5"
| "pc_rank AtReport = 4"
| "pc_rank AtOpen = 3"
| "pc_rank AtHeader = 2"
| "pc_rank AtRows = 1"
| "pc_rank Finished = 0"
| "pc_rank (Crashed e) = 0"

subsection \<open>The two scripts as configurations of the machine\<close>

text \<open>\<open>main()\<close> of \<open>artist_clustering.py\<close>, lines 92-116.\<close>

definition single_cfg :: "nat solver \<Rightarrow> csv_row list \<Rightarrow> (pyval \<times> pyval \<times> pyval) main_cfg" where
  "single_cfg solve file =
     \<lparr>cfg_file = file, cfg_output = ''clustered_artists.csv'',
      cfg_score_msg = ''Calculating distances to the ideal profile...'',
      cfg_score = (\<lambda>artist_data. case calculate_all_distances_w_io artist_data ideal_artist weights of
                                  (d, out) \<Rightarrow> (out, Inr d)),
      cfg_cluster = (\<lambda>artist_data. cluster_artists_single solve artist_data 5),
      cfg_report = report_line_w\<rparr>"

text \<open>\<open>main()\<close> of \<open>modified_artist_clustering.py\<close>, lines 140-164.\<close>

definition multi_cfg :: "(nat \<times> nat) solver \<Rightarrow> csv_row list \<Rightarrow> (pyval \<times> pyval) main_cfg" where
  "multi_cfg solve file =
     \<lparr>cfg_file = file, cfg_output = ''modified_clustered_artists.csv'',
      cfg_score_msg = ''Calculating distances to the ideal profiles...'',
      cfg_score = (\<lambda>artist_data. calculate_all_distances_io artist_data profiles),
      cfg_cluster = (\<lambda>artist_data. cluster_artists solve artist_data profiles),
      cfg_report = report_line\<rparr>"

subsection \<open>What a finished run has produced\<close>

text \<open>The big-step result of \<open>main\<close> for a configuration, as \<open>Report\<close> computes it.\<close>

definition main_outcome :: "'l main_cfg \<Rightarrow> py_error + 'l main_result" where
  "main_outcome c =
     err_bind (load_data (cfg_file c)) (\<lambda>artist_data.
       err_bind (snd (cfg_score c artist_data)) (\<lambda>artist_data.
         err_bind (cfg_cluster c artist_data) (write_results (cfg_report c))))"

fun report_lines :: "'l event list \<Rightarrow> 'l list" where
  "report_lines [] = []"
| "report_lines (Line l # ev) = l # report_lines ev"
| "report_lines (e # ev) = report_lines ev"

fun csv_lines :: "'l event list \<Rightarrow> pyval list list" where
  "csv_lines [] = []"
| "csv_lines (WriteRow vs # ev) = vs # csv_lines ev"
| "csv_lines (e # ev) = csv_lines ev"

text \<open>A final state read back as the result of \<open>main\<close>: the exception it raised, or the
  report lines, the writer's \<open>fieldnames\<close> and the rows it wrote after the header.\<close>

definition main_result_of :: "'l main_state \<Rightarrow> py_error + 'l main_result" where
  "main_result_of t =
     (case pc t of
        Crashed e \<Rightarrow> Inl e
      | _ \<Rightarrow> Inr (report_lines (trace t), csv_header t, tl (csv_lines (trace t))))"

definition is_warning :: "'l event \<Rightarrow> bool" where
  "is_warning ev = (case ev of NonNumeric f r \<Rightarrow> True | _ \<Rightarrow> False)"

text \<open>What the loops should print: one line per feature of the profile whose value on the
  record is not numeric, in the profile's order.\<close>

definition nonnumeric_warnings :: "row \<Rightarrow> profile \<Rightarrow> 'l event list" where
  "nonnumeric_warnings row prof =
     map (\<lambda>fi. NonNumeric (fst fi) row) (filter (\<lambda>fi. py_float (dict_get row (fst fi) (PInt 0)) = None) prof)"

text \<open>The warnings of one record in \<open>modified_artist_clustering.py\<close>: the \<open>k\<close>-th profile's
  warnings show the record annotated by the profiles before it.\<close>

definition annotate_warnings :: "cluster_cfg pydict \<Rightarrow> row \<Rightarrow> 'l event list" where
  "annotate_warnings ps row =
     concat (map (\<lambda>k. nonnumeric_warnings (annotate_row (take k ps) row) (profile (snd (ps ! k)))) [0..<length ps])"

subsection \<open>The printing loops compute the print-free results\<close>

lemma distance_loop_w_io_eq:
  "distance_loop_w_io row ws fis (d, out) = (distance_loop_w row ws fis d, out @ nonnumeric_warnings row fis)"
  by (induction fis arbitrary: d out)
     (auto simp: nonnumeric_warnings_def feature_term_w_def Let_def split: option.split)

lemma distance_loop_io_eq:
  "distance_loop_io row fis (d, out) = (distance_loop row fis d, out @ nonnumeric_warnings row fis)"
  by (induction fis arbitrary: d out)
     (auto simp: nonnumeric_warnings_def feature_term_def split: option.split)

lemma calculate_all_distances_w_io_eq:
  "calculate_all_distances_w_io data ideal ws =
     (calculate_all_distances_w data ideal ws, concat (map (\<lambda>row. nonnumeric_warnings row ideal) data))"
  by (induction data)
     (simp_all add: calculate_distance_w_io_def distance_loop_w_io_eq calculate_all_distances_w_def
        calculate_distance_w_def)

lemma annotate_row_io_eq:
  "annotate_row_io ps (row, out) = (annotate_row ps row, out @ annotate_warnings ps row)"
proof (induction ps arbitrary: row out)
  case Nil
  then show ?case by (simp add: annotate_warnings_def)
next
  case (Cons p ps)
  obtain n cd where p: "p = (n, cd)" by (cases p)
  let ?row' = "AList.update (distance_key n) (PFloat (calculate_distance row (profile cd))) row"
  have w: "annotate_warnings ((n, cd) # ps) row = nonnumeric_warnings row (profile cd) @ annotate_warnings ps ?row'"
    by (simp add: annotate_warnings_def upt_conv_Cons map_Suc_upt [symmetric] o_def del: upt_Suc)
  show ?case
    by (simp add: p w Cons.IH calculate_distance_io_def distance_loop_io_eq calculate_distance_def)
qed

lemma calculate_all_distances_io_eq:
  "calculate_all_distances_io data ps =
     (concat (map (annotate_warnings ps) data), calculate_all_distances data ps)"
proof -
  have rows: "annotate_rows_io ps data = (map (annotate_row ps) data, concat (map (annotate_warnings ps) data))"
    by (induction data) (simp_all add: annotate_row_io_eq)
  show ?thesis unfolding calculate_all_distances_io_def calculate_all_distances_def rows by simp
qed

subsection \<open>The machine: determinism, progress, termination\<close>

inductive_cases main_stepE: "main_step c s t"

lemma main_step_deterministic: "main_step c s t \<Longrightarrow> main_step c s u \<Longrightarrow> u = t"
  by (induction rule: main_step.induct) (erule main_stepE; simp)+

lemma main_final_stuck: "is_final (pc s) \<Longrightarrow> \<not> main_step c s t"
  by (auto elim: main_stepE)

lemma main_progress: "\<not> is_final (pc s) \<Longrightarrow> \<exists>t. main_step c s t"
proof (cases "pc s")
  case AtLoad
  then show ?thesis by (cases "load_data (cfg_file c)") (blast intro: main_step.intros)+
next
  case AtScore
  then show ?thesis by (cases "cfg_score c (artist_data s)" rule: prod.exhaust, rename_tac ev r, case_tac r)
      (blast intro: main_step.intros)+
next
  case AtCluster
  then show ?thesis by (cases "cfg_cluster c (artist_data s)") (blast intro: main_step.intros)+
next
  case AtReport
  then show ?thesis
    by (cases "pending s"; cases "cfg_report c (hd (pending s))") (auto intro: main_step.intros)
next
  case AtHeader
  then show ?thesis by (cases "csv_fieldnames (artist_data s)") (blast intro: main_step.intros)+
next
  case AtRows
  then show ?thesis
    by (cases "pending s"; cases "dict_writer_row (csv_header s) (hd (pending s))") (auto intro: main_step.intros)
qed (auto intro: main_step.intros)

lemma main_step_rank:
  "main_step c s t \<Longrightarrow>
     ((pc_rank (pc t), length (pending t)), (pc_rank (pc s), length (pending s))) \<in> less_than <*lex*> less_than"
  by (induction rule: main_step.induct) auto

theorem main_step_wf: "wf {(t, s). main_step c s t}"
proof (rule wf_subset)
  show "wf (inv_image (less_than <*lex*> less_than) (\<lambda>s. (pc_rank (pc s), length (pending s))))"
    by (intro wf_inv_image wf_lex_prod wf_less_than)
  show "{(t, s). main_step c s t}
          \<subseteq> inv_image (less_than <*lex*> less_than) (\<lambda>s. (pc_rank (pc s), length (pending s)))"
  proof (rule subsetI, clarify)
    fix t s
    assume "main_step c s t"
    then show "(t, s) \<in> inv_image (less_than <*lex*> less_than) (\<lambda>s. (pc_rank (pc s), length (pending s)))"
      unfolding in_inv_image by (rule main_step_rank)
  qed
qed

lemma main_reaches_final: "\<exists>t. (main_step c)\<^sup>*\<^sup>* s t \<and> is_final (pc t)"
  using main_step_wf [of c]
proof (induction s rule: wf_induct_rule)
  case (less s)
  show ?case
  proof (cases "is_final (pc s)")
    case True
    then show ?thesis by blast
  next
    case False
    then obtain t where st: "main_step c s t" using main_progress by blast
    then obtain u where "(main_step c)\<^sup>*\<^sup>* t u" and "is_final (pc u)" using less.IH by blast
    then show ?thesis using st by (blast intro: converse_rtranclp_into_rtranclp)
  qed
qed

lemma main_final_unique:
  assumes "(main_step c)\<^sup>*\<^sup>* s t" and "is_final (pc t)"
    and "(main_step c)\<^sup>*\<^sup>* s u" and "is_final (pc u)"
  shows "u = t"
  using assms(1,3,4)
proof (induction arbitrary: u rule: converse_rtranclp_induct)
  case base
  then show ?case using assms(2) main_final_stuck by (auto elim: converse_rtranclpE)
next
  case (step s s')
  show ?case
  proof (rule converse_rtranclpE [OF step.prems(1)])
    assume "s = u"
    then show ?thesis using step.prems(2) main_final_stuck step.hyps(1) by blast
  next
    fix s''
    assume "main_step c s s''" and "(main_step c)\<^sup>*\<^sup>* s'' u"
    moreover have "s'' = s'" using main_step_deterministic step.hyps(1) calculation(1) by blast
    ultimately show ?thesis using step.IH step.prems(2) by blast
  qed
qed

subsection \<open>Runs of main\<close>

lemma report_loop_ok:
  "pc s = AtReport \<Longrightarrow> pending s = rows \<Longrightarrow> err_map (cfg_report c) rows = Inr ls \<Longrightarrow>
     (main_step c)\<^sup>*\<^sup>* s (s\<lparr>pc := AtOpen, pending := [], trace := trace s @ map Line ls\<rparr>)"
proof (induction rows arbitrary: s ls)
  case Nil
  then show ?case using main_step.report_done [of s c] by (cases s) auto
next
  case (Cons r rows)
  then obtain l ls' where l: "cfg_report c r = Inr l" and ls': "err_map (cfg_report c) rows = Inr ls'"
    and ls: "ls = l # ls'" by auto
  let ?s' = "s\<lparr>pending := rows, trace := trace s @ [Line l]\<rparr>"
  have "main_step c s ?s'" using Cons.prems(1,2) l by (rule main_step.report_line)
  moreover have "(main_step c)\<^sup>*\<^sup>* ?s' (?s'\<lparr>pc := AtOpen, pending := [], trace := trace ?s' @ map Line ls'\<rparr>)"
    using Cons.prems(1) ls' by (intro Cons.IH) simp_all
  ultimately show ?case by (simp add: ls converse_rtranclp_into_rtranclp)
qed

lemma report_loop_error:
  "pc s = AtReport \<Longrightarrow> pending s = rows \<Longrightarrow> err_map (cfg_report c) rows = Inl e \<Longrightarrow>
     \<exists>t. (main_step c)\<^sup>*\<^sup>* s t \<and> pc t = Crashed e"
proof (induction rows arbitrary: s)
  case Nil
  then show ?case by simp
next
  case (Cons r rows)
  show ?case
  proof (cases "cfg_report c r")
    case (Inl e')
    then have "e' = e" using Cons.prems(3) by simp
    then have "main_step c s (s\<lparr>pc := Crashed e\<rparr>)" using Cons.prems(1,2) Inl by (intro main_step.report_error) simp_all
    then show ?thesis by (intro exI [where x = "s\<lparr>pc := Crashed e\<rparr>"]) auto
  next
    case (Inr l)
    let ?s' = "s\<lparr>pending := rows, trace := trace s @ [Line l]\<rparr>"
    have "main_step c s ?s'" using Cons.prems(1,2) Inr by (rule main_step.report_line)
    moreover obtain t where "(main_step c)\<^sup>*\<^sup>* ?s' t" and "pc t = Crashed e"
      using Cons.IH [of ?s'] Cons.prems Inr by (auto simp: err_bind_eq_Inl)
    ultimately show ?thesis by (blast intro: converse_rtranclp_into_rtranclp)
  qed
qed

lemma write_loop_ok:
  "pc s = AtRows \<Longrightarrow> pending s = rows \<Longrightarrow> write_csv (csv_header s) rows = Inr vss \<Longrightarrow>
     (main_step c)\<^sup>*\<^sup>* s (s\<lparr>pc := Finished, pending := [], trace := trace s @ map WriteRow vss @ [Print (saved_msg (cfg_output c))]\<rparr>)"
proof (induction rows arbitrary: s vss)
  case Nil
  then show ?case using main_step.saved [of s c] by (cases s) (auto simp: write_csv_def)
next
  case (Cons r rows)
  then obtain vs vss' where vs: "dict_writer_row (csv_header s) r = Inr vs"
    and vss': "write_csv (csv_header s) rows = Inr vss'" and vss: "vss = vs # vss'"
    by (auto simp: write_csv_def)
  let ?s' = "s\<lparr>pending := rows, trace := trace s @ [WriteRow vs]\<rparr>"
  have "main_step c s ?s'" using Cons.prems(1,2) vs by (rule main_step.write_row)
  moreover have "(main_step c)\<^sup>*\<^sup>* ?s'
      (?s'\<lparr>pc := Finished, pending := [], trace := trace ?s' @ map WriteRow vss' @ [Print (saved_msg (cfg_output c))]\<rparr>)"
    using Cons.prems(1) vss' by (intro Cons.IH) simp_all
  ultimately show ?case by (simp add: vss converse_rtranclp_into_rtranclp)
qed

lemma write_loop_error:
  "pc s = AtRows \<Longrightarrow> pending s = rows \<Longrightarrow> write_csv (csv_header s) rows = Inl e \<Longrightarrow>
     \<exists>t. (main_step c)\<^sup>*\<^sup>* s t \<and> pc t = Crashed e"
proof (induction rows arbitrary: s)
  case Nil
  then show ?case by (simp add: write_csv_def)
next
  case (Cons r rows)
  show ?case
  proof (cases "dict_writer_row (csv_header s) r")
    case (Inl e')
    then have "e' = e" using Cons.prems(3) by (simp add: write_csv_def)
    then have "main_step c s (s\<lparr>pc := Crashed e\<rparr>)" using Cons.prems(1,2) Inl by (intro main_step.write_error) simp_all
    then show ?thesis by (intro exI [where x = "s\<lparr>pc := Crashed e\<rparr>"]) auto
  next
    case (Inr vs)
    let ?s' = "s\<lparr>pending := rows, trace := trace s @ [WriteRow vs]\<rparr>"
    have "main_step c s ?s'" using Cons.prems(1,2) Inr by (rule main_step.write_row)
    moreover obtain t where "(main_step c)\<^sup>*\<^sup>* ?s' t" and "pc t = Crashed e"
      using Cons.IH [of ?s'] Cons.prems Inr by (auto simp: write_csv_def err_bind_eq_Inl)
    ultimately show ?thesis by (blast intro: converse_rtranclp_into_rtranclp)
  qed
qed

lemma main_run_score:
  assumes "load_data (cfg_file c) = Inr d0"
  shows "(main_step c)\<^sup>*\<^sup>* main_init
           (main_init\<lparr>pc := AtScore, artist_data := d0, trace := [Print ''Loading data...'']\<rparr>)"
proof -
  have "main_step c main_init (main_init\<lparr>pc := AtScore, artist_data := d0,
          trace := trace main_init @ [Print ''Loading data...'']\<rparr>)"
    by (rule main_step.load) (simp_all add: main_init_def assms)
  then show ?thesis by (simp add: main_init_def)
qed

lemma main_run_cluster:
  assumes "load_data (cfg_file c) = Inr d0" and "cfg_score c d0 = (ev, Inr d1)"
  shows "(main_step c)\<^sup>*\<^sup>* main_init
           (main_init\<lparr>pc := AtCluster, artist_data := d1,
              trace := [Print ''Loading data...'', Print (cfg_score_msg c)] @ ev\<rparr>)"
proof -
  let ?s = "main_init\<lparr>pc := AtScore, artist_data := d0, trace := [Print ''Loading data...'']\<rparr> :: 'a main_state"
  have "main_step c ?s (?s\<lparr>pc := AtCluster, artist_data := d1, trace := trace ?s @ Print (cfg_score_msg c) # ev\<rparr>)"
    by (rule main_step.score) (simp_all add: main_init_def assms(2))
  with main_run_score [OF assms(1)] show ?thesis by (simp add: main_init_def)
qed

lemma main_run_to_report:
  assumes "load_data (cfg_file c) = Inr d0" and "cfg_score c d0 = (ev, Inr d1)" and "cfg_cluster c d1 = Inr d2"
  shows "(main_step c)\<^sup>*\<^sup>* main_init
           (main_init\<lparr>pc := AtReport, artist_data := d2, pending := d2,
              trace := [Print ''Loading data...'', Print (cfg_score_msg c)] @ ev @
                [Print ''Clustering artists...'', Print ''Clustering complete. Displaying results:'']\<rparr>)"
proof -
  let ?s = "main_init\<lparr>pc := AtCluster, artist_data := d1,
              trace := [Print ''Loading data...'', Print (cfg_score_msg c)] @ ev\<rparr> :: 'a main_state"
  define s3 where "s3 = ?s\<lparr>pc := AtDisplay, artist_data := d2, trace := trace ?s @ [Print ''Clustering artists...'']\<rparr>"
  define s4 where "s4 = s3\<lparr>pc := AtReport, pending := artist_data s3,
                      trace := trace s3 @ [Print ''Clustering complete. Displaying results:'']\<rparr>"
  have "main_step c ?s s3" unfolding s3_def by (rule main_step.cluster) (simp_all add: main_init_def assms(3))
  moreover have "main_step c s3 s4" unfolding s4_def by (rule main_step.display) (simp add: s3_def)
  ultimately have "(main_step c)\<^sup>*\<^sup>* main_init s4"
    using main_run_cluster [OF assms(1,2)] by (meson rtranclp.rtrancl_into_rtrancl)
  then show ?thesis by (simp add: s4_def s3_def main_init_def)
qed

lemma main_run_to_rows:
  assumes "(main_step c)\<^sup>*\<^sup>* main_init s" and "pc s = AtReport" and "pending s = artist_data s"
    and "err_map (cfg_report c) (artist_data s) = Inr lines" and "csv_fieldnames (artist_data s) = Inr fs"
  shows "(main_step c)\<^sup>*\<^sup>* main_init
           (s\<lparr>pc := AtRows, pending := artist_data s, csv_header := fs,
              trace := trace s @ map Line lines @ [OpenFile (cfg_output c), WriteRow (map PStr fs)]\<rparr>)"
proof -
  define s5 where "s5 = s\<lparr>pc := AtOpen, pending := [], trace := trace s @ map Line lines\<rparr>"
  define s6 where "s6 = s5\<lparr>pc := AtHeader, trace := trace s5 @ [OpenFile (cfg_output c)]\<rparr>"
  define s7 where "s7 = s6\<lparr>pc := AtRows, pending := artist_data s6, csv_header := fs,
                      trace := trace s6 @ [WriteRow (map PStr fs)]\<rparr>"
  have "(main_step c)\<^sup>*\<^sup>* s s5" unfolding s5_def using assms(2-4) by (rule report_loop_ok)
  moreover have "main_step c s5 s6" unfolding s6_def by (rule main_step.open_file) (simp add: s5_def)
  moreover have "main_step c s6 s7" unfolding s7_def
    by (rule main_step.header) (simp_all add: s6_def s5_def assms(5))
  ultimately have "(main_step c)\<^sup>*\<^sup>* main_init s7"
    using assms(1) by (meson rtranclp.rtrancl_into_rtrancl rtranclp_trans)
  then show ?thesis by (simp add: s7_def s6_def s5_def)
qed

lemma main_run_ok:
  assumes "load_data (cfg_file c) = Inr d0" and "cfg_score c d0 = (ev, Inr d1)" and "cfg_cluster c d1 = Inr d2"
    and "err_map (cfg_report c) d2 = Inr lines" and "csv_fieldnames d2 = Inr fs" and "write_csv fs d2 = Inr vss"
  shows "(main_step c)\<^sup>*\<^sup>* main_init
           (main_init\<lparr>pc := Finished, artist_data := d2, pending := [], csv_header := fs,
              trace := [Print ''Loading data...'', Print (cfg_score_msg c)] @ ev @
                [Print ''Clustering artists...'', Print ''Clustering complete. Displaying results:''] @
                map Line lines @ [OpenFile (cfg_output c), WriteRow (map PStr fs)] @
                map WriteRow vss @ [Print (saved_msg (cfg_output c))]\<rparr>)"
proof -
  let ?s = "main_init\<lparr>pc := AtReport, artist_data := d2, pending := d2,
              trace := [Print ''Loading data...'', Print (cfg_score_msg c)] @ ev @
                [Print ''Clustering artists...'', Print ''Clustering complete. Displaying results:'']\<rparr> :: 'a main_state"
  let ?r = "?s\<lparr>pc := AtRows, pending := artist_data ?s, csv_header := fs,
              trace := trace ?s @ map Line lines @ [OpenFile (cfg_output c), WriteRow (map PStr fs)]\<rparr>"
  have r1: "(main_step c)\<^sup>*\<^sup>* main_init ?r"
    using main_run_to_report [OF assms(1-3)] assms(4,5) by (intro main_run_to_rows) simp_all
  have r2: "(main_step c)\<^sup>*\<^sup>* ?r
      (?r\<lparr>pc := Finished, pending := [], trace := trace ?r @ map WriteRow vss @ [Print (saved_msg (cfg_output c))]\<rparr>)"
    using assms(6) by (intro write_loop_ok) simp_all
  have eq: "?r\<lparr>pc := Finished, pending := [], trace := trace ?r @ map WriteRow vss @ [Print (saved_msg (cfg_output c))]\<rparr> =
           main_init\<lparr>pc := Finished, artist_data := d2, pending := [], csv_header := fs,
              trace := [Print ''Loading data...'', Print (cfg_score_msg c)] @ ev @
                [Print ''Clustering artists...'', Print ''Clustering complete. Displaying results:''] @
                map Line lines @ [OpenFile (cfg_output c), WriteRow (map PStr fs)] @
                map WriteRow vss @ [Print (saved_msg (cfg_output c))]\<rparr>"
    by (simp add: main_init_def)
  show ?thesis unfolding eq [symmetric] by (rule rtranclp_trans [OF r1 r2])
qed

lemma main_run_header_error:
  assumes "load_data (cfg_file c) = Inr d0" and "cfg_score c d0 = (ev, Inr d1)" and "cfg_cluster c d1 = Inr d2"
    and "err_map (cfg_report c) d2 = Inr lines" and "csv_fieldnames d2 = Inl e"
  shows "(main_step c)\<^sup>*\<^sup>* main_init
           (main_init\<lparr>pc := Crashed e, artist_data := d2, pending := [],
              trace := [Print ''Loading data...'', Print (cfg_score_msg c)] @ ev @
                [Print ''Clustering artists...'', Print ''Clustering complete. Displaying results:''] @
                map Line lines @ [OpenFile (cfg_output c)]\<rparr>)"
proof -
  let ?s = "main_init\<lparr>pc := AtReport, artist_data := d2, pending := d2,
              trace := [Print ''Loading data...'', Print (cfg_score_msg c)] @ ev @
                [Print ''Clustering artists...'', Print ''Clustering complete. Displaying results:'']\<rparr> :: 'a main_state"
  define s5 where "s5 = ?s\<lparr>pc := AtOpen, pending := [], trace := trace ?s @ map Line lines\<rparr>"
  define s6 where "s6 = s5\<lparr>pc := AtHeader, trace := trace s5 @ [OpenFile (cfg_output c)]\<rparr>"
  have "(main_step c)\<^sup>*\<^sup>* main_init ?s" by (rule main_run_to_report [OF assms(1-3)])
  moreover have "(main_step c)\<^sup>*\<^sup>* ?s s5" unfolding s5_def using assms(4) by (intro report_loop_ok) simp_all
  moreover have "main_step c s5 s6" unfolding s6_def by (rule main_step.open_file) (simp add: s5_def)
  moreover have "main_step c s6 (s6\<lparr>pc := Crashed e\<rparr>)"
    by (rule main_step.header_error) (simp_all add: s6_def s5_def assms(5))
  ultimately have "(main_step c)\<^sup>*\<^sup>* main_init (s6\<lparr>pc := Crashed e\<rparr>)"
    by (meson rtranclp.rtrancl_into_rtrancl rtranclp_trans)
  then show ?thesis by (simp add: s6_def s5_def main_init_def)
qed

lemma report_lines_append [simp]: "report_lines (xs @ ys) = report_lines xs @ report_lines ys"
  by (induction xs rule: report_lines.induct) simp_all

lemma csv_lines_append [simp]: "csv_lines (xs @ ys) = csv_lines xs @ csv_lines ys"
  by (induction xs rule: csv_lines.induct) simp_all

lemma report_lines_warnings: "list_all is_warning ev \<Longrightarrow> report_lines ev = []"
  by (induction ev rule: report_lines.induct) (simp_all add: is_warning_def)

lemma csv_lines_warnings: "list_all is_warning ev \<Longrightarrow> csv_lines ev = []"
  by (induction ev rule: csv_lines.induct) (simp_all add: is_warning_def)

lemma report_lines_map [simp]: "report_lines (map Line ls) = ls" "report_lines (map WriteRow vss) = []"
  by (induction ls) (simp_all, induction vss, simp_all)

lemma csv_lines_map [simp]: "csv_lines (map Line ls) = []" "csv_lines (map WriteRow vss) = vss"
  by (induction ls) (simp_all, induction vss, simp_all)

lemma main_run_crashed:
  assumes "(main_step c)\<^sup>*\<^sup>* main_init t" and "pc t = Crashed e" and "main_outcome c = Inl e"
  shows "\<exists>t. (main_step c)\<^sup>*\<^sup>* main_init t \<and> is_final (pc t) \<and> main_result_of t = main_outcome c"
  using assms by (intro exI [where x = t]) (simp add: main_result_of_def)

lemma main_run_exists:
  assumes quiet: "\<And>d. list_all is_warning (fst (cfg_score c d))"
  shows "\<exists>t. (main_step c)\<^sup>*\<^sup>* main_init t \<and> is_final (pc t) \<and> main_result_of t = main_outcome c"
proof (cases "load_data (cfg_file c)")
  case (Inl e)
  have "main_step c main_init (main_init\<lparr>pc := Crashed e, trace := trace main_init @ [Print ''Loading data...'']\<rparr>)"
    by (rule main_step.load_error) (simp_all add: main_init_def Inl)
  then show ?thesis by (rule main_run_crashed [OF r_into_rtranclp]) (simp_all add: main_outcome_def Inl)
next
  case (Inr d0)
  obtain ev r where sc: "cfg_score c d0 = (ev, r)" by fastforce
  have ev: "list_all is_warning ev" using quiet [of d0] sc by simp
  show ?thesis
  proof (cases r)
    case (Inl e)
    let ?s = "main_init\<lparr>pc := AtScore, artist_data := d0, trace := [Print ''Loading data...'']\<rparr>"
    have "main_step c ?s (?s\<lparr>pc := Crashed e, trace := trace ?s @ Print (cfg_score_msg c) # ev\<rparr>)"
      by (rule main_step.score_error) (simp_all add: main_init_def sc Inl)
    with main_run_score [OF Inr] show ?thesis
      by (rule main_run_crashed [OF rtranclp.rtrancl_into_rtrancl]) (simp_all add: main_outcome_def Inr sc Inl)
  next
    case (Inr d1)
    note sc = sc [unfolded Inr]
    show ?thesis
    proof (cases "cfg_cluster c d1")
      case (Inl e)
      let ?s = "main_init\<lparr>pc := AtCluster, artist_data := d1,
                  trace := [Print ''Loading data...'', Print (cfg_score_msg c)] @ ev\<rparr>"
      have "main_step c ?s (?s\<lparr>pc := Crashed e, trace := trace ?s @ [Print ''Clustering artists...'']\<rparr>)"
        by (rule main_step.cluster_error) (simp_all add: main_init_def Inl)
      with main_run_cluster [OF \<open>load_data (cfg_file c) = Inr d0\<close> sc] show ?thesis
        by (rule main_run_crashed [OF rtranclp.rtrancl_into_rtrancl])
           (simp_all add: main_outcome_def \<open>load_data (cfg_file c) = Inr d0\<close> sc Inl)
    next
      case (Inr d2)
      note pre = \<open>load_data (cfg_file c) = Inr d0\<close> sc Inr
      show ?thesis
      proof (cases "err_map (cfg_report c) d2")
        case (Inl e)
        let ?r = "main_init\<lparr>pc := AtReport, artist_data := d2, pending := d2,
              trace := [Print ''Loading data...'', Print (cfg_score_msg c)] @ ev @
                [Print ''Clustering artists...'', Print ''Clustering complete. Displaying results:'']\<rparr>"
        have "\<exists>t. (main_step c)\<^sup>*\<^sup>* ?r t \<and> pc t = Crashed e"
          by (rule report_loop_error) (simp, simp, simp add: Inl)
        then obtain t where "(main_step c)\<^sup>*\<^sup>* ?r t" and "pc t = Crashed e" by blast
        with main_run_to_report [OF pre] show ?thesis
          by (intro main_run_crashed [OF rtranclp_trans]) (simp_all add: main_outcome_def pre Inl write_results_def)
      next
        case (Inr lines)
        show ?thesis
        proof (cases "csv_fieldnames d2")
          case (Inl e)
          show ?thesis
            by (rule main_run_crashed [OF main_run_header_error [OF pre \<open>err_map (cfg_report c) d2 = Inr lines\<close> Inl]])
               (simp_all add: main_outcome_def pre Inl \<open>err_map (cfg_report c) d2 = Inr lines\<close> write_results_def)
        next
          case (Inr fs)
          note rep = \<open>err_map (cfg_report c) d2 = Inr lines\<close> Inr
          show ?thesis
          proof (cases "write_csv fs d2")
            case (Inl e)
            let ?r = "main_init\<lparr>pc := AtReport, artist_data := d2, pending := d2,
              trace := [Print ''Loading data...'', Print (cfg_score_msg c)] @ ev @
                [Print ''Clustering artists...'', Print ''Clustering complete. Displaying results:'']\<rparr>"
            have "(main_step c)\<^sup>*\<^sup>* main_init
                    (?r\<lparr>pc := AtRows, pending := artist_data ?r, csv_header := fs,
                      trace := trace ?r @ map Line lines @ [OpenFile (cfg_output c), WriteRow (map PStr fs)]\<rparr>)"
              using main_run_to_report [OF pre] rep by (intro main_run_to_rows) simp_all
            moreover have "\<exists>t. (main_step c)\<^sup>*\<^sup>*
                    (?r\<lparr>pc := AtRows, pending := artist_data ?r, csv_header := fs,
                      trace := trace ?r @ map Line lines @ [OpenFile (cfg_output c), WriteRow (map PStr fs)]\<rparr>) t
                \<and> pc t = Crashed e"
              by (rule write_loop_error) (simp, simp, simp add: Inl)
            then obtain t where "(main_step c)\<^sup>*\<^sup>*
                    (?r\<lparr>pc := AtRows, pending := artist_data ?r, csv_header := fs,
                      trace := trace ?r @ map Line lines @ [OpenFile (cfg_output c), WriteRow (map PStr fs)]\<rparr>) t"
                and "pc t = Crashed e" by blast
            ultimately show ?thesis
              by (intro main_run_crashed [OF rtranclp_trans]) (simp_all add: main_outcome_def pre rep Inl write_results_def)
          next
            case (Inr vss)
            show ?thesis
              by (rule exI, rule conjI [OF main_run_ok [OF pre rep Inr]])
                 (simp add: main_result_of_def main_outcome_def pre rep Inr write_results_def
                    report_lines_warnings [OF ev] csv_lines_warnings [OF ev])
          qed
        qed
      qed
    qed
  qed
qed


lemma main_run_outcome:
  assumes "(main_step c)\<^sup>*\<^sup>* main_init t" and "is_final (pc t)"
    and "\<And>d. list_all is_warning (fst (cfg_score c d))"
  shows "main_result_of t = main_outcome c"
proof -
  obtain u where "(main_step c)\<^sup>*\<^sup>* main_init u" and "is_final (pc u)" and "main_result_of u = main_outcome c"
    using main_run_exists [OF assms(3)] by blast
  moreover have "t = u" using main_final_unique [OF calculation(1,2) assms(1,2)] .
  ultimately show ?thesis by simp
qed

lemma main_step_finished: "main_step c s t \<Longrightarrow> pc t = Finished \<Longrightarrow> last (trace t) = Print (saved_msg (cfg_output c))"
  by (induction rule: main_step.induct) simp_all

lemma main_run_finished:
  assumes "(main_step c)\<^sup>*\<^sup>* main_init t" and "pc t = Finished"
  shows "last (trace t) = Print (saved_msg (cfg_output c))"
  using assms(1)
proof (cases rule: rtranclp.cases)
  case rtrancl_refl
  then show ?thesis using assms(2) by (simp add: main_init_def)
next
  case (rtrancl_into_rtrancl u)
  then show ?thesis using assms(2) by (blast intro: main_step_finished)
qed

lemma main_run_Inr:
  assumes "main_outcome c = Inr r" and "\<And>d. list_all is_warning (fst (cfg_score c d))"
  shows "\<exists>t. (main_step c)\<^sup>*\<^sup>* main_init t \<and> pc t = Finished \<and> last (trace t) = Print (saved_msg (cfg_output c)) \<and>
           main_result_of t = Inr r"
proof -
  obtain t where run: "(main_step c)\<^sup>*\<^sup>* main_init t" and fin: "is_final (pc t)"
    and res: "main_result_of t = Inr r"
    using main_run_exists [OF assms(2)] assms(1) by auto
  then have "pc t = Finished" by (cases "pc t") (simp_all add: main_result_of_def)
  then show ?thesis using run res main_run_finished [OF run] by blast
qed

lemma warnings_quiet: "ev \<in> set (nonnumeric_warnings row prof) \<Longrightarrow> is_warning ev"
  by (auto simp: nonnumeric_warnings_def is_warning_def)

lemma single_cfg_quiet: "list_all is_warning (fst (cfg_score (single_cfg solve rows) d))"
  by (auto simp: single_cfg_def calculate_all_distances_w_io_eq list_all_iff dest: warnings_quiet)

lemma multi_cfg_quiet: "list_all is_warning (fst (cfg_score (multi_cfg solve rows) d))"
  by (auto simp: multi_cfg_def calculate_all_distances_io_eq annotate_warnings_def list_all_iff
      dest: warnings_quiet)

lemma cfg_fields [simp]:
  "cfg_output (single_cfg solve rows) = ''clustered_artists.csv''"
  "cfg_output (multi_cfg solve2 rows) = ''modified_clustered_artists.csv''"
  "cfg_score_msg (multi_cfg solve2 rows) = ''Calculating distances to the ideal profiles...''"
  by (simp_all add: single_cfg_def multi_cfg_def)

lemma single_cfg_outcome: "main_outcome (single_cfg solve rows) = main_single solve rows"
  by (simp add: main_outcome_def single_cfg_def main_single_def calculate_all_distances_w_io_eq)

lemma multi_cfg_outcome: "main_outcome (multi_cfg solve rows) = main_multi solve rows"
  by (simp add: main_outcome_def multi_cfg_def main_multi_def calculate_all_distances_io_eq)


subsection \<open>Properties of the runs of main\<close>

lemma empty_data_steps:
  "cluster_artists_single solve [] k = Inr []"
  "calculate_all_distances [] profiles = Inr []"
  "cluster_artists solve2 [] profiles = Inr []"
  by (simp_all add: cluster_artists_single_def build_ready_model_def ready_obj_def
      calculate_all_distances_def normalize_distances_def profiles_def normalize_column_def
      divide_column_def cluster_artists_def build_model_def Let_def obj_terms_def cluster_vars_def
      assign_clusters_def min_artists_def)

lemma main_empty_runs:
  "(main_step (single_cfg solve1 []))\<^sup>*\<^sup>* main_init
     (main_init\<lparr>pc := Crashed IndexError,
        trace := [Print ''Loading data...'', Print ''Calculating distances to the ideal profile...'',
                  Print ''Clustering artists...'', Print ''Clustering complete. Displaying results:'',
                  OpenFile ''clustered_artists.csv'']\<rparr>)"
  "(main_step (multi_cfg solve2 []))\<^sup>*\<^sup>* main_init
     (main_init\<lparr>pc := Crashed IndexError,
        trace := [Print ''Loading data...'', Print ''Calculating distances to the ideal profiles...'',
                  Print ''Clustering artists...'', Print ''Clustering complete. Displaying results:'',
                  OpenFile ''modified_clustered_artists.csv'']\<rparr>)"
proof -
  have ld: "load_data [] = Inr []" and fn: "csv_fieldnames [] = Inl IndexError"
    by (simp_all add: load_data_def csv_fieldnames_def)
  have "cfg_score (single_cfg solve1 []) [] = ([], Inr [])"
    by (simp add: single_cfg_def calculate_all_distances_w_io_eq calculate_all_distances_w_def)
  from main_run_header_error [of "single_cfg solve1 []", OF _ this _ _ fn] ld
  show "(main_step (single_cfg solve1 []))\<^sup>*\<^sup>* main_init
     (main_init\<lparr>pc := Crashed IndexError,
        trace := [Print ''Loading data...'', Print ''Calculating distances to the ideal profile...'',
                  Print ''Clustering artists...'', Print ''Clustering complete. Displaying results:'',
                  OpenFile ''clustered_artists.csv'']\<rparr>)"
    by (simp add: single_cfg_def empty_data_steps main_init_def)
  have "cfg_score (multi_cfg solve2 []) [] = ([], Inr [])"
    by (simp add: multi_cfg_def calculate_all_distances_io_eq empty_data_steps)
  from main_run_header_error [of "multi_cfg solve2 []", OF _ this _ _ fn] ld
  show "(main_step (multi_cfg solve2 []))\<^sup>*\<^sup>* main_init
     (main_init\<lparr>pc := Crashed IndexError,
        trace := [Print ''Loading data...'', Print ''Calculating distances to the ideal profiles...'',
                  Print ''Clustering artists...'', Print ''Clustering complete. Displaying results:'',
                  OpenFile ''modified_clustered_artists.csv'']\<rparr>)"
    by (simp add: multi_cfg_def empty_data_steps main_init_def)
qed


text \<open>The statement-level machine simulates the big-step model of \<open>Report\<close>: the final
  state of a run of either script's \<open>main\<close>, read back as the exception raised or the
  report lines, CSV header and CSV rows written, is what \<open>main_single\<close> and
  \<open>main_multi\<close> compute.\<close>

lemma main_refines_big_step:
  assumes "(main_step (single_cfg solve1 rows1))\<^sup>*\<^sup>* main_init t1" and "is_final (pc t1)"
    and "(main_step (multi_cfg solve2 rows2))\<^sup>*\<^sup>* main_init t2" and "is_final (pc t2)"
  shows "main_result_of t1 = main_single solve1 rows1 \<and> main_result_of t2 = main_multi solve2 rows2"
  using main_run_outcome [OF assms(1,2) single_cfg_quiet] main_run_outcome [OF assms(3,4) multi_cfg_quiet]
  by (simp add: single_cfg_outcome multi_cfg_outcome)

text \<open>Claim C18: the distance loops with their \<open>print\<close> calls compute exactly the
  records of the print-free model, and print one \<open>Non-numeric value\<close> line per record and
  profile feature whose value is not numeric; in \<open>modified_artist_clustering.py\<close> the
  line for the \<open>k\<close>-th profile shows the record already carrying the distances of the
  profiles before it, so every anomaly is reported once per profile.\<close>

theorem distance_prints_agree:
  "calculate_all_distances_w_io data ideal ws =
     (calculate_all_distances_w data ideal ws, concat (map (\<lambda>row. nonnumeric_warnings row ideal) data)) \<and>
   calculate_all_distances_io data ps =
     (concat (map (annotate_warnings ps) data), calculate_all_distances data ps)"
  by (simp add: calculate_all_distances_w_io_eq calculate_all_distances_io_eq)

text \<open>Claim C15: liveness of \<open>artist_clustering.py\<close>: with an exact solver, on a
  file of at least five records with a common header and no short line, the run of
  \<open>main\<close> reaches its end, printing \<open>Results saved to 'clustered_artists.csv'.\<close> last,
  after one report line per record (at least five Ready) and one CSV row per record under
  the header of the input columns, \<open>Distance_to_Ideal\<close>, \<open>Cluster\<close>.\<close>

theorem main_single_run_finishes:
  assumes rows: "\<forall>r \<in> set rows. dict_keys r = ks \<and> NoCell \<notin> snd ` set r"
    and cl: "''Cluster'' \<notin> set ks" and di: "''Distance_to_Ideal'' \<notin> set ks" and n: "5 \<le> length rows"
  shows "\<exists>t. (main_step (single_cfg solve_enum rows))\<^sup>*\<^sup>* main_init t \<and> pc t = Finished \<and>
           last (trace t) = Print (saved_msg ''clustered_artists.csv'') \<and>
           csv_header t = ks @ [''Distance_to_Ideal'', ''Cluster''] \<and>
           length (report_lines (trace t)) = length rows \<and> length (tl (csv_lines (trace t))) = length rows \<and>
           5 \<le> length (filter (\<lambda>l. snd (snd l) = PStr ''Ready'') (report_lines (trace t)))"
proof -
  obtain lines csv where m: "main_single solve_enum rows = Inr (lines, ks @ [''Distance_to_Ideal'', ''Cluster''], csv)"
    and l: "length lines = length rows" "length csv = length rows"
    and r: "5 \<le> length (filter (\<lambda>l. snd (snd l) = PStr ''Ready'') lines)"
    using main_single_exact [OF rows cl di n] by blast
  obtain t where "(main_step (single_cfg solve_enum rows))\<^sup>*\<^sup>* main_init t" and "pc t = Finished"
    and "last (trace t) = Print (saved_msg ''clustered_artists.csv'')"
    and "main_result_of t = Inr (lines, ks @ [''Distance_to_Ideal'', ''Cluster''], csv)"
    using main_run_Inr [OF _ single_cfg_quiet] m by (simp add: single_cfg_outcome) blast
  then show ?thesis using l r by (auto simp: main_result_of_def)
qed

theorem main_single_run_finishes_witness:
  "\<exists>t. (main_step (single_cfg solve_enum sample_csv5))\<^sup>*\<^sup>* main_init t \<and> pc t = Finished \<and>
     last (trace t) = Print (saved_msg ''clustered_artists.csv'') \<and>
     csv_header t = [''Artist Name'', ''Spotify Following'', ''Distance_to_Ideal'', ''Cluster''] \<and>
     length (report_lines (trace t)) = 5 \<and> length (tl (csv_lines (trace t))) = 5 \<and>
     5 \<le> length (filter (\<lambda>l. snd (snd l) = PStr ''Ready'') (report_lines (trace t)))"
proof -
  have "\<forall>r \<in> set sample_csv5. dict_keys r = [''Artist Name'', ''Spotify Following''] \<and> NoCell \<notin> snd ` set r"
    and "''Cluster'' \<notin> set [''Artist Name'', ''Spotify Following'']"
    and "''Distance_to_Ideal'' \<notin> set [''Artist Name'', ''Spotify Following'']"
    and "5 \<le> length sample_csv5"
    by (simp_all add: sample_csv5_def)
  note m = main_single_run_finishes [OF this]
  have keys: "[''Artist Name'', ''Spotify Following''] @ [''Distance_to_Ideal'', ''Cluster''] =
      [''Artist Name'', ''Spotify Following'', ''Distance_to_Ideal'', ''Cluster'']" by simp
  have len: "length sample_csv5 = 5" by (simp add: sample_csv5_def)
  show ?thesis using m unfolding keys len .
qed



text \<open>Claim C16: with an exact solver, on a file of at least three
  records with a common header and no short line, the run of \<open>main\<close> of
  \<open>modified_artist_clustering.py\<close> either crashes with \<open>ZeroDivisionError\<close> while scoring,
  before \<open>Clustering artists...\<close> is printed and before \<open>modified_clustered_artists.csv\<close> is opened
  (a previous result file survives), or reaches its end: \<open>Results saved\<close> printed last,
  one report line per record naming a registered cluster, and one CSV row per record
  under the input columns, the three distance columns and \<open>Cluster\<close>.\<close>

theorem main_multi_run_outcome:
  assumes rows: "\<forall>r \<in> set rows. dict_keys r = ks \<and> NoCell \<notin> snd ` set r"
    and cl: "''Cluster'' \<notin> set ks" and dk: "\<forall>n \<in> set (dict_keys profiles). distance_key n \<notin> set ks"
    and n: "3 \<le> length rows"
  shows "\<exists>t. (main_step (multi_cfg solve_enum rows))\<^sup>*\<^sup>* main_init t \<and>
           ((pc t = Crashed ZeroDivisionError \<and> OpenFile ''modified_clustered_artists.csv'' \<notin> set (trace t) \<and>
             Print ''Clustering artists...'' \<notin> set (trace t)) \<or>
            (pc t = Finished \<and> last (trace t) = Print (saved_msg ''modified_clustered_artists.csv'') \<and>
             csv_header t = ks @ map distance_key (dict_keys profiles) @ [''Cluster''] \<and>
             length (report_lines (trace t)) = length rows \<and> length (tl (csv_lines (trace t))) = length rows \<and>
             list_all (\<lambda>l. snd l \<in> PStr ` set (dict_keys profiles)) (report_lines (trace t))))"
proof -
  obtain data where ld: "load_data rows = Inr data" using load_data_uniform [OF rows] by blast
  show ?thesis
  proof (cases "calculate_all_distances data profiles")
    case (Inl e)
    then have e: "e = ZeroDivisionError" by (rule calculate_all_distances_Inl [OF profiles_wf])
    let ?ev = "concat (map (annotate_warnings profiles) data) :: (pyval \<times> pyval) event list"
    let ?s = "main_init\<lparr>pc := AtScore, artist_data := data, trace := [Print ''Loading data...'']\<rparr>
                :: (pyval \<times> pyval) main_state"
    have sc: "cfg_score (multi_cfg solve_enum rows) data = (?ev, Inl ZeroDivisionError)"
      using Inl e by (simp add: multi_cfg_def calculate_all_distances_io_eq)
    let ?t = "?s\<lparr>pc := Crashed ZeroDivisionError,
                trace := trace ?s @ Print (cfg_score_msg (multi_cfg solve_enum rows)) # ?ev\<rparr>"
    have step: "main_step (multi_cfg solve_enum rows) ?s ?t"
      by (rule main_step.score_error) (simp_all add: main_init_def sc)
    have run: "(main_step (multi_cfg solve_enum rows))\<^sup>*\<^sup>* main_init ?s"
      using ld by (intro main_run_score) (simp add: multi_cfg_def)
    have "OpenFile ''modified_clustered_artists.csv'' \<notin> set ?ev" and "Print ''Clustering artists...'' \<notin> set ?ev"
    proof -
      have q: "\<forall>x \<in> set ?ev. is_warning x"
        using multi_cfg_quiet [of solve_enum rows data] unfolding sc fst_conv list_all_iff .
      have "\<not> is_warning (OpenFile ''modified_clustered_artists.csv'' :: (pyval \<times> pyval) event)"
        and "\<not> is_warning (Print ''Clustering artists...'' :: (pyval \<times> pyval) event)"
        by (simp_all add: is_warning_def)
      then show "OpenFile ''modified_clustered_artists.csv'' \<notin> set ?ev" and "Print ''Clustering artists...'' \<notin> set ?ev"
        using q by blast+
    qed
    note n = this
    have msg: "cfg_score_msg (multi_cfg solve_enum rows) = ''Calculating distances to the ideal profiles...''"
      by (simp add: multi_cfg_def)
    have tr: "trace ?t = Print ''Loading data...'' # Print ''Calculating distances to the ideal profiles...'' # ?ev"
      by (simp add: msg)
    have o: "OpenFile ''modified_clustered_artists.csv'' \<notin> set (trace ?t)"
      and p: "Print ''Clustering artists...'' \<notin> set (trace ?t)"
      unfolding tr list.set insert_iff using n by simp_all
    have c: "pc ?t = Crashed ZeroDivisionError" by simp
    from run step have r: "(main_step (multi_cfg solve_enum rows))\<^sup>*\<^sup>* main_init ?t"
      by (rule rtranclp.rtrancl_into_rtrancl)
    show ?thesis by (rule exI [where x = ?t], rule conjI [OF r], rule disjI1, intro conjI c o p)
  next
    case (Inr D)
    obtain lines csv where m: "main_multi solve_enum rows =
        Inr (lines, ks @ map distance_key (dict_keys profiles) @ [''Cluster''], csv)"
      and l: "length lines = length rows" "length csv = length rows"
      and lab: "list_all (\<lambda>l. snd l \<in> PStr ` set (dict_keys profiles)) lines"
      using main_multi_scored [OF rows cl dk n ld Inr] by blast
    obtain t where "(main_step (multi_cfg solve_enum rows))\<^sup>*\<^sup>* main_init t" and "pc t = Finished"
      and "last (trace t) = Print (saved_msg ''modified_clustered_artists.csv'')"
      and "main_result_of t = Inr (lines, ks @ map distance_key (dict_keys profiles) @ [''Cluster''], csv)"
      using main_run_Inr [OF _ multi_cfg_quiet] m by (simp add: multi_cfg_outcome) blast
    then show ?thesis using l lab by (auto simp: main_result_of_def)
  qed
qed

theorem main_multi_run_outcome_witness:
  "\<exists>t. (main_step (multi_cfg solve_enum sample_csv5))\<^sup>*\<^sup>* main_init t \<and>
     ((pc t = Crashed ZeroDivisionError \<and> OpenFile ''modified_clustered_artists.csv'' \<notin> set (trace t) \<and>
       Print ''Clustering artists...'' \<notin> set (trace t)) \<or>
      (pc t = Finished \<and> last (trace t) = Print (saved_msg ''modified_clustered_artists.csv'') \<and>
       csv_header t = [''Artist Name'', ''Spotify Following'', ''Distance_to_Ready'', ''Distance_to_Potential'',
                       ''Distance_to_Not Ready'', ''Cluster''] \<and>
       length (report_lines (trace t)) = 5 \<and> length (tl (csv_lines (trace t))) = 5 \<and>
       list_all (\<lambda>l. snd l \<in> PStr ` set (dict_keys profiles)) (report_lines (trace t))))"
proof -
  have "\<forall>r \<in> set sample_csv5. dict_keys r = [''Artist Name'', ''Spotify Following''] \<and> NoCell \<notin> snd ` set r"
    and "''Cluster'' \<notin> set [''Artist Name'', ''Spotify Following'']"
    and "\<forall>n \<in> set (dict_keys profiles). distance_key n \<notin> set [''Artist Name'', ''Spotify Following'']"
    and "3 \<le> length sample_csv5"
    by (simp_all add: sample_csv5_def profiles_def distance_key_def)
  note m = main_multi_run_outcome [OF this]
  have keys: "[''Artist Name'', ''Spotify Following''] @ map distance_key (dict_keys profiles) @ [''Cluster''] =
      [''Artist Name'', ''Spotify Following'', ''Distance_to_Ready'', ''Distance_to_Potential'',
       ''Distance_to_Not Ready'', ''Cluster'']"
    by (simp add: profiles_def distance_key_def)
  have len: "length sample_csv5 = 5" by (simp add: sample_csv5_def)
  show ?thesis using m unfolding keys len .
qed

end
