(* ===== verification/Spec2Isabelle.thy ===== *)
theory Spec2Isabelle
  imports Workflow
begin

text \<open>
  \<^bold>\<open>Artist clustering, verified.\<close>
  The repository holds two versions of a script that sorts music artists into
  development stages. \<open>src/artist_clustering.py\<close> scores every artist by a weighted
  Manhattan distance to one ideal profile and asks Gurobi for at least five "Ready"
  artists of least total distance, every other artist being "Not Ready".
  \<open>src/modified_artist_clustering.py\<close> scores every record against three profiles
  Ready / Potential / Not Ready (\<open>calculate_distance\<close>, \<open>calculate_all_distances\<close>),
  divides each distance column by its maximum (\<open>normalize_distances\<close>), then builds a
  0/1 program that gives every artist exactly one cluster and every cluster at least
  \<open>max(1, n // k)\<close> artists, charging the normalised distance plus a penalty of 10 for
  Not Ready (\<open>cluster_artists\<close>). Both read the labels back from the solution into the
  record field \<open>Cluster\<close>. Records flow \<open>load_data\<close> \<open>\<rightarrow>\<close> distances \<open>\<rightarrow>\<close>
  (normalisation) \<open>\<rightarrow>\<close> \<open>cluster_artists\<close> \<open>\<rightarrow>\<close> \<open>main\<close>'s report and CSV writer.

  \<^bold>\<open>Theories.\<close>
  \<^item> \<open>Prelude\<close>: records as association lists (a Python dict in insertion order,
    written by \<open>AList.update\<close>), stored values \<open>pyval\<close>, exceptions \<open>py_error\<close> and the
    result type \<open>py_error + 'a\<close>; \<open>err_fold\<close> and \<open>err_map\<close> are a \<open>for\<close> loop and a list
    comprehension whose body may raise; \<open>d.get\<close>, \<open>d[k]\<close>, \<open>d.keys()\<close>; generic lemmas on
    sums and counts shared by both assignment theories.
  \<^item> \<open>PyFloat\<close>: \<open>float(x)\<close> on strings by the grammar of the Python documentation
    (whitespace, sign, \<open>number\<close>, exponent, and \<open>digitpart\<close> with the single underscores
    of PEP 515) and on stored values, \<open>str.isdigit\<close>, \<open>str.replace(c, '', 1)\<close>, and
    \<open>str(n)\<close>. \<open>Loader\<close> proves that a field such as \<open>1_000\<close> is kept as a string by
    \<open>load_data\<close> and read as its number by \<open>calculate_distance\<close>.
  \<^item> \<open>Loader\<close>: \<open>load_data\<close> (lines 5-17 of both scripts) from the rows \<open>csv.DictReader\<close>
    yields (\<open>csv_cell\<close>: a string, or \<open>None\<close> for a missing field): \<open>coerce_str\<close> is the
    body \<open>float(s) if s.replace('.', '', 1).isdigit() else s\<close> with its \<open>except\<close> branch,
    \<open>coerce_cell\<close> adds the \<open>AttributeError\<close> of \<open>None.replace\<close>, \<open>load_row\<close> the loop
    over the fields. Its lemmas show the values stored are strings or non-negative
    floats (the \<open>except\<close> branch is dead on ASCII input), \<open>str(n)\<close> loads as \<open>n\<close>, the
    field order is kept, a short line aborts the load, and the coercion never changes
    a distance computed later.
  \<^item> \<open>Distance\<close>: the configuration (\<open>ideal_artist\<close>, \<open>weights\<close> of
    \<open>artist_clustering.py\<close> lines 20-44; \<open>profiles\<close> of the modified script, lines 20-66,
    as a dict of \<open>cluster_cfg\<close> records), the weighted distance
    (\<open>calculate_distance_w\<close>, lines 47-60 of the first script, and
    \<open>calculate_all_distances_w\<close>, lines 62-65) and the unweighted one
    (\<open>calculate_distance\<close>, lines 70-82 of the second), each as the source's loop
    (\<open>distance_loop_w\<close>, \<open>distance_loop\<close>) with one body per iteration including the
    \<open>except ValueError\<close> branch; \<open>annotate_row\<close> is the inner loop of lines 93-96 that
    writes the \<open>Distance_to_<name>\<close> fields. Its lemmas show the loops compute sums,
    that distances are non-negative, zero exactly at the profile, independent of
    the order of the profile's features, and that a non-numeric value costs the
    ideal value (so a record with no numbers is at distance 0 from Not Ready).
  \<^item> \<open>Normalize\<close>: \<open>normalize_distances\<close> (lines 84-89) as an \<open>err_fold\<close> of
    \<open>normalize_column\<close> over the profile names, the column read, \<open>max\<close>, and the
    in-place division with Python's \<open>ZeroDivisionError\<close>; \<open>calculate_all_distances\<close>
    (lines 92-98) composes it with \<open>annotate_row\<close>. Its lemmas show every column ends
    in [0, 1] with maximum 1 when it succeeds, that it fails exactly with
    \<open>ZeroDivisionError\<close> when a column is all zero, the length of the data is kept,
    and normalisation is idempotent.
  \<^item> \<open>Milp\<close>: the part of \<open>gurobipy\<close> both scripts use, as data (\<open>milp\<close>,
    \<open>lin_constr\<close>) with its meaning (\<open>feasible\<close>, \<open>objective\<close>, \<open>optimal\<close>).
    \<open>model.optimize()\<close> is a parameter: any \<open>solver\<close> that meets \<open>solver_contract\<close>
    (Optimal means an optimal point, Incumbent a feasible one, Infeasible only when
    no point is feasible); \<open>read_X\<close> is \<open>Var.X\<close>, which raises when no solution is held.
    \<open>solve_enum\<close> is an executable solver, by enumeration of all 0/1 points, proved to
    meet the contract on every well-formed model, so the witnesses run whole
    pipelines.
  \<^item> \<open>Assignment\<close>: \<open>cluster_artists\<close> of the modified script: \<open>build_model\<close> is
    lines 101-124 (\<open>cluster_vars\<close>, \<open>obj_terms\<close>, \<open>assign_constrs\<close>, \<open>min_artists\<close>,
    \<open>min_constrs\<close>), \<open>assign_clusters\<close> lines 129-135 (\<open>select_cluster\<close>, the 0.5
    threshold and \<open>break\<close>), \<open>cluster_artists\<close> the whole function. The abstract
    specification is \<open>valid_assignment\<close> / \<open>assign_cost\<close> on cluster index lists; the
    refinement lemmas (\<open>valid_feasible\<close>, \<open>feasible_decode\<close>, \<open>objective_indicator\<close>)
    show the feasible 0/1 points are exactly the indicators of valid assignments,
    with equal cost; an exchange argument shows the effect of the Not Ready penalty.
  \<^item> \<open>SingleProfile\<close>: \<open>cluster_artists\<close> of \<open>artist_clustering.py\<close> (lines 68-89) as
    \<open>cluster_artists_single\<close>: \<open>build_ready_model\<close> (one variable per record, the
    objective of the Ready distances, the \<open>min_ready_artists\<close> constraint) and the
    labelling loop \<open>label_ready\<close>. The abstract problem is a selection (\<open>sel_valid\<close>,
    \<open>sel_cost\<close>); exchange arguments show an optimum holds the closest records, exactly
    \<open>min_ready_artists\<close> of them when distances are positive.
  \<^item> \<open>Report\<close>: both \<open>main\<close> functions without the file system and the console
    (\<open>main_single\<close>, lines 92-116 of \<open>artist_clustering.py\<close>; \<open>main_multi\<close>, lines 140-164
    of the modified script): load, score, cluster, the report loop (\<open>report_line\<close>,
    \<open>report_line_w\<close>, with their \<open>KeyError\<close>), the header \<open>clustered_data[0].keys()\<close>
    (\<open>csv_fieldnames\<close>, with its \<open>IndexError\<close>) and \<open>DictWriter\<close>'s rows
    (\<open>dict_writer_row\<close>, \<open>write_csv\<close>, with its \<open>ValueError\<close>). With the exact solver
    \<open>solve_enum\<close> its theorems give the whole run's result: the header is the input
    columns, the distance columns, then \<open>Cluster\<close>, one CSV row per record; an empty
    file crashes with \<open>IndexError\<close>.
  \<^item> \<open>Workflow\<close>: \<open>main\<close> of both scripts statement by statement, with what it writes
    in order: an inductive step relation \<open>main_step\<close> over \<open>main_state\<close> (the statement
    \<open>pc\<close> next to run, \<open>artist_data\<close>, the records the running \<open>for\<close> loop has left,
    the writer's \<open>fieldnames\<close>, and the \<open>trace\<close> of events: the progress messages, the
    \<open>Non-numeric value\<close> lines of \<open>calculate_distance\<close>, the report lines, the opening
    of the output file and each CSV line). The scripts differ only in a \<open>main_cfg\<close>
    (\<open>single_cfg\<close> writes \<open>clustered_artists.csv\<close>, \<open>multi_cfg\<close> writes
    \<open>modified_clustered_artists.csv\<close>); the distance loops are modelled again
    with their \<open>print\<close> calls (\<open>distance_loop_w_io\<close>, \<open>annotate_row_io\<close>, ...). Its lemmas
    show the machine is deterministic, never stuck before a final state, and
    well-founded (a lexicographic measure: statements left, then records left in the
    loop), so every run ends in one final state; that final state, read back by
    \<open>main_result_of\<close>, is the big-step result of \<open>Report\<close> (a simulation proved stage by
    stage: \<open>main_run_ok\<close>, \<open>main_run_exists\<close>); a finished run has printed
    \<open>Results saved ...\<close> last (an invariant of the steps). With the exact solver, the run of
    the first script reaches its end on good input, and the run of the modified script
    either reaches it or crashes with \<open>ZeroDivisionError\<close> before the output file is
    opened.

  \<^bold>\<open>Properties across components\<close> (this theory): in the modified script, after the
  configured profiles have been scored and normalised, an optimal solution places
  exactly the floor \<open>min_size n k\<close> of artists in Not Ready, since a Not Ready cell costs
  at least 10 and any other at most 1; in the first script, scoring with
  \<open>ideal_artist\<close> and \<open>weights\<close> and clustering with \<open>min_ready_artists=5\<close> labels every
  record, at least five Ready, the Ready ones closest to the ideal.

  \<^bold>\<open>Loops, fuel, bounds.\<close> Every loop of the scripts runs over a finite list and is
  structural recursion here; no fuel is needed. \<open>main\<close> as a step relation terminates
  by the measure (\<open>pc_rank\<close>, records left), ordered lexicographically. The solver is abstract; the
  enumeration solver terminates because it ranges over the \<open>2^N\<close> points of a finite
  variable list. Python floats are exact reals: rounding is not modelled.

  \<^bold>\<open>Not modelled.\<close> Opening and reading the CSV file (the model starts from the
  reader's rows; fields without a header name, the reader's \<open>restkey\<close>, are left out),
  the formatting of the \<open>print\<close> calls and the bytes \<open>csv.DictWriter\<close> writes (the trace
  keeps the values printed and written; the fixed messages are kept verbatim), Gurobi's
  own console log, what a crash leaves in a partly written file, non-ASCII digits and
  non-ASCII whitespace, the \<open>inf\<close>/\<open>infinity\<close>/\<open>nan\<close> spellings of
  \<open>float\<close> (their values are IEEE specials, not reals; a faithful model needs bit-level
  doubles throughout the distances, the normalisation and the solver's coefficients,
  and the model reads them as \<open>ValueError\<close> instead), floating-point rounding, and Gurobi's algorithm (only its contract).
\<close>

definition sample_data :: dataset where
  "sample_data = [[(''Artist Name'', PStr ''A''), (''Spotify Following'', PFloat 3000)],
                  [(''Artist Name'', PStr ''B''), (''TikTok Following'', PFloat 5)],
                  [(''Artist Name'', PStr ''C''), (''Instagram Following'', PStr ''n/a'')]]"

text \<open>Five records, as \<open>load_data\<close> could return them, for the single-profile pipeline.\<close>

definition sample_data5 :: dataset where
  "sample_data5 = map (\<lambda>n. [(''Artist Name'', PStr n), (''Spotify Following'', PFloat 800)])
                    [''A'', ''B'', ''C'', ''D'', ''E'']"

lemmas pipeline_eval = calculate_all_distances_def normalize_distances_def profiles_def
  normalize_column_def column_def divide_column_def divide_field_def distance_key_def
  calculate_distance_sum feature_term_def py_float_defs dict_keys_def sample_data_def

lemma sample_distances:
  "calculate_all_distances sample_data profiles = Inr (projr (calculate_all_distances sample_data profiles))"
  by (simp add: pipeline_eval)

lemma sample_build:
  "build_model (projr (calculate_all_distances sample_data profiles)) profiles =
     Inr (projr (build_model (projr (calculate_all_distances sample_data profiles)) profiles))"
  by (simp add: pipeline_eval build_model_def obj_terms_def cluster_vars_def cell_cost_def
                min_artists_def Let_def penalty_def)


text \<open>
  Claim C2: when the configured profiles are scored and normalised
  without error, the model is built, and the solver reports an optimal solution, then
  \<open>cluster_artists\<close> returns the records with exactly \<open>min_size n k\<close> of them labelled Not Ready,
  the least number its constraints allow.
\<close>

theorem pipeline_not_ready_floor:
  assumes dist: "calculate_all_distances data profiles = Inr data'"
    and build: "build_model data' profiles = Inr m" and contract: "solver_contract solve m"
    and opt: "solve m = Optimal x"
  shows "\<exists>out. cluster_artists solve data' profiles = Inr out \<and>
           length (filter (\<lambda>row. map_of row ''Cluster'' = Some (PStr ''Not Ready'')) out) =
             min_size (length data) (length profiles)"
proof -
  let ?names = "dict_keys profiles"
  let ?a = "decode (length data') (length profiles) x"
  let ?C = "cost_of data' ?names"
  have names: "?names = [''Ready'', ''Potential'', ''Not Ready'']" by (simp add: profiles_def dict_keys_def)
  have k: "length profiles = 3" by (simp add: profiles_def)
  have len: "length data' = length data"
    using dist normalize_distances_length by (simp add: calculate_all_distances_def)
  have unit: "list_all (\<lambda>(n, c). col_unit (distance_key n) data') profiles"
    using dist unfolding calculate_all_distances_def
    by (rule normalize_distances_unit [OF _ profiles_wf(1) annotated_col_nonneg [OF profiles_wf]])
  have u0: "col_unit (distance_key (?names ! 0)) data'" and u2: "col_unit (distance_key (?names ! 2)) data'"
    using unit by (simp_all add: profiles_def dict_keys_def)
  have low: "\<forall>i < length data'. ?C (i, 0) \<le> 1"
    using cost_of_unit [OF u0] by (simp add: names penalty_def)
  have high: "\<forall>i < length data'. 10 \<le> ?C (i, 2)"
    using cost_of_unit [OF u2] by (simp add: names penalty_def)
  have valid: "valid_assignment (length data') (length profiles) ?a"
    and optimal: "\<forall>b. valid_assignment (length data') (length profiles) b \<longrightarrow> assign_cost ?C ?a \<le> assign_cost ?C b"
    and res: "cluster_artists solve data' profiles = Inr (label_rows ?names ?a data')"
    using cluster_artists_optimal_decode [OF build contract opt] by blast+
  have cnt: "count_list ?a 2 = min_size (length data') (length profiles)"
    using optimal_not_ready_at_floor [OF valid optimal, of 2 0] low high k by simp
  have "length (filter (\<lambda>row. map_of row ''Cluster'' = Some (PStr (?names ! 2))) (label_rows ?names ?a data')) =
      count_list ?a 2"
  proof (rule label_rows_count)
    show "distinct ?names" by (simp add: names)
    have ln: "length ?names = 3" by (simp add: dict_keys_def k)
    then show "list_all (\<lambda>c. c < length ?names) ?a" using valid k by (simp add: valid_assignment_def)
    show "length ?a = length data'" using valid by (simp add: valid_assignment_def)
    show "2 < length ?names" using ln by simp
  qed
  then show ?thesis using res cnt len by (simp add: names)
qed

text \<open>Three records, one without any number, clustered by the enumeration solver: one is Not Ready.\<close>

theorem pipeline_not_ready_floor_witness:
  "\<exists>out. cluster_artists solve_enum (projr (calculate_all_distances sample_data profiles)) profiles = Inr out \<and>
     length (filter (\<lambda>row. map_of row ''Cluster'' = Some (PStr ''Not Ready'')) out) = 1"
proof -
  let ?d = "projr (calculate_all_distances sample_data profiles)"
  let ?m = "projr (build_model ?d profiles)"
  have wf: "wf_milp ?m" by (rule build_model_wf [OF sample_build])
  have len: "length ?d = 3"
    using normalize_distances_length sample_distances by (simp add: calculate_all_distances_def sample_data_def)
  have v: "valid_assignment (length ?d) (length profiles) [0, 1, 2]"
    using len by (simp add: valid_assignment_def profiles_def min_size_def)
  obtain x where x: "solve_enum ?m = Optimal x"
    using solve_enum_finds [OF wf valid_feasible [OF sample_build v]] by blast
  have "min_size (length sample_data) (length profiles) = 1"
    by (simp add: sample_data_def profiles_def min_size_def)
  then show ?thesis
    using pipeline_not_ready_floor [OF sample_distances sample_build solve_enum_contract [OF wf] x] by simp
qed


text \<open>
  Claim C9: in \<open>artist_clustering.py\<close>, scoring the records against
  \<open>ideal_artist\<close> with \<open>weights\<close> and clustering with \<open>min_ready_artists=5\<close>, as \<open>main\<close> does,
  an optimal solution labels every record, at least five of them Ready, and every Ready
  record is at least as close to the ideal artist as every Not Ready record.
\<close>

theorem pipeline_single_ready:
  assumes build: "build_ready_model (calculate_all_distances_w data ideal_artist weights) 5 = Inr m"
    and contract: "solver_contract solve m" and opt: "solve m = Optimal x"
  shows "\<exists>out. cluster_artists_single solve (calculate_all_distances_w data ideal_artist weights) 5 = Inr out \<and>
           length out = length data \<and>
           5 \<le> length (filter (\<lambda>row. map_of row ''Cluster'' = Some (PStr ''Ready'')) out) \<and>
           (\<forall>i < length out. \<forall>j < length out.
              map_of (out ! i) ''Cluster'' = Some (PStr ''Ready'') \<and>
              map_of (out ! j) ''Cluster'' = Some (PStr ''Not Ready'') \<longrightarrow>
              calculate_distance_w (data ! i) ideal_artist weights \<le> calculate_distance_w (data ! j) ideal_artist weights)"
proof -
  let ?D = "calculate_all_distances_w data ideal_artist weights"
  let ?ds = "map (\<lambda>row. calculate_distance_w row ideal_artist weights) data"
  let ?s = "sel_decode (length ?D) x"
  have lenD: "length ?D = length data" by (simp add: calculate_all_distances_w_def)
  note d = cluster_artists_single_optimal_decode [OF build contract opt column_calculate_all_distances_w]
  have lens: "length ?s = length data" using lenD by (simp add: sel_decode_def)
  have cnt: "5 \<le> count_list ?s True" using d(1) by (simp add: sel_valid_def)
  have close: "calculate_distance_w (data ! i) ideal_artist weights \<le> calculate_distance_w (data ! j) ideal_artist weights"
    if "i < length data" "j < length data" "map_of (label_sel ?s ?D ! i) ''Cluster'' = Some (PStr ''Ready'')"
       "map_of (label_sel ?s ?D ! j) ''Cluster'' = Some (PStr ''Not Ready'')" for i j
  proof -
    have "?s ! i" and "\<not> ?s ! j"
      using that label_sel_cluster [of _ ?s ?D] lens lenD by (auto split: if_splits)
    then have "?ds ! i \<le> ?ds ! j" using optimal_sel_closest [OF d(1,2)] that(1,2) lenD by simp
    then show ?thesis using that(1,2) by simp
  qed
  show ?thesis
    using d(3) label_sel_count [of ?s ?D] lens lenD cnt close by auto
qed

text \<open>Five records clustered by the enumeration solver: all five are Ready.\<close>

theorem pipeline_single_ready_witness:
  "\<exists>out. cluster_artists_single solve_enum (calculate_all_distances_w sample_data5 ideal_artist weights) 5 = Inr out \<and>
     length out = 5 \<and> 5 \<le> length (filter (\<lambda>row. map_of row ''Cluster'' = Some (PStr ''Ready'')) out)"
proof -
  let ?D = "calculate_all_distances_w sample_data5 ideal_artist weights"
  obtain m where build: "build_ready_model ?D 5 = Inr m" using build_ready_model_distances_w by blast
  have wf: "wf_milp m" by (rule build_ready_model_wf [OF build])
  have len: "length ?D = 5" by (simp add: calculate_all_distances_w_def sample_data5_def)
  have "sel_valid (length ?D) 5 (replicate 5 True)" using len by (simp add: sel_valid_def)
  then obtain x where x: "solve_enum m = Optimal x"
    using solve_enum_finds [OF wf sel_valid_feasible [OF build]] by blast
  obtain out where "cluster_artists_single solve_enum ?D 5 = Inr out" and "length out = length sample_data5"
      and "5 \<le> length (filter (\<lambda>row. map_of row ''Cluster'' = Some (PStr ''Ready'')) out)"
    using pipeline_single_ready [OF build solve_enum_contract [OF wf] x] by blast
  moreover have "length sample_data5 = 5" by (simp add: sample_data5_def)
  ultimately show ?thesis by auto
qed

end
